(* ===== verification/Prelude.thy ===== *)
theory Prelude
  imports Main
begin

text \<open>
  Shared vocabulary of the development: the Python exceptions the modelled code can
  raise, the error monad that threads them through a forward pass (\<open>ebind\<close>), the
  \<open>for idx, x in enumerate(xs)\<close> loop with early exit (\<open>enum_loop\<close>), Python's
  insertion-ordered \<open>dict\<close> as an association list (\<open>dict_set\<close>), and \<open>str\<close> on
  natural numbers (\<open>nat_str\<close>) as used by the f-strings that build the output keys.
  The generic lemmas about them are declared \<open>[simp]\<close> or collected in
  \<open>model_simps\<close>, so that the component theories use them by name.
\<close>

named_theorems model_simps "definitional unfolding rules of the model's operations"

section \<open>Exceptions and the error monad\<close>

text \<open>
  The exceptions raised on the paths the code can take: \<open>EinopsError\<close> from
  \<open>einops.rearrange\<close> (wrong rank, an axis that does not divide), \<open>RuntimeError\<close>
  from torch (a channel or size mismatch in a layer), \<open>ValueError\<close> from tuple
  unpacking of a shape of the wrong length, \<open>TypeError\<close> from arithmetic on
  \<open>None\<close>, \<open>ZeroDivisionError\<close> from \<open>//\<close>, \<open>IndexError\<close> from indexing an
  empty tuple, \<open>KeyError\<close> from reading a missing dictionary key,
  \<open>AssertionError\<close> from an \<open>assert\<close> in a library layer.
\<close>

datatype error =
    EinopsError
  | RuntimeError
  | ValueError
  | TypeError
  | ZeroDivisionError
  | IndexError
  | KeyError
  | AssertionError

type_synonym 'a result = "error + 'a"

definition ebind :: "'e + 'a \<Rightarrow> ('a \<Rightarrow> 'e + 'b) \<Rightarrow> 'e + 'b" where
  "ebind m f = (case m of Inl e \<Rightarrow> Inl e | Inr x \<Rightarrow> f x)"

lemma ebind_Inl [simp]: "ebind (Inl e) f = Inl e"
  by (simp add: ebind_def)

lemma ebind_Inr [simp]: "ebind (Inr x) f = f x"
  by (simp add: ebind_def)

lemma ebind_eq_Inr_iff: "ebind m f = Inr y \<longleftrightarrow> (\<exists>x. m = Inr x \<and> f x = Inr y)"
  by (cases m) (simp_all add: ebind_def)

lemma ebind_eq_Inl_iff:
  "ebind m f = Inl e \<longleftrightarrow> m = Inl e \<or> (\<exists>x. m = Inr x \<and> f x = Inl e)"
  by (cases m) (simp_all add: ebind_def)

lemma ebind_Inr_right [simp]: "ebind m Inr = m"
  by (cases m) simp_all

lemma ebind_cong_Inr: "m = Inr x \<Longrightarrow> ebind m f = f x"
  by simp

text \<open>Python's \<open>a // b\<close> on integers: floor division, \<open>ZeroDivisionError\<close> for \<open>b = 0\<close>.
  HOL's \<open>div\<close> on \<open>int\<close> rounds toward negative infinity, as Python does.\<close>

definition py_floordiv :: "int \<Rightarrow> int \<Rightarrow> int result" where
  "py_floordiv a b = (if b = 0 then Inl ZeroDivisionError else Inr (a div b))"

lemma py_floordiv_simps [simp]:
  "b \<noteq> 0 \<Longrightarrow> py_floordiv a b = Inr (a div b)"
  "py_floordiv a 0 = Inl ZeroDivisionError"
  by (simp_all add: py_floordiv_def)

text \<open>\<open>bs, c, f, h, w = x.shape\<close> that did not raise: the shape has five entries.\<close>

lemma case_list5_Inr:
  assumes "(case xs of [a, b, c, d, e] \<Rightarrow> f a b c d e | _ \<Rightarrow> Inl err) = Inr y"
  shows "\<exists>a b c d e. xs = [a, b, c, d, e] \<and> f a b c d e = Inr y"
  using assms by (auto split: list.splits)

lemma case_list5_not5:
  "\<not> (\<exists>a b c d e. xs = [a, b, c, d, e]) \<Longrightarrow>
   (case xs of [a, b, c, d, e] \<Rightarrow> f a b c d e | _ \<Rightarrow> Inl err) = Inl err"
  by (auto split: list.split)

text \<open>Two raising computations related by \<open>rel_sum (=) R\<close> raise the same exception or
  both return, with related values.\<close>

lemma rel_sum_ebind:
  "rel_sum (=) R m1 m2 \<Longrightarrow> (\<And>x1 x2. R x1 x2 \<Longrightarrow> rel_sum (=) S (f1 x1) (f2 x2)) \<Longrightarrow>
   rel_sum (=) S (ebind m1 f1) (ebind m2 f2)"
  by (cases m1; cases m2) auto

lemma rel_sum_ebind_same:
  "(\<And>x. rel_sum (=) S (f1 x) (f2 x)) \<Longrightarrow> rel_sum (=) S (ebind m f1) (ebind m f2)"
  by (cases m) auto

section \<open>The enumerate loop\<close>

text \<open>
  \<open>for idx, x in enumerate(xs): s = body(idx, x, s)\<close>, where a raise in the body ends
  the loop with that exception. The index starts at the given value.
\<close>

fun enum_loop :: "(nat \<Rightarrow> 'b \<Rightarrow> 's \<Rightarrow> 'e + 's) \<Rightarrow> nat \<Rightarrow> 'b list \<Rightarrow> 's \<Rightarrow> 'e + 's" where
  "enum_loop body i [] s = Inr s"
| "enum_loop body i (x # xs) s = ebind (body i x s) (enum_loop body (Suc i) xs)"

lemma enum_loop_Nil_fun [simp]: "enum_loop body i [] = Inr"
  by (rule ext) simp

text \<open>
  The loop rule: an invariant \<open>P\<close> indexed by the number of iterations done, which
  the body keeps and under which the body never raises, holds at the end, and the
  loop returns.
\<close>

lemma enum_loop_invariant:
  assumes step: "\<And>k x s. k < length xs \<Longrightarrow> x = xs ! k \<Longrightarrow> P k s \<Longrightarrow>
                   \<exists>s'. body (i + k) x s = Inr s' \<and> P (Suc k) s'"
    and start: "P 0 s"
  shows "\<exists>s'. enum_loop body i xs s = Inr s' \<and> P (length xs) s'"
  using step start
proof (induction xs arbitrary: i s P)
  case Nil
  then show ?case by simp
next
  case (Cons x xs)
  from Cons.prems(1) [of 0 x s] Cons.prems(2)
  obtain s1 where s1: "body i x s = Inr s1" and p1: "P 1 s1" by auto
  let ?Q = "\<lambda>k. P (Suc k)"
  have "\<exists>s'. enum_loop body (Suc i) xs s1 = Inr s' \<and> ?Q (length xs) s'"
  proof (rule Cons.IH)
    fix k y t
    assume "k < length xs" "y = xs ! k" "?Q k t"
    then show "\<exists>s'. body (Suc i + k) y t = Inr s' \<and> ?Q (Suc k) s'"
      using Cons.prems(1) [of "Suc k" y t] by simp
  next
    show "?Q 0 s1" using p1 by simp
  qed
  then show ?case using s1 by simp
qed

text \<open>Splitting the iterated list: the loop over \<open>xs @ ys\<close> runs \<open>ys\<close> from the
  state the loop over \<open>xs\<close> ends in, with the index continued.\<close>

lemma enum_loop_append:
  "enum_loop body i (xs @ ys) s = ebind (enum_loop body i xs s) (enum_loop body (i + length xs) ys)"
  by (induction xs arbitrary: i s) (auto simp: ebind_def split: sum.splits)

text \<open>Two loops whose bodies agree on the iterations that run compute the same.\<close>

lemma enum_loop_cong:
  "(\<And>k s. k < length xs \<Longrightarrow> body1 (i + k) (xs ! k) s = body2 (i + k) (xs ! k) s) \<Longrightarrow>
   enum_loop body1 i xs s = enum_loop body2 i xs s"
proof (induction xs arbitrary: i s)
  case Nil
  then show ?case by simp
next
  case (Cons x xs)
  have hd: "body1 i x s' = body2 i x s'" for s'
    using Cons.prems [of 0 s'] by simp
  have tl: "enum_loop body1 (Suc i) xs = enum_loop body2 (Suc i) xs"
    by (rule ext, rule Cons.IH) (use Cons.prems [of "Suc _"] in simp)
  show ?case by (simp add: hd tl)
qed

text \<open>
  A simulation: if every iteration of the first loop that returns is matched by an
  iteration of the second that returns in a related state, a returning run of the
  first loop is matched by a returning run of the second.
\<close>

lemma enum_loop_simulation:
  assumes step: "\<And>k s1 s2 s1'. k < length xs \<Longrightarrow> R s1 s2 \<Longrightarrow> body1 (i + k) (xs ! k) s1 = Inr s1' \<Longrightarrow>
                   \<exists>s2'. body2 (i + k) (xs ! k) s2 = Inr s2' \<and> R s1' s2'"
    and run: "enum_loop body1 i xs s1 = Inr t1"
    and rel: "R s1 s2"
  shows "\<exists>t2. enum_loop body2 i xs s2 = Inr t2 \<and> R t1 t2"
  using step run rel
proof (induction xs arbitrary: i s1 s2)
  case Nil
  then show ?case by simp
next
  case (Cons x xs)
  from Cons.prems(2) obtain s1' where b1: "body1 i x s1 = Inr s1'"
    and r1: "enum_loop body1 (Suc i) xs s1' = Inr t1"
    by (auto simp: ebind_eq_Inr_iff)
  from Cons.prems(1) [of 0 s1 s2 s1'] b1 Cons.prems(3)
  obtain s2' where b2: "body2 i x s2 = Inr s2'" and rel': "R s1' s2'" by auto
  have "\<exists>t2. enum_loop body2 (Suc i) xs s2' = Inr t2 \<and> R t1 t2"
  proof (rule Cons.IH [OF _ r1 rel'])
    fix k u1 u2 u1'
    assume "k < length xs" "R u1 u2" "body1 (Suc i + k) (xs ! k) u1 = Inr u1'"
    then show "\<exists>u2'. body2 (Suc i + k) (xs ! k) u2 = Inr u2' \<and> R u1' u2'"
      using Cons.prems(1) [of "Suc k" u1 u2 u1'] by simp
  qed
  then show ?case using b2 by simp
qed

text \<open>
  The rule for a loop that returned, whatever its inputs: a property indexed by the
  number of iterations done, kept by every iteration that returns, holds at the end.
  Unlike \<open>enum_loop_invariant\<close> it does not ask the body to return.
\<close>

lemma enum_loop_Inr_induct:
  assumes run: "enum_loop body i xs s = Inr t"
    and start: "P 0 s"
    and step: "\<And>k s s'. k < length xs \<Longrightarrow> P k s \<Longrightarrow> body (i + k) (xs ! k) s = Inr s' \<Longrightarrow> P (Suc k) s'"
  shows "P (length xs) t"
  using run start step
proof (induction xs arbitrary: i s P)
  case Nil
  then show ?case by simp
next
  case (Cons x xs)
  from Cons.prems(1) obtain s1 where b: "body i x s = Inr s1"
    and r: "enum_loop body (Suc i) xs s1 = Inr t"
    by (auto simp: ebind_eq_Inr_iff)
  have "P 1 s1" using Cons.prems(3) [of 0 s s1] Cons.prems(2) b by simp
  have "(\<lambda>k. P (Suc k)) (length xs) t"
  proof (rule Cons.IH [OF r])
    show "P (Suc 0) s1" using \<open>P 1 s1\<close> by simp
    show "\<And>k u u'. k < length xs \<Longrightarrow> P (Suc k) u \<Longrightarrow> body (Suc i + k) (xs ! k) u = Inr u' \<Longrightarrow>
            P (Suc (Suc k)) u'"
      using Cons.prems(3) by fastforce
  qed
  then show ?case by simp
qed

text \<open>The loop raises exactly when some iteration raises: the first error wins.\<close>

lemma enum_loop_Inl_first:
  assumes "k < length xs"
    and "\<And>j s. j < k \<Longrightarrow> P j s \<Longrightarrow> \<exists>s'. body (i + j) (xs ! j) s = Inr s' \<and> P (Suc j) s'"
    and "\<And>s. P k s \<Longrightarrow> body (i + k) (xs ! k) s = Inl e"
    and "P 0 s"
  shows "enum_loop body i xs s = Inl e"
  using assms
proof (induction xs arbitrary: i k s P)
  case Nil
  then show ?case by simp
next
  case (Cons x xs)
  show ?case
  proof (cases k)
    case 0
    with Cons.prems(3,4) show ?thesis by simp
  next
    case (Suc k')
    from Cons.prems(2) [of 0 s] Cons.prems(4) Suc
    obtain s1 where s1: "body i x s = Inr s1" and p1: "P 1 s1" by auto
    have "enum_loop body (Suc i) xs s1 = Inl e"
    proof (rule Cons.IH [where P = "\<lambda>j. P (Suc j)" and k = k'])
      show "k' < length xs" using Cons.prems(1) Suc by simp
      show "\<And>j t. j < k' \<Longrightarrow> P (Suc j) t \<Longrightarrow>
              \<exists>s'. body (Suc i + j) (xs ! j) t = Inr s' \<and> P (Suc (Suc j)) s'"
        using Cons.prems(2) Suc by fastforce
      show "\<And>t. P (Suc k') t \<Longrightarrow> body (Suc i + k') (xs ! k') t = Inl e"
        using Cons.prems(3) Suc by simp
      show "P (Suc 0) s1" using p1 by simp
    qed
    then show ?thesis using s1 by simp
  qed
qed

text \<open>Two loops run in lockstep: when each pair of iterations raises the same exception
  or keeps the related states related, so do the loops.\<close>

lemma enum_loop_lockstep:
  assumes "length ys = length xs"
    and "\<And>k s1 s2. k < length xs \<Longrightarrow> R k s1 s2 \<Longrightarrow>
           rel_sum (=) (R (Suc k)) (body1 (i + k) (xs ! k) s1) (body2 (i + k) (ys ! k) s2)"
    and "R 0 s1 s2"
  shows "rel_sum (=) (R (length xs)) (enum_loop body1 i xs s1) (enum_loop body2 i ys s2)"
  using assms
proof (induction xs arbitrary: ys i s1 s2 R)
  case Nil
  then show ?case by simp
next
  case (Cons x xs)
  then obtain y ys' where ys: "ys = y # ys'" "length ys' = length xs"
    by (cases ys) auto
  have hd: "rel_sum (=) (R 1) (body1 i x s1) (body2 i y s2)"
    using Cons.prems(2) [of 0 s1 s2] Cons.prems(3) ys(1) by simp
  have "rel_sum (=) ((\<lambda>k. R (Suc k)) (length xs))
          (enum_loop body1 (Suc i) xs t1) (enum_loop body2 (Suc i) ys' t2)"
    if "R 1 t1 t2" for t1 t2
  proof (rule Cons.IH [OF ys(2)])
    show "\<And>k s1 s2. k < length xs \<Longrightarrow> R (Suc k) s1 s2 \<Longrightarrow>
            rel_sum (=) (R (Suc (Suc k))) (body1 (Suc i + k) (xs ! k) s1) (body2 (Suc i + k) (ys' ! k) s2)"
      using Cons.prems(2) ys(1) by fastforce
    show "R (Suc 0) t1 t2" using that by simp
  qed
  then show ?case using hd ys(1) by (auto intro: rel_sum_ebind)
qed

text \<open>\<open>len(xs) - idx - 1\<close> over \<open>idx in range(len(xs))\<close> counts down.\<close>

lemma map_countdown_upt: "map (\<lambda>i. n - i - 1) [0..<n] = rev [0..<n]"
proof (induction n)
  case 0
  then show ?case by simp
next
  case (Suc n)
  have "map (\<lambda>i. Suc n - i - 1) [0..<Suc n] = n # map (\<lambda>i. n - i - 1) [0..<n]"
    by (simp add: upt_conv_Cons map_Suc_upt [symmetric] del: upt_Suc)
  then show ?case using Suc.IH by simp
qed

section \<open>Python dictionaries\<close>

text \<open>
  A Python \<open>dict\<close> keeps its keys in insertion order, and \<open>d[k] = v\<close> replaces the
  value of an existing key in place and appends a new key at the end.
\<close>

type_synonym ('k, 'v) dict = "('k \<times> 'v) list"

fun dict_set :: "('k, 'v) dict \<Rightarrow> 'k \<Rightarrow> 'v \<Rightarrow> ('k, 'v) dict" where
  "dict_set [] k v = [(k, v)]"
| "dict_set ((k', v') # d) k v =
     (if k' = k then (k, v) # d else (k', v') # dict_set d k v)"

definition dict_keys :: "('k, 'v) dict \<Rightarrow> 'k list" where
  "dict_keys d = map fst d"

lemma map_of_dict_set [simp]: "map_of (dict_set d k v) = (map_of d)(k \<mapsto> v)"
  by (induction d) (auto simp: fun_eq_iff)

lemma dict_keys_dict_set:
  "dict_keys (dict_set d k v) =
     (if k \<in> set (dict_keys d) then dict_keys d else dict_keys d @ [k])"
  by (induction d) (force simp: dict_keys_def)+

lemma dict_keys_dict_set_new [simp]:
  "k \<notin> set (dict_keys d) \<Longrightarrow> dict_keys (dict_set d k v) = dict_keys d @ [k]"
  by (simp add: dict_keys_dict_set)

lemma dict_keys_dict_set_old [simp]:
  "k \<in> set (dict_keys d) \<Longrightarrow> dict_keys (dict_set d k v) = dict_keys d"
  by (simp add: dict_keys_dict_set)

lemma dict_keys_Nil [simp]: "dict_keys [] = []"
  by (simp add: dict_keys_def)

lemma distinct_dict_keys_dict_set [simp]:
  "distinct (dict_keys d) \<Longrightarrow> distinct (dict_keys (dict_set d k v))"
  by (simp add: dict_keys_dict_set)

text \<open>\<open>d[k]\<close> as an expression: \<open>KeyError\<close> for a missing key.\<close>

definition dict_get :: "('k, 'v) dict \<Rightarrow> 'k \<Rightarrow> 'v result" where
  "dict_get d k = (case map_of d k of None \<Rightarrow> Inl KeyError | Some v \<Rightarrow> Inr v)"

lemma dict_get_dict_set_same [simp]: "dict_get (dict_set d k v) k = Inr v"
  by (simp add: dict_get_def)

lemma dict_get_dict_set_other [simp]: "k' \<noteq> k \<Longrightarrow> dict_get (dict_set d k v) k' = dict_get d k'"
  by (simp add: dict_get_def)

lemma dict_set_new: "k \<notin> set (dict_keys d) \<Longrightarrow> dict_set d k v = d @ [(k, v)]"
  by (induction d) (auto simp: dict_keys_def)

lemma set_dict_keys: "set (dict_keys d) = dom (map_of d)"
  by (simp add: dict_keys_def dom_map_of_conv_image_fst)

lemma set_dict_set: "set (dict_set d k v) \<subseteq> insert (k, v) (set d)"
  by (induction d) (auto split: if_splits)

section \<open>\<open>str\<close> on natural numbers\<close>

text \<open>
  \<open>f'down_{idx}'\<close> formats \<open>idx\<close> with \<open>str\<close>: its decimal digits, most
  significant first, with no leading zeros.
\<close>

definition digit_char :: "nat \<Rightarrow> char" where
  "digit_char d = char_of (48 + d)"

fun nat_str :: "nat \<Rightarrow> string" where
  "nat_str n = (if n < 10 then [digit_char n] else nat_str (n div 10) @ [digit_char (n mod 10)])"

declare nat_str.simps [simp del]

text \<open>\<open>int(s)\<close> on a string of decimal digits, the inverse of \<open>nat_str\<close>.\<close>

definition parse_nat :: "string \<Rightarrow> nat" where
  "parse_nat s = foldl (\<lambda>acc c. 10 * acc + (of_char c - 48)) 0 s"

lemma of_char_digit_char: "d < 10 \<Longrightarrow> of_char (digit_char d) = 48 + d"
  by (simp add: digit_char_def)

lemma parse_nat_snoc: "parse_nat (s @ [c]) = 10 * parse_nat s + (of_char c - 48)"
  by (simp add: parse_nat_def)

lemma parse_nat_nat_str [simp]: "parse_nat (nat_str n) = n"
proof (induction n rule: nat_str.induct)
  case (1 n)
  show ?case
  proof (cases "n < 10")
    case True
    then show ?thesis
      by (simp add: nat_str.simps [of n] parse_nat_def of_char_digit_char)
  next
    case False
    then have "parse_nat (nat_str (n div 10)) = n div 10" using "1.IH" by simp
    with False show ?thesis
      by (simp add: nat_str.simps [of n] parse_nat_snoc of_char_digit_char)
  qed
qed

lemma nat_str_inj [simp]: "nat_str m = nat_str n \<longleftrightarrow> m = n"
  by (metis parse_nat_nat_str)

lemma nat_str_digits [simp]:
  "nat_str 0 = ''0''" "nat_str 1 = ''1''" "nat_str 2 = ''2''" "nat_str 3 = ''3''"
  by (simp_all add: nat_str.simps digit_char_def char_of_eq_iff)

lemma nat_str_not_Nil [simp]: "nat_str n \<noteq> []"
  by (subst nat_str.simps) simp

section \<open>Rows of flat buffers\<close>

text \<open>A row-major buffer built row by row from rows of one width: skipping \<open>i\<close> rows
  skips \<open>i\<close> of the generators, and row \<open>i\<close> is the \<open>i\<close>-th generated row.\<close>

lemma length_concat_const:
  "(\<And>x. x \<in> set xs \<Longrightarrow> length (f x) = n) \<Longrightarrow> length (concat (map f xs)) = length xs * n"
  by (induction xs) auto

lemma drop_concat_const:
  "(\<And>x. x \<in> set xs \<Longrightarrow> length (f x) = n) \<Longrightarrow>
   drop (i * n) (concat (map f xs)) = concat (map f (drop i xs))"
proof (induction xs arbitrary: i)
  case Nil
  then show ?case by simp
next
  case (Cons x xs)
  then show ?case by (cases i) (simp_all add: drop_append)
qed

lemma chunk_concat_const:
  assumes "\<And>x. x \<in> set xs \<Longrightarrow> length (f x) = n" "i < length xs"
  shows "take n (drop (i * n) (concat (map f xs))) = f (xs ! i)"
proof -
  have "drop i xs = xs ! i # drop (Suc i) xs"
    using assms(2) by (rule Cons_nth_drop_Suc [symmetric])
  moreover have "length (f (xs ! i)) = n"
    using assms by simp
  ultimately show ?thesis
    using drop_concat_const [of xs f n i, OF assms(1)] by simp
qed

lemma take_drop_take_drop:
  "j + c \<le> L \<Longrightarrow> take c (drop j (take L (drop s xs))) = take c (drop (s + j) xs)"
  by (simp add: drop_take take_take min_def add.commute)

end
