(* ===== verification/Tensor.thy ===== *)
theory Tensor
  imports Prelude
begin

text \<open>
  Tensors as torch stores them: a shape and a row-major (C-contiguous) buffer. A tensor
  of shape \<open>[d\<^sub>0, \<dots>, d\<^sub>k]\<close> is well formed when its buffer holds
  \<open>d\<^sub>0 * \<dots> * d\<^sub>k\<close> elements. The element type is a type variable; the
  model fixes no floating-point format (the \<open>.to(dtype=...)\<close> casts of the source are
  identities here). This theory holds the buffer-level operations the einops patterns
  and the layers are built from: a reshape (which keeps the buffer), the exchange of
  two adjacent axis groups (which is what every permute of the source does), scalar
  multiplication, and concatenation along an axis.
\<close>

record 'a tensor =
  shape :: "nat list"
  data :: "'a list"

definition numel :: "nat list \<Rightarrow> nat" where
  "numel s = prod_list s"

definition tensor_wf :: "'a tensor \<Rightarrow> bool" where
  "tensor_wf t \<longleftrightarrow> length (data t) = numel (shape t)"

lemma numel_simps [simp]:
  "numel [] = 1"
  "numel (d # s) = d * numel s"
  by (simp_all add: numel_def)

section \<open>Mixed-radix indices\<close>

text \<open>
  Row-major position arithmetic: an index of an axis of extent \<open>R\<close> below an index
  \<open>q\<close> of the axes above it sits at \<open>q * R + r\<close>.
\<close>

lemma mixed_div [simp]: "r < R \<Longrightarrow> (q * R + r) div R = (q::nat)"
  by simp

lemma mixed_mod [simp]: "r < R \<Longrightarrow> (q * R + r) mod R = (r::nat)"
  by simp

lemma mixed_bound: "q < Q \<Longrightarrow> r < R \<Longrightarrow> q * R + r < Q * (R::nat)"
proof -
  assume "q < Q" "r < R"
  then have "q * R + r < q * R + R" by simp
  also have "\<dots> = Suc q * R" by simp
  also have "\<dots> \<le> Q * R" using \<open>q < Q\<close> by (intro mult_le_mono1) simp
  finally show ?thesis .
qed

lemma Suc_mult_le: "a < A \<Longrightarrow> Suc a * L \<le> A * (L::nat)"
  by (intro mult_le_mono1) simp

lemma mixed_decomp: "(j div R) * R + j mod R = (j::nat)"
  by simp

section \<open>Exchanging two adjacent axis groups\<close>

text \<open>
  A buffer laid out as \<open>[A, M, N, R]\<close> becomes one laid out as \<open>[A, N, M, R]\<close>: the
  element at \<open>(a, n, m, r)\<close> of the result is the element at \<open>(a, m, n, r)\<close> of the
  input. \<open>swap_src M N R j\<close> is the input position read for result position \<open>j\<close>.
  Every \<open>permute\<close> that einops performs for the patterns of the source is of this form
  (\<open>R\<close> collects the trailing axes, \<open>A\<close> the leading ones).
\<close>

definition swap_src :: "nat \<Rightarrow> nat \<Rightarrow> nat \<Rightarrow> nat \<Rightarrow> nat" where
  "swap_src M N R j =
     (let r = j mod R; q = j div R;
          m = q mod M; n = q div M mod N; a = q div M div N
      in ((a * M + m) * N + n) * R + r)"

definition swap_axes :: "nat \<Rightarrow> nat \<Rightarrow> nat \<Rightarrow> 'a list \<Rightarrow> 'a list" where
  "swap_axes M N R xs = map (\<lambda>j. xs ! swap_src M N R j) [0..<length xs]"

lemma length_swap_axes [simp]: "length (swap_axes M N R xs) = length xs"
  by (simp add: swap_axes_def)

lemma swap_src_at:
  assumes "m < M" "n < N" "r < R"
  shows "swap_src M N R (((a * N + n) * M + m) * R + r) = ((a * M + m) * N + n) * R + r"
  using assms by (simp add: swap_src_def Let_def)

text \<open>Every position below \<open>A * M * N * R\<close> has its coordinates in range.\<close>

lemma index_decomp:
  assumes "j < A * M * N * (R::nat)"
  obtains a m n r where "a < A" "m < M" "n < N" "r < R"
    and "j = ((a * M + m) * N + n) * R + r"
proof -
  from assms have "A * M * N * R \<noteq> 0" by linarith
  then have R: "0 < R" and N: "0 < N" and M: "0 < M" by simp_all
  let ?r = "j mod R" and ?n = "j div R mod N" and ?m = "j div R div N mod M"
    and ?a = "j div R div N div M"
  have "j div R < A * M * N" using assms by (simp add: less_mult_imp_div_less)
  then have "j div R div N < A * M" by (simp add: less_mult_imp_div_less)
  then have a: "?a < A" by (simp add: less_mult_imp_div_less)
  have dec: "j = ((?a * M + ?m) * N + ?n) * R + ?r"
    by (simp add: mixed_decomp)
  show ?thesis
    by (rule that [OF a _ _ _ dec]) (simp_all add: M N R)
qed

lemma swap_src_less:
  assumes "j < A * M * N * R"
  shows "swap_src N M R j < A * M * N * R"
proof -
  obtain a m n r where "a < A" "m < M" "n < N" "r < R"
    and j: "j = ((a * M + m) * N + n) * R + r"
    using assms by (rule index_decomp)
  then have "swap_src N M R j = ((a * N + n) * M + m) * R + r"
    by (simp add: swap_src_at)
  also have "\<dots> < ((A * N) * M) * R"
    by (intro mixed_bound) (simp_all add: \<open>a < A\<close> \<open>m < M\<close> \<open>n < N\<close> \<open>r < R\<close>)
  finally show ?thesis by (simp add: ac_simps)
qed

lemma swap_src_inverse:
  assumes "j < A * M * N * R"
  shows "swap_src M N R (swap_src N M R j) = j"
proof -
  obtain a m n r where "a < A" "m < M" "n < N" "r < R"
    and j: "j = ((a * M + m) * N + n) * R + r"
    using assms by (rule index_decomp)
  then show ?thesis by (simp add: swap_src_at)
qed

text \<open>The element at coordinates \<open>(a, n, m, r)\<close> of the result.\<close>

lemma nth_swap_axes:
  assumes "m < M" "n < N" "r < R" "((a * N + n) * M + m) * R + r < length xs"
  shows "swap_axes M N R xs ! (((a * N + n) * M + m) * R + r) = xs ! (((a * M + m) * N + n) * R + r)"
  using assms by (simp add: swap_axes_def swap_src_at)

text \<open>Exchanging the axes back restores the buffer.\<close>

lemma swap_axes_swap_axes:
  assumes "length xs = A * M * N * R"
  shows "swap_axes N M R (swap_axes M N R xs) = xs"
proof (rule nth_equalityI)
  show "length (swap_axes N M R (swap_axes M N R xs)) = length xs" by simp
next
  fix j assume "j < length (swap_axes N M R (swap_axes M N R xs))"
  then have j: "j < A * M * N * R" using assms by simp
  have lt: "swap_src N M R j < length xs"
    using swap_src_less [OF j] assms by simp
  show "swap_axes N M R (swap_axes M N R xs) ! j = xs ! j"
    using j lt assms by (simp add: swap_axes_def swap_src_inverse)
qed

section \<open>Elementwise scaling\<close>

text \<open>\<open>t * c\<close> for a tensor and a Python float: every element multiplied.\<close>

definition tensor_scale :: "'a::times tensor \<Rightarrow> 'a \<Rightarrow> 'a tensor" where
  "tensor_scale t c = t\<lparr>data := map (\<lambda>x. x * c) (data t)\<rparr>"

lemma tensor_scale_simps [simp]:
  "shape (tensor_scale t c) = shape t"
  "data (tensor_scale t c) = map (\<lambda>x. x * c) (data t)"
  by (simp_all add: tensor_scale_def)

lemma tensor_wf_scale [simp]: "tensor_wf (tensor_scale t c) = tensor_wf t"
  by (simp add: tensor_wf_def)

section \<open>Concatenation\<close>

text \<open>
  \<open>torch.cat([x, y], dim=k)\<close>: both tensors have the same rank, \<open>k\<close> is one of
  their axes, and they agree on every other axis; otherwise torch raises a
  \<open>RuntimeError\<close>. With \<open>A\<close> the product of the axes before \<open>k\<close> and \<open>R\<close>
  the product of those after it, the result holds, for each of the \<open>A\<close> leading
  positions, the slab of \<open>x\<close> followed by the slab of \<open>y\<close>.
\<close>

definition cat_data :: "nat \<Rightarrow> nat \<Rightarrow> nat \<Rightarrow> 'a list \<Rightarrow> 'a list \<Rightarrow> 'a list" where
  "cat_data A L1 L2 xs ys =
     concat (map (\<lambda>a. take L1 (drop (a * L1) xs) @ take L2 (drop (a * L2) ys)) [0..<A])"

definition tensor_cat :: "nat \<Rightarrow> 'a tensor \<Rightarrow> 'a tensor \<Rightarrow> 'a tensor result" where
  "tensor_cat k x y =
     (let sx = shape x; sy = shape y in
      if length sx = length sy \<and> k < length sx \<and> sx[k := 0] = sy[k := 0]
      then (let A = numel (take k sx); R = numel (drop (Suc k) sx) in
            Inr \<lparr>shape = sx[k := sx ! k + sy ! k],
                 data = cat_data A (sx ! k * R) (sy ! k * R) (data x) (data y)\<rparr>)
      else Inl RuntimeError)"

lemma length_cat_data:
  assumes "length xs = A * L1" "length ys = A * L2"
  shows "length (cat_data A L1 L2 xs ys) = A * (L1 + L2)"
proof -
  have slab: "length (take L1 (drop (a * L1) xs) @ take L2 (drop (a * L2) ys)) = L1 + L2"
    if "a < A" for a
  proof -
    from that have "Suc a * L1 \<le> A * L1" "Suc a * L2 \<le> A * L2"
      by (rule Suc_mult_le)+
    then show ?thesis using assms by simp
  qed
  have eq: "map (\<lambda>a. length (take L1 (drop (a * L1) xs) @ take L2 (drop (a * L2) ys))) [0..<A]
            = map (\<lambda>a. L1 + L2) [0..<A]"
    using slab by (intro map_cong) auto
  have "length (cat_data A L1 L2 xs ys) = sum_list (map (\<lambda>a. L1 + L2) [0..<A])"
    by (simp only: cat_data_def length_concat map_map comp_def eq)
  then show ?thesis by (simp add: sum_list_triv)
qed

end
