(* ===== verification/Einops.thy ===== *)
theory Einops
  imports Tensor
begin

text \<open>
  The six \<open>einops.rearrange\<close> patterns that the forward passes of
  \<open>src/hellomeme/models/hm_control.py\<close> use. einops carries out a pattern as a
  reshape into the elementary axes, a permute, and a reshape into the composed axes;
  on a row-major buffer the reshapes keep the buffer and the permute, for each of the
  patterns here, exchanges two adjacent axes (\<open>swap_axes\<close>). einops raises an
  \<open>EinopsError\<close> when the tensor's rank is not the pattern's, when a composed axis
  cannot be divided by the lengths given for its parts, or when an axis length given
  by keyword disagrees with the tensor.

  The main facts: the frame axis is moved into the batch axis and back without loss
  (\<open>from_frames_to_frames\<close>), the element at \<open>(b, c, f, h, w)\<close> lands at
  \<open>(b * F + f, c, h, w)\<close>, and every pattern keeps tensors well formed.
\<close>

section \<open>The patterns\<close>

text \<open>\<open>rearrange(x, "b c f h w -> (b f) c h w")\<close>\<close>

definition to_frames :: "'a tensor \<Rightarrow> 'a tensor result" where
  "to_frames x =
     (case shape x of
        [b, c, f, h, w] \<Rightarrow>
          Inr \<lparr>shape = [b * f, c, h, w], data = swap_axes c f (h * w) (data x)\<rparr>
      | _ \<Rightarrow> Inl EinopsError)"

text \<open>\<open>rearrange(x, "(b f) c h w -> b c f h w", f=F)\<close>\<close>

definition from_frames :: "nat \<Rightarrow> 'a tensor \<Rightarrow> 'a tensor result" where
  "from_frames F x =
     (case shape x of
        [bf, c, h, w] \<Rightarrow>
          (if F \<noteq> 0 \<and> bf mod F = 0
           then Inr \<lparr>shape = [bf div F, c, F, h, w], data = swap_axes F c (h * w) (data x)\<rparr>
           else Inl EinopsError)
      | _ \<Rightarrow> Inl EinopsError)"

text \<open>\<open>rearrange(x, "b f c -> (b f c)")\<close>\<close>

definition flatten_bfc :: "'a tensor \<Rightarrow> 'a tensor result" where
  "flatten_bfc x =
     (case shape x of
        [b, f, c] \<Rightarrow> Inr (x\<lparr>shape := [b * f * c]\<rparr>)
      | _ \<Rightarrow> Inl EinopsError)"

text \<open>\<open>rearrange(x, "(b f c) d -> b f c d", b=B, f=F, d=D)\<close>\<close>

definition split_bfc :: "nat \<Rightarrow> nat \<Rightarrow> nat \<Rightarrow> 'a tensor \<Rightarrow> 'a tensor result" where
  "split_bfc B F D x =
     (case shape x of
        [n, d] \<Rightarrow>
          (if d = D \<and> B * F \<noteq> 0 \<and> n mod (B * F) = 0
           then Inr (x\<lparr>shape := [B, F, n div (B * F), d]\<rparr>)
           else Inl EinopsError)
      | _ \<Rightarrow> Inl EinopsError)"

text \<open>\<open>rearrange(x, "b f c d -> (b f) c d")\<close>\<close>

definition merge_bf :: "'a tensor \<Rightarrow> 'a tensor result" where
  "merge_bf x =
     (case shape x of
        [b, f, c, d] \<Rightarrow> Inr (x\<lparr>shape := [b * f, c, d]\<rparr>)
      | _ \<Rightarrow> Inl EinopsError)"

text \<open>\<open>rearrange(x, "(b f) c d -> b f c d", f=F)\<close>\<close>

definition split_bf :: "nat \<Rightarrow> 'a tensor \<Rightarrow> 'a tensor result" where
  "split_bf F x =
     (case shape x of
        [bf, c, d] \<Rightarrow>
          (if F \<noteq> 0 \<and> bf mod F = 0
           then Inr (x\<lparr>shape := [bf div F, F, c, d]\<rparr>)
           else Inl EinopsError)
      | _ \<Rightarrow> Inl EinopsError)"

lemmas einops_defs [model_simps] =
  to_frames_def from_frames_def flatten_bfc_def split_bfc_def merge_bf_def split_bf_def

section \<open>Shapes\<close>

lemma to_frames_shape:
  "shape x = [b, c, f, h, w] \<Longrightarrow>
   to_frames x = Inr \<lparr>shape = [b * f, c, h, w], data = swap_axes c f (h * w) (data x)\<rparr>"
  by (simp add: to_frames_def)

lemma from_frames_shape:
  "shape x = [b * F, c, h, w] \<Longrightarrow> 0 < F \<Longrightarrow>
   from_frames F x = Inr \<lparr>shape = [b, c, F, h, w], data = swap_axes F c (h * w) (data x)\<rparr>"
  by (simp add: from_frames_def)

lemma from_frames_Inr_shape:
  "from_frames F x = Inr y \<Longrightarrow> shape x = [bf, c, h, w] \<Longrightarrow> shape y = [bf div F, c, F, h, w]"
  by (auto simp: from_frames_def split: if_splits)

section \<open>Well-formedness\<close>

lemma tensor_wf_to_frames:
  "tensor_wf x \<Longrightarrow> to_frames x = Inr y \<Longrightarrow> tensor_wf y"
  by (auto simp: to_frames_def tensor_wf_def split: list.splits)

lemma tensor_wf_from_frames:
  assumes "tensor_wf x" "from_frames F x = Inr y"
  shows "tensor_wf y"
proof -
  from assms(2) obtain bf c h w where s: "shape x = [bf, c, h, w]" and "F \<noteq> 0" "bf mod F = 0"
    by (auto simp: from_frames_def split: list.splits if_splits)
  then have "bf = bf div F * F" by (metis add.right_neutral div_mult_mod_eq)
  then have "length (data x) = bf div F * c * F * (h * w)"
    using assms(1) s by (simp add: tensor_wf_def ac_simps)
  with assms(2) s show ?thesis
    by (auto simp: from_frames_def tensor_wf_def ac_simps split: if_splits)
qed

section \<open>The frame axis round trip\<close>

text \<open>
  Folding the frame axis into the batch axis and unfolding it with the same frame
  count gives back the tensor: the forward passes rely on this to hand back
  \<open>b c f h w\<close> feature maps. A zero frame count is refused by einops.
\<close>

text \<open>C14. Moving the frame axis into the batch axis and back with the same frame count
  restores every well-formed five-axis tensor.\<close>

theorem from_frames_to_frames:
  assumes "tensor_wf x" "shape x = [b, c, F, h, w]" "0 < F"
  shows "ebind (to_frames x) (from_frames F) = Inr x"
proof -
  have len: "length (data x) = b * c * F * (h * w)"
    using assms(1,2) by (simp add: tensor_wf_def ac_simps)
  have "swap_axes F c (h * w) (swap_axes c F (h * w) (data x)) = data x"
    using len by (rule swap_axes_swap_axes)
  then show ?thesis
    using assms(2,3) by (simp add: to_frames_shape from_frames_shape)
qed

theorem from_frames_to_frames_witness:
  "ebind (to_frames \<lparr>shape = [1, 2, 2, 1, 1], data = [1, 2, 3, 4 :: int]\<rparr>) (from_frames 2) =
     Inr \<lparr>shape = [1, 2, 2, 1, 1], data = [1, 2, 3, 4]\<rparr>"
  by (rule from_frames_to_frames) (simp_all add: tensor_wf_def)

text \<open>C15. \<open>rearrange(x, "b c f h w -> (b f) c h w")\<close> puts the element at coordinates
  \<open>(b, c, f, h, w)\<close> at coordinates \<open>(b * F + f, c, h, w)\<close> of the result.\<close>

theorem to_frames_nth:
  assumes "tensor_wf x" "shape x = [B, C, F, H, W]"
    and "b < B" "c < C" "f < F" "h < H" "w < W"
  shows "\<exists>y. to_frames x = Inr y \<and> shape y = [B * F, C, H, W] \<and>
           data y ! ((((b * F + f) * C + c) * H + h) * W + w) =
           data x ! ((((b * C + c) * F + f) * H + h) * W + w)"
proof -
  have r: "h * W + w < H * W"
    using assms(6,7) by (rule mixed_bound)
  have pos: "((b * F + f) * C + c) * (H * W) + (h * W + w) < B * F * C * (H * W)"
    using assms(3-7) by (intro mixed_bound) simp_all
  have len: "length (data x) = B * F * C * (H * W)"
    using assms(1,2) by (simp add: tensor_wf_def ac_simps)
  have "swap_axes C F (H * W) (data x) ! (((b * F + f) * C + c) * (H * W) + (h * W + w))
        = data x ! (((b * C + c) * F + f) * (H * W) + (h * W + w))"
    using assms(4,5) r pos len by (intro nth_swap_axes) simp_all
  then show ?thesis
    using assms(2) by (simp add: to_frames_shape algebra_simps)
qed

theorem to_frames_nth_witness:
  "\<exists>y. to_frames \<lparr>shape = [1, 2, 2, 1, 1], data = [1, 2, 3, 4 :: int]\<rparr> = Inr y \<and>
       shape y = [2, 2, 1, 1] \<and> data y ! 1 = 3"
proof -
  have "\<exists>y. to_frames \<lparr>shape = [1, 2, 2, 1, 1], data = [1, 2, 3, 4 :: int]\<rparr> = Inr y \<and>
          shape y = [1 * 2, 2, 1, 1] \<and>
          data y ! ((((0 * 2 + 0) * 2 + 1) * 1 + 0) * 1 + 0) =
          [1, 2, 3, 4 :: int] ! ((((0 * 2 + 1) * 2 + 0) * 1 + 0) * 1 + 0)"
    using to_frames_nth [of "\<lparr>shape = [1, 2, 2, 1, 1], data = [1, 2, 3, 4 :: int]\<rparr>" 1 2 2 1 1 0 1 0 0 0]
    by (simp add: tensor_wf_def)
  then show ?thesis by simp
qed

end
