(* ===== verification/Layers.thy ===== *)
theory Layers
  imports Einops
begin

text \<open>
  The layers the ControlNets are assembled from: \<open>nn.Conv2d\<close>, \<open>F.interpolate\<close>
  (bilinear), diffusers' \<open>Timesteps\<close> and \<open>TimestepEmbedding\<close>, and the
  repository's \<open>SKCrossAttention\<close> (in \<open>hm_blocks.py\<close>, which is not among the
  sources: modelled from the specification's contract for it). A layer's
  hyperparameters, fixed by the constructor, are a record; what the layer computes is
  split in two. The shape behaviour, including every shape check that raises, is
  written out here as torch and diffusers document it. The numbers (learned weights,
  the sinusoid, the bilinear filter) come from a \<open>backend\<close>: a record of functions
  that give each output element, looked up by the module's path in the state dict.
  The structure of each layer that the proofs use is kept: \<open>Timesteps\<close> embeds every
  scalar on its own, \<open>TimestepEmbedding\<close> acts on each row of the last axis on its own.
\<close>

section \<open>The numeric backend\<close>

text \<open>
  \<^item> \<open>bk_conv p x j\<close>: element \<open>j\<close> (row-major) of the output of the
    convolution stored at path \<open>p\<close> on input \<open>x\<close>;
  \<^item> \<open>bk_bilinear x oh ow j\<close>: element \<open>j\<close> of the bilinear resize of \<open>x\<close> to
    \<open>oh \<times> ow\<close> (\<open>align_corners=False\<close>);
  \<^item> \<open>bk_sinusoid n t j\<close>: channel \<open>j\<close> of \<open>get_timestep_embedding\<close> of the
    scalar \<open>t\<close> with \<open>n\<close> channels (cosines first, as \<open>flip_sin_to_cos=True\<close>);
  \<^item> \<open>bk_mlp p row j\<close>: channel \<open>j\<close> of \<open>linear_2(silu(linear_1(row)))\<close> of
    the \<open>TimestepEmbedding\<close> at path \<open>p\<close>;
  \<^item> \<open>bk_sk p x e j\<close> and \<open>bk_sk_size p n\<close>: element \<open>j\<close> of the output of
    the \<open>SKCrossAttention\<close> block at path \<open>p\<close> on feature map \<open>x\<close> and driving
    embedding \<open>e\<close>, and the spatial extent it maps an extent \<open>n\<close> to.
\<close>

record 'a backend =
  bk_conv :: "string \<Rightarrow> 'a tensor \<Rightarrow> nat \<Rightarrow> 'a"
  bk_bilinear :: "'a tensor \<Rightarrow> nat \<Rightarrow> nat \<Rightarrow> nat \<Rightarrow> 'a"
  bk_sinusoid :: "nat \<Rightarrow> 'a \<Rightarrow> nat \<Rightarrow> 'a"
  bk_mlp :: "string \<Rightarrow> 'a list \<Rightarrow> nat \<Rightarrow> 'a"
  bk_sk :: "string \<Rightarrow> 'a tensor \<Rightarrow> 'a tensor \<Rightarrow> nat \<Rightarrow> 'a"
  bk_sk_size :: "string \<Rightarrow> nat \<Rightarrow> nat"

text \<open>A tensor of the given shape whose elements a function of the position gives.\<close>

definition tabulate :: "nat list \<Rightarrow> (nat \<Rightarrow> 'a) \<Rightarrow> 'a tensor" where
  "tabulate s f = \<lparr>shape = s, data = map f [0..<numel s]\<rparr>"

lemma tabulate_simps [simp]:
  "shape (tabulate s f) = s"
  "data (tabulate s f) = map f [0..<numel s]"
  by (simp_all add: tabulate_def)

lemma tensor_wf_tabulate [simp]: "tensor_wf (tabulate s f)"
  by (simp add: tensor_wf_def)

text \<open>The rows of a buffer whose last axis has length \<open>n\<close>.\<close>

definition chunks :: "nat \<Rightarrow> 'a list \<Rightarrow> 'a list list" where
  "chunks n xs = map (\<lambda>i. take n (drop (i * n) xs)) [0..<length xs div n]"

lemma length_chunks [simp]: "length (chunks n xs) = length xs div n"
  by (simp add: chunks_def)

section \<open>nn.Conv2d\<close>

text \<open>
  \<open>nn.Conv2d(in, out, kernel_size=k, padding=p, bias=False)\<close> with stride 1. On a
  batch \<open>[n, c, h, w]\<close> it needs \<open>c = in\<close> and a padded input at least as large as
  the kernel, and gives \<open>[n, out, h + 2p - k + 1, w + 2p - k + 1]\<close>; otherwise
  torch raises a \<open>RuntimeError\<close>. Every input that reaches a convolution in the
  source has rank 4; other ranks are refused.
\<close>

record conv2d =
  conv_name :: string
  conv_in_channels :: nat
  conv_out_channels :: nat
  conv_kernel_size :: nat
  conv_padding :: nat

definition conv2d_forward :: "'a backend \<Rightarrow> conv2d \<Rightarrow> 'a tensor \<Rightarrow> 'a tensor result" where
  "conv2d_forward bk cv x =
     (case shape x of
        [n, c, h, w] \<Rightarrow>
          (let k = conv_kernel_size cv; p = conv_padding cv in
           if c = conv_in_channels cv \<and> 0 < k \<and> k \<le> h + 2 * p \<and> k \<le> w + 2 * p
           then Inr (tabulate [n, conv_out_channels cv, h + 2 * p + 1 - k, w + 2 * p + 1 - k]
                       (bk_conv bk (conv_name cv) x))
           else Inl RuntimeError)
      | _ \<Rightarrow> Inl RuntimeError)"

section \<open>F.interpolate, bilinear\<close>

text \<open>
  \<open>F.interpolate(x, size=(oh, ow), mode='bilinear', align_corners=False)\<close> on
  \<open>[n, c, h, w]\<close> gives \<open>[n, c, oh, ow]\<close>; torch refuses sizes that are not
  positive with a \<open>RuntimeError\<close> ("Input and output sizes should be greater
  than 0"). The sizes are Python integers, hence \<open>int\<close>.
\<close>

definition interpolate_bilinear :: "'a backend \<Rightarrow> 'a tensor \<Rightarrow> int \<Rightarrow> int \<Rightarrow> 'a tensor result" where
  "interpolate_bilinear bk x oh ow =
     (case shape x of
        [n, c, h, w] \<Rightarrow>
          (if 0 < h \<and> 0 < w \<and> 0 < oh \<and> 0 < ow
           then Inr (tabulate [n, c, nat oh, nat ow] (bk_bilinear bk x (nat oh) (nat ow)))
           else Inl RuntimeError)
      | _ \<Rightarrow> Inl RuntimeError)"

section \<open>diffusers Timesteps\<close>

text \<open>
  \<open>Timesteps(num_channels, flip_sin_to_cos, downscale_freq_shift)\<close> asserts a
  one-dimensional input of \<open>N\<close> scalars and returns \<open>[N, num_channels]\<close>, row
  \<open>i\<close> the sinusoidal embedding of scalar \<open>i\<close> alone.
\<close>

definition sinusoid_rows :: "'a backend \<Rightarrow> nat \<Rightarrow> 'a list \<Rightarrow> 'a list" where
  "sinusoid_rows bk n ts = concat (map (\<lambda>t. map (bk_sinusoid bk n t) [0..<n]) ts)"

record timesteps =
  ts_num_channels :: nat
  ts_flip_sin_to_cos :: bool
  ts_downscale_freq_shift :: int

definition timesteps_forward :: "'a backend \<Rightarrow> timesteps \<Rightarrow> 'a tensor \<Rightarrow> 'a tensor result" where
  "timesteps_forward bk ts x =
     (case shape x of
        [n] \<Rightarrow>
          Inr \<lparr>shape = [n, ts_num_channels ts], data = sinusoid_rows bk (ts_num_channels ts) (data x)\<rparr>
      | _ \<Rightarrow> Inl AssertionError)"

section \<open>diffusers TimestepEmbedding\<close>

text \<open>
  \<open>TimestepEmbedding(in_channels, time_embed_dim)\<close> is \<open>linear_1\<close>, SiLU,
  \<open>linear_2\<close>: it maps every row of the last axis, which must have length
  \<open>in_channels\<close> (else \<open>nn.Linear\<close> raises a \<open>RuntimeError\<close>), to a row of
  length \<open>time_embed_dim\<close>, and keeps the leading axes.
\<close>

record timestep_embedding =
  te_name :: string
  te_in_channels :: nat
  te_time_embed_dim :: nat

definition te_rows :: "'a backend \<Rightarrow> timestep_embedding \<Rightarrow> 'a list \<Rightarrow> 'a list" where
  "te_rows bk te xs =
     concat (map (\<lambda>row. map (bk_mlp bk (te_name te) row) [0..<te_time_embed_dim te])
                 (chunks (te_in_channels te) xs))"

definition timestep_embedding_forward ::
  "'a backend \<Rightarrow> timestep_embedding \<Rightarrow> 'a tensor \<Rightarrow> 'a tensor result" where
  "timestep_embedding_forward bk te x =
     (let s = shape x in
      if s \<noteq> [] \<and> last s = te_in_channels te
      then Inr \<lparr>shape = butlast s @ [te_time_embed_dim te], data = te_rows bk te (data x)\<rparr>
      else Inl RuntimeError)"

section \<open>SKCrossAttention\<close>

text \<open>
  \<open>SKCrossAttention(channel_in, channel_out, cross_attention_dim,
  num_positional_embeddings, num_positional_embeddings_hidden)\<close>: the fusion block,
  defined in \<open>hm_blocks.py\<close>. Its contract, from the specification: a feature map
  \<open>[n, channel_in, h, w]\<close> and a driving embedding \<open>[n, l, cross_attention_dim]\<close>
  give a wider feature map \<open>[n, channel_out, h', w']\<close>, where the block's internal
  resampling decides \<open>h'\<close> and \<open>w'\<close>; a mismatch raises a \<open>RuntimeError\<close>.
\<close>

record sk_cross_attention =
  sk_name :: string
  sk_channel_in :: nat
  sk_channel_out :: nat
  sk_cross_attention_dim :: nat
  sk_num_positional_embeddings :: nat
  sk_num_positional_embeddings_hidden :: nat

definition sk_accepts :: "sk_cross_attention \<Rightarrow> nat list \<Rightarrow> nat list \<Rightarrow> bool" where
  "sk_accepts sk sx se =
     (case (sx, se) of
        ([n, c, h, w], [n', l, d]) \<Rightarrow>
          c = sk_channel_in sk \<and> n' = n \<and> d = sk_cross_attention_dim sk
      | _ \<Rightarrow> False)"

definition sk_forward :: "'a backend \<Rightarrow> sk_cross_attention \<Rightarrow> 'a tensor \<Rightarrow> 'a tensor \<Rightarrow> 'a tensor result" where
  "sk_forward bk sk x e =
     (if sk_accepts sk (shape x) (shape e)
      then (case shape x of
              [n, c, h, w] \<Rightarrow>
                Inr (tabulate [n, sk_channel_out sk, bk_sk_size bk (sk_name sk) h,
                               bk_sk_size bk (sk_name sk) w]
                       (bk_sk bk (sk_name sk) x e))
            | _ \<Rightarrow> Inl RuntimeError)
      else Inl RuntimeError)"

lemmas layer_defs [model_simps] =
  conv2d_forward_def interpolate_bilinear_def timesteps_forward_def
  timestep_embedding_forward_def sk_forward_def sk_accepts_def

section \<open>Shape behaviour\<close>

lemma conv2d_forward_shape:
  assumes "shape x = [n, conv_in_channels cv, h, w]" "0 < conv_kernel_size cv"
    "conv_kernel_size cv \<le> h + 2 * conv_padding cv" "conv_kernel_size cv \<le> w + 2 * conv_padding cv"
  shows "conv2d_forward bk cv x =
           Inr (tabulate [n, conv_out_channels cv,
                          h + 2 * conv_padding cv + 1 - conv_kernel_size cv,
                          w + 2 * conv_padding cv + 1 - conv_kernel_size cv]
                  (bk_conv bk (conv_name cv) x))"
  using assms by (simp add: conv2d_forward_def Let_def)

text \<open>A \<open>3 \<times> 3\<close> convolution with padding 1, or a \<open>1 \<times> 1\<close> one without padding,
  keeps the spatial extent.\<close>

lemma conv2d_forward_same:
  assumes "shape x = [n, conv_in_channels cv, h, w]" "0 < h" "0 < w"
    and "(conv_kernel_size cv, conv_padding cv) \<in> {(3, 1), (1, 0)}"
  shows "conv2d_forward bk cv x =
           Inr (tabulate [n, conv_out_channels cv, h, w] (bk_conv bk (conv_name cv) x))"
  using assms by (auto simp: conv2d_forward_def Let_def)

lemma conv2d_forward_channel_mismatch:
  "shape x = [n, c, h, w] \<Longrightarrow> c \<noteq> conv_in_channels cv \<Longrightarrow> conv2d_forward bk cv x = Inl RuntimeError"
  by (simp add: conv2d_forward_def Let_def)

lemma interpolate_bilinear_shape:
  "shape x = [n, c, h, w] \<Longrightarrow> 0 < h \<Longrightarrow> 0 < w \<Longrightarrow> 0 < oh \<Longrightarrow> 0 < ow \<Longrightarrow>
   interpolate_bilinear bk x oh ow = Inr (tabulate [n, c, nat oh, nat ow] (bk_bilinear bk x (nat oh) (nat ow)))"
  by (simp add: interpolate_bilinear_def)

lemma timesteps_forward_shape:
  "shape x = [n] \<Longrightarrow>
   timesteps_forward bk ts x =
     Inr \<lparr>shape = [n, ts_num_channels ts], data = sinusoid_rows bk (ts_num_channels ts) (data x)\<rparr>"
  by (simp add: timesteps_forward_def)

lemma tensor_wf_timesteps_forward:
  "tensor_wf x \<Longrightarrow> timesteps_forward bk ts x = Inr y \<Longrightarrow> tensor_wf y"
  by (auto simp: timesteps_forward_def sinusoid_rows_def tensor_wf_def length_concat_const
      split: list.splits)

lemma timestep_embedding_forward_shape:
  "shape x = s @ [te_in_channels te] \<Longrightarrow>
   timestep_embedding_forward bk te x =
     Inr \<lparr>shape = s @ [te_time_embed_dim te], data = te_rows bk te (data x)\<rparr>"
  by (simp add: timestep_embedding_forward_def)

lemma tensor_wf_timestep_embedding_forward:
  assumes "tensor_wf x" "0 < te_in_channels te" "timestep_embedding_forward bk te x = Inr y"
  shows "tensor_wf y"
proof -
  from assms(3) obtain s where s: "shape x = s @ [te_in_channels te]"
    and y: "y = \<lparr>shape = s @ [te_time_embed_dim te], data = te_rows bk te (data x)\<rparr>"
    by (auto simp: timestep_embedding_forward_def Let_def split: if_splits)
      (metis append_butlast_last_id)
  have "length (data x) = numel s * te_in_channels te"
    using assms(1) s by (simp add: tensor_wf_def numel_def)
  then have "length (chunks (te_in_channels te) (data x)) = numel s"
    using assms(2) by simp
  then show ?thesis
    using y by (simp add: tensor_wf_def te_rows_def length_concat_const numel_def)
qed

lemma sk_forward_shape:
  assumes "shape x = [n, sk_channel_in sk, h, w]" "shape e = [n, l, sk_cross_attention_dim sk]"
  shows "sk_forward bk sk x e =
           Inr (tabulate [n, sk_channel_out sk, bk_sk_size bk (sk_name sk) h, bk_sk_size bk (sk_name sk) w]
                  (bk_sk bk (sk_name sk) x e))"
  using assms by (simp add: sk_forward_def sk_accepts_def)

lemma sk_forward_Inr_shape:
  "sk_forward bk sk x e = Inr y \<Longrightarrow>
   \<exists>n h w. shape x = [n, sk_channel_in sk, h, w] \<and>
     shape y = [n, sk_channel_out sk, bk_sk_size bk (sk_name sk) h, bk_sk_size bk (sk_name sk) w]"
  by (auto simp: sk_forward_def sk_accepts_def split: if_splits list.splits prod.splits)

text \<open>The convolution and the fusion block build their results with
  \<open>tabulate\<close>: whatever they return is well formed.\<close>

lemma tensor_wf_conv2d_forward: "conv2d_forward bk cv x = Inr y \<Longrightarrow> tensor_wf y"
  by (auto simp: conv2d_forward_def Let_def split: list.splits if_splits)

lemma tensor_wf_sk_forward: "sk_forward bk sk x e = Inr y \<Longrightarrow> tensor_wf y"
  by (auto simp: sk_forward_def split: if_splits list.splits)

end
