(* ===== verification/Control_Common.thy ===== *)
theory Control_Common
  imports Layers
begin

text \<open>
  The parts that the five ControlNet classes of \<open>hm_control.py\<close> share, written once
  (the classes repeat the same lines): the chain of \<open>SKCrossAttention\<close> blocks that
  every constructor builds from \<open>block_out_channels\<close>, the conditioning path at the
  head of every \<open>forward\<close> (frames into the batch, bilinear downsampling, \<open>conv_in\<close>),
  the two driving-embedding paths (expression coefficients with face-part features,
  and emotion coefficients), and one iteration of the fusion loop that writes an
  output key. The lemmas give the closed forms of the conditioning and driving paths;
  the loop as a whole is the subject of \<open>Fusion\<close>.
\<close>

type_synonym 'a out_dict = "(string, 'a tensor) dict"

text \<open>
  A backend for the concrete instances of the theorems: every learned layer outputs
  zeros, the sinusoid of \<open>t\<close> is \<open>t\<close> in every channel, and the fusion blocks keep
  the spatial extent.
\<close>

definition demo_backend :: "int backend" where
  "demo_backend =
     \<lparr>bk_conv = (\<lambda>_ _ _. 0), bk_bilinear = (\<lambda>_ _ _ _. 0), bk_sinusoid = (\<lambda>_ t _. t),
      bk_mlp = (\<lambda>_ _ _. 0), bk_sk = (\<lambda>_ _ _ _. 0), bk_sk_size = (\<lambda>_ n. n)\<rparr>"

section \<open>The block chain of the constructors\<close>

text \<open>
  \<open>for i in range(1, len(block_out_channels))\<close>: block \<open>i - 1\<close> widens
  \<open>block_out_channels[i-1]\<close> to \<open>block_out_channels[i]\<close>; \<open>nn.ModuleList\<close> names
  it \<open>blocks_down.{i-1}\<close> in the state dict.
\<close>

definition block_name :: "nat \<Rightarrow> string" where
  "block_name j = ''blocks_down.'' @ nat_str j"

definition sk_chain :: "nat \<Rightarrow> nat \<Rightarrow> nat \<Rightarrow> nat list \<Rightarrow> sk_cross_attention list" where
  "sk_chain cad npe npeh block_out_channels =
     map (\<lambda>i. \<lparr>sk_name = block_name (i - 1),
              sk_channel_in = block_out_channels ! (i - 1),
              sk_channel_out = block_out_channels ! i,
              sk_cross_attention_dim = cad,
              sk_num_positional_embeddings = npe,
              sk_num_positional_embeddings_hidden = npeh\<rparr>)
         [1..<length block_out_channels]"

lemma length_sk_chain [simp]: "length (sk_chain cad npe npeh boc) = length boc - 1"
  by (simp add: sk_chain_def)

lemma nth_sk_chain [simp]:
  "k < length boc - 1 \<Longrightarrow>
   sk_chain cad npe npeh boc ! k =
     \<lparr>sk_name = block_name k, sk_channel_in = boc ! k, sk_channel_out = boc ! Suc k,
      sk_cross_attention_dim = cad, sk_num_positional_embeddings = npe,
      sk_num_positional_embeddings_hidden = npeh\<rparr>"
  by (simp add: sk_chain_def)

text \<open>The spatial extent after the first \<open>k\<close> blocks of the chain.\<close>

definition sk_extent :: "'a backend \<Rightarrow> nat \<Rightarrow> nat \<Rightarrow> nat" where
  "sk_extent bk k h = foldl (\<lambda>h j. bk_sk_size bk (block_name j) h) h [0..<k]"

lemma sk_extent_0 [simp]: "sk_extent bk 0 h = h"
  by (simp add: sk_extent_def)

lemma sk_extent_Suc [simp]: "sk_extent bk (Suc k) h = bk_sk_size bk (block_name k) (sk_extent bk k h)"
  by (simp add: sk_extent_def)

section \<open>The conditioning path\<close>

text \<open>
  \<open>condition = rearrange(condition, "b c f h w -> (b f) c h w")\<close>,
  \<open>F.interpolate(condition, size=(h // scale_factor, w // scale_factor), ...)\<close>,
  \<open>embedding = self.conv_in(conditioning)\<close>.
\<close>

definition condition_embedding ::
  "'a backend \<Rightarrow> int \<Rightarrow> conv2d \<Rightarrow> 'a tensor \<Rightarrow> nat \<Rightarrow> nat \<Rightarrow> 'a tensor result" where
  "condition_embedding bk scale_factor conv_in condition h w =
     ebind (to_frames condition) (\<lambda>condition.
     ebind (py_floordiv (int h) scale_factor) (\<lambda>oh.
     ebind (py_floordiv (int w) scale_factor) (\<lambda>ow.
     ebind (interpolate_bilinear bk condition oh ow) (\<lambda>conditioning.
     conv2d_forward bk conv_in conditioning))))"

section \<open>The driving embeddings\<close>

text \<open>
  Expression coefficients and face parts: the coefficients, times 500, are embedded
  one by one by the sinusoid and regrouped as \<open>b f c d\<close>; the face parts go through
  \<open>face_proj\<close>; the two are concatenated along the region axis (face regions first)
  and projected by \<open>exp_proj\<close>, one row per region, \<open>(b f)\<close> rows of regions.
\<close>

definition exp_drive_embedding ::
  "'a::{times,numeral} backend \<Rightarrow> timesteps \<Rightarrow> timestep_embedding \<Rightarrow> timestep_embedding \<Rightarrow>
   nat \<Rightarrow> nat \<Rightarrow> nat \<Rightarrow> 'a tensor \<Rightarrow> 'a tensor \<Rightarrow> 'a tensor result" where
  "exp_drive_embedding bk exp_embedding face_proj exp_proj cross_attention_dim bs video_length
       drive_coeff face_parts =
     ebind (flatten_bfc (tensor_scale drive_coeff 500)) (\<lambda>drive_coeff.
     ebind (timesteps_forward bk exp_embedding drive_coeff) (\<lambda>drive_embedding.
     ebind (split_bfc bs video_length cross_attention_dim drive_embedding) (\<lambda>drive_embedding.
     ebind (merge_bf face_parts) (\<lambda>face_parts.
     ebind (timestep_embedding_forward bk face_proj face_parts) (\<lambda>face_embedding.
     ebind (split_bf video_length face_embedding) (\<lambda>face_embedding.
     ebind (tensor_cat 2 face_embedding drive_embedding) (\<lambda>drive_embedding.
     ebind (merge_bf drive_embedding) (\<lambda>drive_embedding.
     timestep_embedding_forward bk exp_proj drive_embedding))))))))"

text \<open>
  Emotion coefficients: times 20, embedded one by one, regrouped as \<open>(b f) c d\<close> and
  projected by \<open>emo_proj\<close>.
\<close>

definition emo_drive_embedding ::
  "'a::{times,numeral} backend \<Rightarrow> timesteps \<Rightarrow> timestep_embedding \<Rightarrow>
   nat \<Rightarrow> nat \<Rightarrow> nat \<Rightarrow> 'a tensor \<Rightarrow> 'a tensor result" where
  "emo_drive_embedding bk emo_embedding emo_proj cross_attention_dim bs video_length emo =
     ebind (flatten_bfc (tensor_scale emo 20)) (\<lambda>drive_coeff.
     ebind (timesteps_forward bk emo_embedding drive_coeff) (\<lambda>drive_embedding.
     ebind (split_bfc bs video_length cross_attention_dim drive_embedding) (\<lambda>drive_embedding.
     ebind (merge_bf drive_embedding) (\<lambda>drive_embedding.
     timestep_embedding_forward bk emo_proj drive_embedding))))"

section \<open>One iteration of the fusion loop\<close>

text \<open>
  \<open>embedding = block(embedding, drive_embedding)\<close>, then
  \<open>ret_dict[key] = rearrange(embedding, "(b f) c h w -> b c f h w", f=video_length)\<close>;
  the loop state is the pair of the running feature map and the dictionary.
\<close>

definition fusion_step ::
  "'a backend \<Rightarrow> nat \<Rightarrow> 'a tensor \<Rightarrow> (nat \<Rightarrow> string) \<Rightarrow> nat \<Rightarrow> sk_cross_attention \<Rightarrow>
   'a tensor \<times> 'a out_dict \<Rightarrow> ('a tensor \<times> 'a out_dict) result" where
  "fusion_step bk video_length drive_embedding key idx block st =
     (case st of (embedding, ret_dict) \<Rightarrow>
        ebind (sk_forward bk block embedding drive_embedding) (\<lambda>embedding.
        ebind (from_frames video_length embedding) (\<lambda>out.
        Inr (embedding, dict_set ret_dict (key idx) out))))"

lemmas common_defs [model_simps] =
  condition_embedding_def exp_drive_embedding_def emo_drive_embedding_def fusion_step_def

section \<open>Closed forms of the embedding paths\<close>

text \<open>
  The conditioning path returns whenever the condition has the configured channel
  count and the downsampled extents are positive; the result is one
  \<open>[channels, h // scale_factor, w // scale_factor]\<close> map per frame of every batch
  element.
\<close>

lemma condition_embedding_shape:
  assumes "shape condition = [B, conv_in_channels cv, F, H, W]"
    and "0 < sf" "0 < int H div sf" "0 < int W div sf"
    and "(conv_kernel_size cv, conv_padding cv) \<in> {(3, 1), (1, 0)}"
  shows "\<exists>e. condition_embedding bk sf cv condition H W = Inr e \<and>
           shape e = [B * F, conv_out_channels cv, nat (int H div sf), nat (int W div sf)]"
proof -
  let ?c = "\<lparr>shape = [B * F, conv_in_channels cv, H, W],
             data = swap_axes (conv_in_channels cv) F (H * W) (data condition)\<rparr>"
  let ?i = "tabulate [B * F, conv_in_channels cv, nat (int H div sf), nat (int W div sf)]
              (bk_bilinear bk ?c (nat (int H div sf)) (nat (int W div sf)))"
  have pos: "0 < H" "0 < W"
    using assms(2-4) by (auto intro!: Nat.gr0I)
  have "interpolate_bilinear bk ?c (int H div sf) (int W div sf) = Inr ?i"
    using assms(3,4) pos by (simp add: interpolate_bilinear_shape)
  moreover have "conv2d_forward bk cv ?i =
      Inr (tabulate [B * F, conv_out_channels cv, nat (int H div sf), nat (int W div sf)]
             (bk_conv bk (conv_name cv) ?i))"
    using assms(3-5) by (intro conv2d_forward_same) simp_all
  ultimately show ?thesis
    using assms(1,2) by (simp add: condition_embedding_def to_frames_shape)
qed

text \<open>
  The conditioning path's errors: \<open>//\<close> by a zero scale factor, a downsampled
  extent that is not positive (refused by \<open>F.interpolate\<close>), and a channel count
  other than \<open>conv_in\<close>'s (refused by the convolution).
\<close>

lemma condition_embedding_bad_scale:
  assumes "shape condition = [B, C, F, H, W]"
    and "sf = 0 \<or> int H div sf \<le> 0 \<or> int W div sf \<le> 0"
  shows "condition_embedding bk sf cv condition H W =
           Inl (if sf = 0 then ZeroDivisionError else RuntimeError)"
  using assms by (auto simp: condition_embedding_def to_frames_shape interpolate_bilinear_def)

lemma condition_embedding_channel_mismatch:
  assumes "shape condition = [B, C, F, H, W]" "C \<noteq> conv_in_channels cv"
    and "0 < sf" "0 < int H div sf" "0 < int W div sf"
  shows "condition_embedding bk sf cv condition H W = Inl RuntimeError"
proof -
  have "0 < H" "0 < W"
    using assms(3-5) by (auto intro!: Nat.gr0I)
  then show ?thesis
    using assms by (simp add: condition_embedding_def to_frames_shape interpolate_bilinear_shape
        conv2d_forward_channel_mismatch)
qed

text \<open>C22. The conditioning path downsamples by floor division: on a well-shaped
  condition it returns feature maps whose extent \<open>h'\<close> is positive with
  \<open>h' * scale_factor \<le> h < (h' + 1) * scale_factor\<close>, and likewise for the width.\<close>

theorem condition_embedding_extent_bounds:
  assumes cond: "shape condition = [B, conv_in_channels cv, F, H, W]"
    and pos: "0 < sf" "0 < int H div sf" "0 < int W div sf"
    and k: "(conv_kernel_size cv, conv_padding cv) \<in> {(3, 1), (1, 0)}"
  shows "\<exists>e h' w'. condition_embedding bk sf cv condition H W = Inr e \<and>
           shape e = [B * F, conv_out_channels cv, h', w'] \<and>
           0 < h' \<and> int h' * sf \<le> int H \<and> int H < (int h' + 1) * sf \<and>
           0 < w' \<and> int w' * sf \<le> int W \<and> int W < (int w' + 1) * sf"
proof -
  have bound: "int (nat (x div sf)) * sf \<le> x \<and> x < (int (nat (x div sf)) + 1) * sf"
    if "0 < x div sf" for x :: int
  proof -
    have e: "x div sf * sf + x mod sf = x" by (rule div_mult_mod_eq)
    have "0 \<le> x mod sf" "x mod sf < sf" using pos(1) by simp_all
    with e have "x div sf * sf \<le> x" "x < x div sf * sf + sf" by linarith+
    moreover have "int (nat (x div sf)) = x div sf" using that by simp
    ultimately show ?thesis by (simp add: distrib_right)
  qed
  obtain e where "condition_embedding bk sf cv condition H W = Inr e"
    and "shape e = [B * F, conv_out_channels cv, nat (int H div sf), nat (int W div sf)]"
    using condition_embedding_shape [OF cond pos k, of bk] by blast
  then show ?thesis
    using bound [OF pos(2)] bound [OF pos(3)] pos(2,3) by auto
qed

theorem condition_embedding_extent_bounds_witness:
  "\<exists>e h' w'. condition_embedding demo_backend 4
       \<lparr>conv_name = ''conv_in'', conv_in_channels = 1, conv_out_channels = 2,
        conv_kernel_size = 3, conv_padding = 1\<rparr>
       \<lparr>shape = [1, 1, 1, 9, 8], data = replicate 72 (0 :: int)\<rparr> 9 8 = Inr e \<and>
     shape e = [1 * 1, 2, h', w'] \<and>
     0 < h' \<and> int h' * 4 \<le> int 9 \<and> int 9 < (int h' + 1) * 4 \<and>
     0 < w' \<and> int w' * 4 \<le> int 8 \<and> int 8 < (int w' + 1) * 4"
  using condition_embedding_extent_bounds [where condition = "\<lparr>shape = [1, 1, 1, 9, 8], data = replicate 72 (0 :: int)\<rparr>"
      and cv = "\<lparr>conv_name = ''conv_in'', conv_in_channels = 1, conv_out_channels = 2,
                conv_kernel_size = 3, conv_padding = 1\<rparr>"
      and B = 1 and F = 1 and H = 9 and W = 8 and sf = 4 and bk = demo_backend]
  by simp

text \<open>
  The expression path in closed form: on coefficients \<open>[B, F, K]\<close> and face parts
  \<open>[B, F, P, 1024]\<close> it returns the \<open>exp_proj\<close> rows of, for every frame, the
  \<open>P\<close> projected face regions followed by the \<open>K\<close> sinusoids of the coefficients
  scaled by 500. A zero batch or frame count is refused by einops.
\<close>

lemma exp_drive_embedding_value:
  assumes dc: "shape drive_coeff = [B, F, K]"
    and fp: "shape face_parts = [B, F, P, te_in_channels face_proj]"
    and pos: "0 < B" "0 < F"
    and dims: "ts_num_channels exp_embedding = cad" "te_time_embed_dim face_proj = cad"
      "te_in_channels exp_proj = cad"
  shows "exp_drive_embedding bk exp_embedding face_proj exp_proj cad B F drive_coeff face_parts =
         Inr \<lparr>shape = [B * F, P + K, te_time_embed_dim exp_proj],
              data = te_rows bk exp_proj
                       (cat_data (B * F) (P * cad) (K * cad)
                          (te_rows bk face_proj (data face_parts))
                          (sinusoid_rows bk cad (map (\<lambda>x. x * 500) (data drive_coeff))))\<rparr>"
proof -
  have div1: "B * F * K div (B * F) = K" and div2: "B * F div F = B"
    using pos by simp_all
  have "flatten_bfc (tensor_scale drive_coeff 500) =
          Inr ((tensor_scale drive_coeff 500)\<lparr>shape := [B * F * K]\<rparr>)"
    using dc by (simp add: flatten_bfc_def)
  moreover have "merge_bf face_parts = Inr (face_parts\<lparr>shape := [B * F, P, te_in_channels face_proj]\<rparr>)"
    using fp by (simp add: merge_bf_def)
  ultimately show ?thesis
    using dims pos div1 div2
    by (simp add: exp_drive_embedding_def timesteps_forward_shape split_bfc_def split_bf_def
        timestep_embedding_forward_shape [where s = "[B * F, P]"] tensor_cat_def merge_bf_def
        timestep_embedding_forward_def numel_def)
qed

text \<open>
  The emotion path in closed form: on coefficients \<open>[B, F, K]\<close> it returns the
  \<open>emo_proj\<close> rows of the sinusoids of the coefficients scaled by 20.
\<close>

lemma emo_drive_embedding_value:
  assumes emo: "shape emo = [B, F, K]"
    and pos: "0 < B" "0 < F"
    and dims: "ts_num_channels emo_embedding = cad" "te_in_channels emo_proj = cad"
  shows "emo_drive_embedding bk emo_embedding emo_proj cad B F emo =
         Inr \<lparr>shape = [B * F, K, te_time_embed_dim emo_proj],
              data = te_rows bk emo_proj (sinusoid_rows bk cad (map (\<lambda>x. x * 20) (data emo)))\<rparr>"
proof -
  have div1: "B * F * K div (B * F) = K"
    using pos by simp
  have "flatten_bfc (tensor_scale emo 20) = Inr ((tensor_scale emo 20)\<lparr>shape := [B * F * K]\<rparr>)"
    using emo by (simp add: flatten_bfc_def)
  then show ?thesis
    using dims pos div1
    by (simp add: emo_drive_embedding_def timesteps_forward_shape split_bfc_def merge_bf_def
        timestep_embedding_forward_def)
qed

text \<open>
  The emotion path reads its input only through \<open>"b f c -> (b f c)"\<close>: an input of
  any three-axis shape with the same number of entries gives the same embedding, so its
  batch and frame axes are never compared with the condition's.
\<close>

lemma emo_drive_embedding_reshape:
  assumes "shape emo = [B', F', K']" "B' * F' * K' = B * F * K"
  shows "emo_drive_embedding bk emo_embedding emo_proj cad bs video_length emo =
         emo_drive_embedding bk emo_embedding emo_proj cad bs video_length (emo\<lparr>shape := [B, F, K]\<rparr>)"
proof -
  have "flatten_bfc (tensor_scale emo 20) = flatten_bfc (tensor_scale (emo\<lparr>shape := [B, F, K]\<rparr>) 20)"
    using assms by (simp add: flatten_bfc_def tensor_scale_def)
  then show ?thesis by (simp add: emo_drive_embedding_def)
qed

lemma exp_drive_embedding_reshape:
  assumes "shape drive_coeff = [B', F', K']" "B' * F' * K' = B * F * K"
    and "shape face_parts = [B'', F'', P, D]" "B'' * F'' = B * F"
  shows "exp_drive_embedding bk exp_embedding face_proj exp_proj cad bs video_length drive_coeff face_parts =
         exp_drive_embedding bk exp_embedding face_proj exp_proj cad bs video_length
           (drive_coeff\<lparr>shape := [B, F, K]\<rparr>) (face_parts\<lparr>shape := [B, F, P, D]\<rparr>)"
proof -
  have "flatten_bfc (tensor_scale drive_coeff 500) =
          flatten_bfc (tensor_scale (drive_coeff\<lparr>shape := [B, F, K]\<rparr>) 500)"
    using assms(1,2) by (simp add: flatten_bfc_def tensor_scale_def)
  moreover have "merge_bf face_parts = merge_bf (face_parts\<lparr>shape := [B, F, P, D]\<rparr>)"
    using assms(3,4) by (simp add: merge_bf_def)
  ultimately show ?thesis by (simp add: exp_drive_embedding_def)
qed

end
