(* ===== verification/Drive_Rows.thy ===== *)
theory Drive_Rows
  imports Control_Common
begin

text \<open>
  The driving embeddings row by row. \<open>exp_drive_embedding\<close> and
  \<open>emo_drive_embedding\<close> are flat buffers of rows of width \<open>cross_attention_dim\<close>;
  these lemmas say what each row is: the projection of a face region or of the
  sinusoid of a coefficient scaled by 500 (expression), or of the sinusoid of a
  coefficient scaled by 20 (emotion), each for its own frame.
\<close>

section \<open>Rows of the layer outputs\<close>

lemma sinusoid_rows_row:
  "i < length ts \<Longrightarrow>
   take n (drop (i * n) (sinusoid_rows bk n ts)) = map (bk_sinusoid bk n (ts ! i)) [0..<n]"
  unfolding sinusoid_rows_def by (rule chunk_concat_const) simp_all

lemma length_sinusoid_rows [simp]: "length (sinusoid_rows bk n ts) = length ts * n"
  unfolding sinusoid_rows_def by (rule length_concat_const) simp

lemma te_rows_row:
  "i < length xs div te_in_channels te \<Longrightarrow>
   take (te_time_embed_dim te) (drop (i * te_time_embed_dim te) (te_rows bk te xs)) =
     map (bk_mlp bk (te_name te) (take (te_in_channels te) (drop (i * te_in_channels te) xs)))
       [0..<te_time_embed_dim te]"
  unfolding te_rows_def by (subst chunk_concat_const) (simp_all add: chunks_def)

lemma length_te_rows [simp]:
  "length (te_rows bk te xs) = length xs div te_in_channels te * te_time_embed_dim te"
proof -
  have "length (te_rows bk te xs) = length (chunks (te_in_channels te) xs) * te_time_embed_dim te"
    unfolding te_rows_def by (rule length_concat_const) simp
  then show ?thesis by simp
qed

lemma take_drop_append_fst:
  "j + c \<le> length xs \<Longrightarrow> take c (drop j (xs @ ys)) = take c (drop j xs)"
  by simp

text \<open>Row \<open>r\<close> of slab \<open>a\<close> of a concatenation along the row axis: a row of the
  first operand for \<open>r < P\<close>, else a row of the second.\<close>

lemma cat_data_row:
  assumes a: "a < A" and r: "r < P + K"
    and xs: "length xs = A * (P * c)" and ys: "length ys = A * (K * c)"
  shows "take c (drop ((a * (P + K) + r) * c) (cat_data A (P * c) (K * c) xs ys)) =
           (if r < P then take c (drop ((a * P + r) * c) xs)
            else take c (drop ((a * K + (r - P)) * c) ys))"
proof -
  let ?A1 = "\<lambda>a. take (P * c) (drop (a * (P * c)) xs)" and ?B1 = "\<lambda>a. take (K * c) (drop (a * (K * c)) ys)"
  let ?g = "\<lambda>a. ?A1 a @ ?B1 a"
  have lenA: "length (?A1 a') = P * c" and lenB: "length (?B1 a') = K * c" if "a' < A" for a'
  proof -
    from that have "Suc a' * (P * c) \<le> A * (P * c)" "Suc a' * (K * c) \<le> A * (K * c)"
      by (rule Suc_mult_le)+
    then show "length (?A1 a') = P * c" "length (?B1 a') = K * c" using xs ys by simp_all
  qed
  have len: "length (?g x) = (P + K) * c" if "x \<in> set [0..<A]" for x
  proof -
    have x: "x < A" using that by simp
    show ?thesis by (simp only: length_append lenA [OF x] lenB [OF x] add_mult_distrib)
  qed
  have "drop (a * ((P + K) * c)) (cat_data A (P * c) (K * c) xs ys) = concat (map ?g (drop a [0..<A]))"
    unfolding cat_data_def by (rule drop_concat_const) (use len in blast)
  also have "drop a [0..<A] = a # [Suc a..<A]"
    using a by (simp only: drop_upt add_0) (simp add: upt_conv_Cons)
  finally have d0: "drop (a * ((P + K) * c)) (cat_data A (P * c) (K * c) xs ys) =
      ?g a @ concat (map ?g [Suc a..<A])"
    by simp
  have d: "drop ((a * (P + K) + r) * c) (cat_data A (P * c) (K * c) xs ys) =
      drop (r * c) (drop (a * ((P + K) * c)) (cat_data A (P * c) (K * c) xs ys))"
    by (simp add: drop_drop algebra_simps)
  have rc: "r * c + c \<le> (P + K) * c"
    using r by (metis Suc_mult_le add.commute mult_Suc)
  have "length (?g a) = (P + K) * c" using len a by simp
  then have row: "take c (drop ((a * (P + K) + r) * c) (cat_data A (P * c) (K * c) xs ys)) =
      take c (drop (r * c) (?A1 a @ ?B1 a))"
    unfolding d d0 using rc by (intro take_drop_append_fst) simp
  show ?thesis
  proof (cases "r < P")
    case True
    have "r * c + c \<le> P * c" using True by (metis Suc_mult_le add.commute mult_Suc)
    then have "take c (drop (r * c) (?A1 a @ ?B1 a)) = take c (drop (a * (P * c) + r * c) xs)"
      using lenA [OF a] by (simp add: take_drop_take_drop)
    then show ?thesis using row True by (simp add: algebra_simps)
  next
    case False
    have "(r - P) * c + c \<le> K * c" using False r by (metis Suc_mult_le add.commute mult_Suc less_diff_conv2 not_less add.commute)
    moreover have "drop (r * c) (?A1 a @ ?B1 a) = drop ((r - P) * c) (?B1 a)"
      using False lenA [OF a] by (simp add: diff_mult_distrib)
    ultimately have "take c (drop (r * c) (?A1 a @ ?B1 a)) = take c (drop (a * (K * c) + (r - P) * c) ys)"
      by (simp add: take_drop_take_drop)
    then show ?thesis using row False by (simp add: algebra_simps)
  qed
qed

section \<open>The driving embeddings row by row\<close>

text \<open>C7. The expression path, row by row: for frame \<open>i\<close> (of \<open>b * f\<close>) and region
  \<open>r\<close> (of \<open>P + K\<close>), the row of the driving embedding is \<open>exp_proj\<close> applied to the
  projected face region \<open>face_parts[i, r]\<close> when \<open>r < P\<close>, and to the sinusoid of
  \<open>500 * drive_coeff[i, r - P]\<close> otherwise: the face regions come first, and the
  coefficients are scaled by 500 before the sinusoidal embedding.\<close>

theorem exp_drive_embedding_rows:
  assumes dc: "shape drive_coeff = [B, F, K]" "tensor_wf drive_coeff"
    and fp: "shape face_parts = [B, F, P, te_in_channels face_proj]" "tensor_wf face_parts"
    and pos: "0 < B" "0 < F" "0 < cad" "0 < te_in_channels face_proj"
    and dims: "ts_num_channels exp_embedding = cad" "te_time_embed_dim face_proj = cad"
      "te_in_channels exp_proj = cad"
    and i: "i < B * F" and r: "r < P + K"
  shows "\<exists>de. exp_drive_embedding bk exp_embedding face_proj exp_proj cad B F drive_coeff face_parts = Inr de \<and>
     take (te_time_embed_dim exp_proj) (drop ((i * (P + K) + r) * te_time_embed_dim exp_proj) (data de)) =
     map (bk_mlp bk (te_name exp_proj)
            (if r < P
             then map (bk_mlp bk (te_name face_proj)
                         (take (te_in_channels face_proj)
                            (drop ((i * P + r) * te_in_channels face_proj) (data face_parts))))
                    [0..<cad]
             else map (bk_sinusoid bk cad (data drive_coeff ! (i * K + (r - P)) * 500)) [0..<cad]))
       [0..<te_time_embed_dim exp_proj]"
proof -
  let ?in = "te_in_channels face_proj"
  let ?Fc = "te_rows bk face_proj (data face_parts)"
  let ?S = "sinusoid_rows bk cad (map (\<lambda>x. x * 500) (data drive_coeff))"
  let ?X = "cat_data (B * F) (P * cad) (K * cad) ?Fc ?S"
  have lfp: "length (data face_parts) = B * F * P * ?in" and ldc: "length (data drive_coeff) = B * F * K"
    using fp dc by (simp_all add: tensor_wf_def)
  have lFc: "length ?Fc = B * F * (P * cad)"
    using lfp pos(4) dims(2) by simp
  have lS: "length ?S = B * F * (K * cad)"
    using ldc by simp
  have "length ?X = B * F * (P * cad + K * cad)"
    by (rule length_cat_data [OF lFc lS])
  then have lX: "length ?X div cad = B * F * (P + K)"
    using pos(3) by (simp add: add_mult_distrib [symmetric])
  have q: "i * (P + K) + r < length ?X div cad"
    unfolding lX by (rule mixed_bound [OF i r])
  have row: "take cad (drop ((i * (P + K) + r) * cad) ?X) =
      (if r < P then take cad (drop ((i * P + r) * cad) ?Fc)
       else take cad (drop ((i * K + (r - P)) * cad) ?S))"
    by (rule cat_data_row [OF i r lFc lS])
  have face: "take cad (drop ((i * P + r) * cad) ?Fc) =
      map (bk_mlp bk (te_name face_proj) (take ?in (drop ((i * P + r) * ?in) (data face_parts)))) [0..<cad]"
    if "r < P"
  proof -
    have "i * P + r < length (data face_parts) div ?in"
      using mixed_bound [OF i that] lfp pos(4) by simp
    then show ?thesis using te_rows_row [of "i * P + r" "data face_parts" face_proj bk] dims(2) by simp
  qed
  have coeff: "take cad (drop ((i * K + (r - P)) * cad) ?S) =
      map (bk_sinusoid bk cad (data drive_coeff ! (i * K + (r - P)) * 500)) [0..<cad]"
    if "\<not> r < P"
  proof -
    have "i * K + (r - P) < length (data drive_coeff)"
      using mixed_bound [OF i, of "r - P" K] that r ldc by simp
    then show ?thesis using sinusoid_rows_row [of "i * K + (r - P)" _ cad bk] by simp
  qed
  have "take (te_time_embed_dim exp_proj) (drop ((i * (P + K) + r) * te_time_embed_dim exp_proj)
          (te_rows bk exp_proj ?X)) =
        map (bk_mlp bk (te_name exp_proj) (take cad (drop ((i * (P + K) + r) * cad) ?X)))
          [0..<te_time_embed_dim exp_proj]"
    using te_rows_row [of "i * (P + K) + r" ?X exp_proj bk] q dims(3) by simp
  then show ?thesis
    using exp_drive_embedding_value [OF dc(1) fp(1) pos(1,2) dims, of bk] row face coeff
    by (cases "r < P") simp_all
qed

theorem exp_drive_embedding_rows_witness:
  "\<exists>de. exp_drive_embedding demo_backend
          \<lparr>ts_num_channels = 1, ts_flip_sin_to_cos = True, ts_downscale_freq_shift = 0\<rparr>
          \<lparr>te_name = ''face_proj'', te_in_channels = 2, te_time_embed_dim = 1\<rparr>
          \<lparr>te_name = ''exp_proj'', te_in_channels = 1, te_time_embed_dim = 1\<rparr> 1 1 1
          \<lparr>shape = [1, 1, 1], data = [3]\<rparr> \<lparr>shape = [1, 1, 1, 2], data = [0, 0]\<rparr> = Inr de \<and>
     take 1 (drop ((0 * (1 + 1) + 1) * 1) (data de)) =
     map (bk_mlp demo_backend ''exp_proj'' (map (bk_sinusoid demo_backend 1 (3 * 500)) [0..<1])) [0..<1]"
  using exp_drive_embedding_rows [where drive_coeff = "\<lparr>shape = [1, 1, 1], data = [3 :: int]\<rparr>"
      and face_parts = "\<lparr>shape = [1, 1, 1, 2], data = [0, 0]\<rparr>"
      and face_proj = "\<lparr>te_name = ''face_proj'', te_in_channels = 2, te_time_embed_dim = 1\<rparr>"
      and exp_proj = "\<lparr>te_name = ''exp_proj'', te_in_channels = 1, te_time_embed_dim = 1\<rparr>"
      and exp_embedding = "\<lparr>ts_num_channels = 1, ts_flip_sin_to_cos = True, ts_downscale_freq_shift = 0\<rparr>"
      and B = 1 and F = 1 and K = 1 and P = 1 and cad = 1 and i = 0 and r = 1 and bk = demo_backend]
  by (simp add: tensor_wf_def)

text \<open>C9. The emotion path, row by row: for frame \<open>i\<close> and emotion channel \<open>r\<close>, the
  row of the driving embedding is \<open>emo_proj\<close> applied to the sinusoid of
  \<open>20 * emo_embedding[i, r]\<close>.\<close>

theorem emo_drive_embedding_rows:
  assumes emo: "shape emo = [B, F, K]" "tensor_wf emo"
    and pos: "0 < B" "0 < F" "0 < cad"
    and dims: "ts_num_channels emo_embedding = cad" "te_in_channels emo_proj = cad"
    and i: "i < B * F" and r: "r < K"
  shows "\<exists>de. emo_drive_embedding bk emo_embedding emo_proj cad B F emo = Inr de \<and>
     take (te_time_embed_dim emo_proj) (drop ((i * K + r) * te_time_embed_dim emo_proj) (data de)) =
     map (bk_mlp bk (te_name emo_proj) (map (bk_sinusoid bk cad (data emo ! (i * K + r) * 20)) [0..<cad]))
       [0..<te_time_embed_dim emo_proj]"
proof -
  let ?S = "sinusoid_rows bk cad (map (\<lambda>x. x * 20) (data emo))"
  have le: "length (data emo) = B * F * K"
    using emo by (simp add: tensor_wf_def)
  have q: "i * K + r < length ?S div cad"
    using mixed_bound [OF i r] le pos(3) by simp
  have "take cad (drop ((i * K + r) * cad) ?S) =
          map (bk_sinusoid bk cad (data emo ! (i * K + r) * 20)) [0..<cad]"
    using sinusoid_rows_row [of "i * K + r" _ cad bk] mixed_bound [OF i r] le by simp
  moreover have "take (te_time_embed_dim emo_proj) (drop ((i * K + r) * te_time_embed_dim emo_proj)
          (te_rows bk emo_proj ?S)) =
        map (bk_mlp bk (te_name emo_proj) (take cad (drop ((i * K + r) * cad) ?S)))
          [0..<te_time_embed_dim emo_proj]"
    using te_rows_row [of "i * K + r" ?S emo_proj bk] q dims(2) by simp
  ultimately show ?thesis
    using emo_drive_embedding_value [OF emo(1) pos(1,2) dims, of bk] by simp
qed

theorem emo_drive_embedding_rows_witness:
  "\<exists>de. emo_drive_embedding demo_backend
          \<lparr>ts_num_channels = 1, ts_flip_sin_to_cos = True, ts_downscale_freq_shift = 0\<rparr>
          \<lparr>te_name = ''emo_proj'', te_in_channels = 1, te_time_embed_dim = 1\<rparr> 1 1 1
          \<lparr>shape = [1, 1, 2], data = [3, 4]\<rparr> = Inr de \<and>
     take 1 (drop ((0 * 2 + 1) * 1) (data de)) =
     map (bk_mlp demo_backend ''emo_proj'' (map (bk_sinusoid demo_backend 1 (4 * 20)) [0..<1])) [0..<1]"
  using emo_drive_embedding_rows [where emo = "\<lparr>shape = [1, 1, 2], data = [3 :: int, 4]\<rparr>"
      and emo_proj = "\<lparr>te_name = ''emo_proj'', te_in_channels = 1, te_time_embed_dim = 1\<rparr>"
      and emo_embedding = "\<lparr>ts_num_channels = 1, ts_flip_sin_to_cos = True, ts_downscale_freq_shift = 0\<rparr>"
      and B = 1 and F = 1 and K = 2 and cad = 1 and i = 0 and r = 1 and bk = demo_backend]
  by (simp add: tensor_wf_def)

end
