(* ===== verification/Fusion.thy ===== *)
theory Fusion
  imports Control_Common
begin

text \<open>
  The fusion loop \<open>for idx, block in enumerate(self.blocks_down)\<close> of the classes as a
  whole: on well-shaped inputs it returns, its keys are the iterations' keys in order and
  each output has the shape its block gives (\<open>fusion_inv\<close>, \<open>fusion_loop\<close>); any run
  that returns, whatever its inputs, has those keys and stores only well-formed tensors
  (\<open>fusion_run\<close>); and the three stages of a forward pass chain into the two
  pipelines every output theorem instantiates.
\<close>

section \<open>The fusion loop\<close>

text \<open>
  The invariant of the loop after \<open>k\<close> blocks: the running feature map has the
  width \<open>block_out_channels[k]\<close> and the extent the first \<open>k\<close> blocks give, the
  dictionary holds the first \<open>k\<close> keys in order, and the output under key \<open>j\<close>
  is a \<open>b c f h w\<close> map of width \<open>block_out_channels[j + 1]\<close>.
\<close>

definition fusion_inv ::
  "'a backend \<Rightarrow> (nat \<Rightarrow> string) \<Rightarrow> nat list \<Rightarrow> nat \<Rightarrow> nat \<Rightarrow> nat \<Rightarrow> nat \<Rightarrow> nat \<Rightarrow>
   'a tensor \<times> 'a out_dict \<Rightarrow> bool" where
  "fusion_inv bk key boc B F h w k st =
     (case st of (e, d) \<Rightarrow>
        shape e = [B * F, boc ! k, sk_extent bk k h, sk_extent bk k w] \<and>
        dict_keys d = map key [0..<k] \<and>
        (\<forall>j<k. \<exists>t. map_of d (key j) = Some t \<and>
                  shape t = [B, boc ! Suc j, F, sk_extent bk (Suc j) h, sk_extent bk (Suc j) w]))"

text \<open>One iteration on a feature map of the width block \<open>k\<close> expects: the block
  returns a map of the next width, and the dictionary receives it under the
  iteration's key, frames split back out.\<close>

lemma fusion_step_shape:
  assumes e: "shape e = [B * F, boc ! k, eh, ew]"
    and k: "k < length boc - 1"
    and drv: "shape drive = [B * F, L, cad]"
    and F: "0 < F"
  shows "\<exists>e' out. fusion_step bk F drive key k (sk_chain cad npe npeh boc ! k) (e, d) =
             Inr (e', dict_set d (key k) out) \<and>
           shape e' = [B * F, boc ! Suc k, bk_sk_size bk (block_name k) eh, bk_sk_size bk (block_name k) ew] \<and>
           shape out = [B, boc ! Suc k, F, bk_sk_size bk (block_name k) eh, bk_sk_size bk (block_name k) ew]"
proof -
  let ?s = "[B * F, boc ! Suc k, bk_sk_size bk (block_name k) eh, bk_sk_size bk (block_name k) ew]"
  let ?o = "tabulate ?s (bk_sk bk (block_name k) e drive)"
  have sk: "sk_forward bk (sk_chain cad npe npeh boc ! k) e drive = Inr ?o"
    using e drv k by (simp add: sk_forward_shape)
  let ?out = "\<lparr>shape = [B, boc ! Suc k, F, bk_sk_size bk (block_name k) eh,
                         bk_sk_size bk (block_name k) ew],
               data = swap_axes F (boc ! Suc k)
                        (bk_sk_size bk (block_name k) eh * bk_sk_size bk (block_name k) ew)
                        (data ?o)\<rparr>"
  have "from_frames F ?o = Inr ?out"
    using from_frames_shape [of ?o B F] F by simp
  then have "fusion_step bk F drive key k (sk_chain cad npe npeh boc ! k) (e, d) =
               Inr (?o, dict_set d (key k) ?out)"
    using sk by (simp add: fusion_step_def)
  moreover have "shape ?out = [B, boc ! Suc k, F, bk_sk_size bk (block_name k) eh,
                               bk_sk_size bk (block_name k) ew]"
    by simp
  ultimately show ?thesis by (intro exI conjI) auto
qed

lemma fusion_step_inv:
  assumes inv: "fusion_inv bk key boc B F h w k (e, d)"
    and k: "k < length boc - 1"
    and drv: "shape drive = [B * F, L, cad]"
    and F: "0 < F"
    and inj: "inj_on key {0..<length boc - 1}"
  shows "\<exists>st'. fusion_step bk F drive key k (sk_chain cad npe npeh boc ! k) (e, d) = Inr st' \<and>
           fusion_inv bk key boc B F h w (Suc k) st'"
proof -
  from inv have e: "shape e = [B * F, boc ! k, sk_extent bk k h, sk_extent bk k w]"
    and keys: "dict_keys d = map key [0..<k]"
    and old: "\<forall>j<k. \<exists>t. map_of d (key j) = Some t \<and>
                shape t = [B, boc ! Suc j, F, sk_extent bk (Suc j) h, sk_extent bk (Suc j) w]"
    by (simp_all add: fusion_inv_def)
  obtain e' out where step: "fusion_step bk F drive key k (sk_chain cad npe npeh boc ! k) (e, d) =
      Inr (e', dict_set d (key k) out)"
    and e': "shape e' = [B * F, boc ! Suc k, sk_extent bk (Suc k) h, sk_extent bk (Suc k) w]"
    and out: "shape out = [B, boc ! Suc k, F, sk_extent bk (Suc k) h, sk_extent bk (Suc k) w]"
    using fusion_step_shape [OF e k drv F, where bk = bk and key = key and npe = npe and npeh = npeh and d = d]
    by auto
  have neq: "key j \<noteq> key k" if "j < k" for j
  proof (rule inj_on_contraD [OF inj])
    show "j \<noteq> k" "j \<in> {0..<length boc - 1}" "k \<in> {0..<length boc - 1}"
      using that k by simp_all
  qed
  have fresh: "key k \<notin> set (dict_keys d)"
  proof
    assume "key k \<in> set (dict_keys d)"
    then obtain j where "j < k" "key j = key k" using keys by auto
    then show False using neq by blast
  qed
  have "fusion_inv bk key boc B F h w (Suc k) (e', dict_set d (key k) out)"
    unfolding fusion_inv_def using old fresh keys neq e' out by (auto simp: less_Suc_eq)
  then show ?thesis
    using step by blast
qed

theorem fusion_loop:
  assumes emb: "shape emb = [B * F, boc ! 0, h, w]"
    and drv: "shape drive = [B * F, L, cad]"
    and F: "0 < F"
    and inj: "inj_on key {0..<length boc - 1}"
  shows "\<exists>st. enum_loop (fusion_step bk F drive key) 0 (sk_chain cad npe npeh boc) (emb, []) = Inr st \<and>
           fusion_inv bk key boc B F h w (length boc - 1) st"
proof -
  have "\<exists>st. enum_loop (fusion_step bk F drive key) 0 (sk_chain cad npe npeh boc) (emb, []) = Inr st \<and>
          fusion_inv bk key boc B F h w (length (sk_chain cad npe npeh boc)) st"
  proof (rule enum_loop_invariant)
    fix k x st
    assume k: "k < length (sk_chain cad npe npeh boc)" and x: "x = sk_chain cad npe npeh boc ! k"
      and inv: "fusion_inv bk key boc B F h w k st"
    obtain e d where st: "st = (e, d)" by (cases st)
    show "\<exists>st'. fusion_step bk F drive key (0 + k) x st = Inr st' \<and> fusion_inv bk key boc B F h w (Suc k) st'"
      using fusion_step_inv [of bk key boc B F h w k e d drive L cad] inv k x st drv F inj by simp
  next
    show "fusion_inv bk key boc B F h w 0 (emb, [])"
      using emb by (simp add: fusion_inv_def)
  qed
  then show ?thesis by simp
qed

section \<open>Any run of the fusion loop\<close>

text \<open>
  What every returning run of the loop guarantees, whatever the shapes of its inputs:
  the dictionary receives exactly the keys of the iterations, in order, and holds only
  well-formed tensors.
\<close>

definition dict_wf :: "('k, 'a tensor) dict \<Rightarrow> bool" where
  "dict_wf d \<longleftrightarrow> (\<forall>kv \<in> set d. tensor_wf (snd kv))"

lemma dict_wf_Nil [simp]: "dict_wf []"
  by (simp add: dict_wf_def)

lemma dict_wf_dict_set [simp]: "dict_wf d \<Longrightarrow> tensor_wf v \<Longrightarrow> dict_wf (dict_set d k v)"
  using set_dict_set [of d k v] by (auto simp: dict_wf_def)

lemma dict_wf_map_of: "dict_wf d \<Longrightarrow> map_of d k = Some t \<Longrightarrow> tensor_wf t"
  unfolding dict_wf_def by (drule map_of_SomeD) force

lemma dict_wf_dict_get: "dict_wf d \<Longrightarrow> dict_get d k = Inr t \<Longrightarrow> tensor_wf t"
  by (auto simp: dict_get_def dict_wf_map_of split: option.splits)

lemma fusion_step_Inr:
  assumes "fusion_step bk F de key idx blk (e, d) = Inr st'"
  shows "\<exists>e' out. st' = (e', dict_set d (key idx) out) \<and> tensor_wf e' \<and> tensor_wf out"
proof -
  from assms obtain e' out where sk: "sk_forward bk blk e de = Inr e'"
    and ff: "from_frames F e' = Inr out" and st': "st' = (e', dict_set d (key idx) out)"
    by (auto simp: fusion_step_def ebind_eq_Inr_iff)
  have "tensor_wf e'" using sk by (rule tensor_wf_sk_forward)
  moreover have "tensor_wf out" using tensor_wf_from_frames [OF calculation ff] .
  ultimately show ?thesis using st' by blast
qed

lemma fusion_run:
  assumes run: "enum_loop (fusion_step bk F de key) 0 blocks (e, []) = Inr (e', d)"
    and inj: "inj_on key {0..<length blocks}"
  shows "dict_keys d = map key [0..<length blocks] \<and> dict_wf d"
proof -
  let ?P = "\<lambda>k (st :: 'a tensor \<times> 'a out_dict). dict_keys (snd st) = map key [0..<k] \<and> dict_wf (snd st)"
  have "?P (length blocks) (e', d)"
  proof (rule enum_loop_Inr_induct [OF run])
    show "?P 0 (e, [])" by simp
  next
    fix k st st'
    assume k: "k < length blocks" and P: "?P k st"
      and step: "fusion_step bk F de key (0 + k) (blocks ! k) st = Inr st'"
    obtain e0 d0 where st: "st = (e0, d0)" by (cases st)
    obtain e1 out where st': "st' = (e1, dict_set d0 (key k) out)" and wf: "tensor_wf out"
      using fusion_step_Inr [of bk F de key k "blocks ! k" e0 d0 st'] step st by auto
    have "key k \<notin> key ` {0..<k}"
    proof
      assume "key k \<in> key ` {0..<k}"
      then obtain x where x: "x < k" "key x = key k" by auto
      moreover have "x \<in> {0..<length blocks}" "k \<in> {0..<length blocks}" using x(1) k by auto
      ultimately show False using inj_onD [OF inj] by fastforce
    qed
    then show "?P (Suc k) st'"
      using P st st' wf by auto
  qed
  then show ?thesis by simp
qed

text \<open>The forward passes of the four classes without extra outputs share one shape:
  a returning pass is a returning run of the fusion loop.\<close>

lemma fusion_forward_Inr:
  assumes "(case xs of
              [bs, c, F, h, w] \<Rightarrow>
                ebind (A h w) (\<lambda>embedding.
                ebind (D bs F) (\<lambda>drive_embedding.
                ebind (enum_loop (fusion_step bk F drive_embedding key) 0 blocks (embedding, []))
                  (\<lambda>(embedding, ret_dict). Inr ret_dict)))
            | _ \<Rightarrow> Inl ValueError) = Inr d"
  shows "\<exists>F e de e'. enum_loop (fusion_step bk F de key) 0 blocks (e, []) = Inr (e', d)"
proof -
  obtain bs c F h w where "ebind (A h w) (\<lambda>embedding. ebind (D bs F) (\<lambda>drive_embedding.
      ebind (enum_loop (fusion_step bk F drive_embedding key) 0 blocks (embedding, []))
        (\<lambda>(embedding, ret_dict). Inr ret_dict))) = Inr d"
    using case_list5_Inr [OF assms] by blast
  then obtain e de st where "enum_loop (fusion_step bk F de key) 0 blocks (e, []) = Inr st"
    and "(case st of (embedding, ret_dict) \<Rightarrow> Inr ret_dict) = (Inr d :: error + _)"
    by (auto simp: ebind_eq_Inr_iff)
  then show ?thesis by (cases st) auto
qed

section \<open>The whole pipeline\<close>

text \<open>
  The three stages of a forward pass in the expression mode, chained: the conditioning
  path and the expression path return, and the fusion loop over the block chain returns
  in a state that satisfies the loop invariant. Every class's theorem about its outputs
  in that mode is an instance.
\<close>

lemma exp_pipeline:
  assumes cond: "shape condition = [B, conv_in_channels cv, F, H, W]"
    and conv: "conv_out_channels cv = boc ! 0" "conv_kernel_size cv = 3" "conv_padding cv = 1"
    and dc: "shape drive_coeff = [B, F, K]"
    and fp: "shape face_parts = [B, F, P, te_in_channels face_proj]"
    and pos: "0 < B" "0 < F" "0 < sf" "0 < int H div sf" "0 < int W div sf"
    and dims: "ts_num_channels exp_embedding = cad" "te_time_embed_dim face_proj = cad"
      "te_in_channels exp_proj = cad" "te_time_embed_dim exp_proj = cad"
    and inj: "inj_on key {0..<length boc - 1}"
  shows "\<exists>e de st. condition_embedding bk sf cv condition H W = Inr e \<and>
           exp_drive_embedding bk exp_embedding face_proj exp_proj cad B F drive_coeff face_parts = Inr de \<and>
           shape de = [B * F, P + K, te_time_embed_dim exp_proj] \<and>
           enum_loop (fusion_step bk F de key) 0 (sk_chain cad npe npeh boc) (e, []) = Inr st \<and>
           fusion_inv bk key boc B F (nat (int H div sf)) (nat (int W div sf)) (length boc - 1) st"
proof -
  obtain e where e: "condition_embedding bk sf cv condition H W = Inr e"
    and es: "shape e = [B * F, boc ! 0, nat (int H div sf), nat (int W div sf)]"
    using condition_embedding_shape [OF cond pos(3-5), of bk] conv by auto
  obtain de where de: "exp_drive_embedding bk exp_embedding face_proj exp_proj cad B F
                         drive_coeff face_parts = Inr de"
    and ds: "shape de = [B * F, P + K, te_time_embed_dim exp_proj]"
    using exp_drive_embedding_value [OF dc fp pos(1,2) dims(1-3), of bk] by simp
  obtain st where "enum_loop (fusion_step bk F de key) 0 (sk_chain cad npe npeh boc) (e, []) = Inr st"
    and "fusion_inv bk key boc B F (nat (int H div sf)) (nat (int W div sf)) (length boc - 1) st"
    using fusion_loop [OF es _ pos(2) inj] ds dims(4) by blast
  then show ?thesis using e de ds by blast
qed

text \<open>The same for the emotion mode.\<close>

lemma emo_pipeline:
  assumes cond: "shape condition = [B, conv_in_channels cv, F, H, W]"
    and conv: "conv_out_channels cv = boc ! 0" "conv_kernel_size cv = 3" "conv_padding cv = 1"
    and emo: "shape emo = [B, F, K]"
    and pos: "0 < B" "0 < F" "0 < sf" "0 < int H div sf" "0 < int W div sf"
    and dims: "ts_num_channels emo_embedding = cad" "te_in_channels emo_proj = cad"
      "te_time_embed_dim emo_proj = cad"
    and inj: "inj_on key {0..<length boc - 1}"
  shows "\<exists>e de st. condition_embedding bk sf cv condition H W = Inr e \<and>
           emo_drive_embedding bk emo_embedding emo_proj cad B F emo = Inr de \<and>
           shape de = [B * F, K, cad] \<and>
           enum_loop (fusion_step bk F de key) 0 (sk_chain cad npe npeh boc) (e, []) = Inr st \<and>
           fusion_inv bk key boc B F (nat (int H div sf)) (nat (int W div sf)) (length boc - 1) st"
proof -
  obtain e where e: "condition_embedding bk sf cv condition H W = Inr e"
    and es: "shape e = [B * F, boc ! 0, nat (int H div sf), nat (int W div sf)]"
    using condition_embedding_shape [OF cond pos(3-5), of bk] conv by auto
  obtain de where de: "emo_drive_embedding bk emo_embedding emo_proj cad B F emo = Inr de"
    and ds: "shape de = [B * F, K, cad]"
    using emo_drive_embedding_value [OF emo pos(1,2) dims(1,2), of bk] dims(3) by simp
  obtain st where "enum_loop (fusion_step bk F de key) 0 (sk_chain cad npe npeh boc) (e, []) = Inr st"
    and "fusion_inv bk key boc B F (nat (int H div sf)) (nat (int W div sf)) (length boc - 1) st"
    using fusion_loop [OF es ds pos(2) inj] by blast
  then show ?thesis using e de ds by blast
qed

section \<open>Renaming the keys\<close>

text \<open>
  Two classes that run the same fusion loop under different f-strings for the keys
  write the same values in the same order: \<open>rekeyed key1 key2 n d1 d2\<close> says that
  \<open>d1\<close> and \<open>d2\<close> hold the same values and are keyed by \<open>key1\<close>, resp. \<open>key2\<close>,
  of the block indices \<open>0..<n\<close>.
\<close>

definition rekeyed :: "(nat \<Rightarrow> string) \<Rightarrow> (nat \<Rightarrow> string) \<Rightarrow> nat \<Rightarrow> 'a out_dict \<Rightarrow> 'a out_dict \<Rightarrow> bool" where
  "rekeyed key1 key2 n d1 d2 \<longleftrightarrow>
     map snd d2 = map snd d1 \<and> dict_keys d1 = map key1 [0..<n] \<and> dict_keys d2 = map key2 [0..<n]"

lemma fusion_loop_rekey:
  assumes len: "length bs2 = length bs1"
    and blk: "\<And>k. k < length bs1 \<Longrightarrow> sk_forward bk (bs1 ! k) = sk_forward bk (bs2 ! k)"
    and inj1: "inj_on key1 {0..<length bs1}" and inj2: "inj_on key2 {0..<length bs1}"
  shows "rel_sum (=) (\<lambda>(e1, d1) (e2, d2). e1 = e2 \<and> rekeyed key1 key2 (length bs1) d1 d2)
           (enum_loop (fusion_step bk F de key1) 0 bs1 (e, []))
           (enum_loop (fusion_step bk F de key2) 0 bs2 (e, []))"
proof -
  let ?R = "\<lambda>k (e1, d1) (e2, d2). e1 = e2 \<and> rekeyed key1 key2 k d1 d2"
  have "rel_sum (=) (?R (length bs1))
           (enum_loop (fusion_step bk F de key1) 0 bs1 (e, []))
           (enum_loop (fusion_step bk F de key2) 0 bs2 (e, []))"
  proof (rule enum_loop_lockstep [OF len])
    show "?R 0 (e, []) (e, [])" by (simp add: rekeyed_def)
  next
    fix k :: nat and s1 s2 :: "'a tensor \<times> 'a out_dict"
    assume k: "k < length bs1" and r: "?R k s1 s2"
    obtain e1 d1 e2 d2 where s: "s1 = (e1, d1)" "s2 = (e2, d2)" by (cases s1, cases s2)
    have "key1 k \<notin> key1 ` {0..<k}" "key2 k \<notin> key2 ` {0..<k}"
      using inj_on_image_mem_iff [OF inj1, of k "{0..<k}"] inj_on_image_mem_iff [OF inj2, of k "{0..<k}"] k
      by auto
    then have new1: "key1 k \<notin> set (dict_keys d1)" and new2: "key2 k \<notin> set (dict_keys d2)"
      using r by (simp_all add: s rekeyed_def)
    show "rel_sum (=) (?R (Suc k)) (fusion_step bk F de key1 (0 + k) (bs1 ! k) s1)
            (fusion_step bk F de key2 (0 + k) (bs2 ! k) s2)"
    proof (cases "sk_forward bk (bs2 ! k) e2 de")
      case (Inl err)
      then show ?thesis using r by (simp add: s fusion_step_def blk [OF k])
    next
      case (Inr x)
      then show ?thesis using r new1 new2
        by (cases "from_frames F x")
           (auto simp: s fusion_step_def blk [OF k] rekeyed_def dict_set_new dict_keys_def)
    qed
  qed
  then show ?thesis by simp
qed
lemma fusion_forward_rekey:
  assumes "length bs2 = length bs1"
    and "\<And>k. k < length bs1 \<Longrightarrow> sk_forward bk (bs1 ! k) = sk_forward bk (bs2 ! k)"
    and "inj_on key1 {0..<length bs1}" "inj_on key2 {0..<length bs1}"
  shows "rel_sum (=) (rekeyed key1 key2 (length bs1))
           (ebind (enum_loop (fusion_step bk F de key1) 0 bs1 (e, [])) (\<lambda>(embedding, ret_dict). Inr ret_dict))
           (ebind (enum_loop (fusion_step bk F de key2) 0 bs2 (e, [])) (\<lambda>(embedding, ret_dict). Inr ret_dict))"
  by (rule rel_sum_ebind [OF fusion_loop_rekey [OF assms]]) auto

lemma fusion_forward_rekey_sk_chain:
  assumes "inj_on key1 {0..<length boc - 1}" "inj_on key2 {0..<length boc - 1}"
  shows "rel_sum (=) (rekeyed key1 key2 (length boc - 1))
           (ebind (enum_loop (fusion_step bk F de key1) 0 (sk_chain cad npe npeh boc) (e, []))
              (\<lambda>(embedding, ret_dict). Inr ret_dict))
           (ebind (enum_loop (fusion_step bk F de key2) 0 (sk_chain cad npe npeh boc) (e, []))
              (\<lambda>(embedding, ret_dict). Inr ret_dict))"
  using fusion_forward_rekey [of "sk_chain cad npe npeh boc" "sk_chain cad npe npeh boc" bk key1 key2] assms
  by simp

text \<open>Under \<open>rekeyed\<close>, the value stored under \<open>key2 k\<close> is the one stored under
  \<open>key1 k\<close>.\<close>

lemma rekeyed_map_of:
  assumes r: "rekeyed key1 key2 n d1 d2" and inj: "inj_on key1 {0..<n}" "inj_on key2 {0..<n}"
    and k: "k < n"
  shows "map_of d2 (key2 k) = map_of d1 (key1 k)"
proof -
  have v: "map snd d2 = map snd d1" and k1: "map fst d1 = map key1 [0..<n]"
    and k2: "map fst d2 = map key2 [0..<n]"
    using r by (simp_all add: rekeyed_def dict_keys_def)
  have len: "length d1 = n" "length d2 = n"
    using arg_cong [OF k1, of length] arg_cong [OF k2, of length] by simp_all
  have "map_of (zip (map key1 [0..<n]) (map snd d1)) (map key1 [0..<n] ! k) = Some (map snd d1 ! k)"
    "map_of (zip (map key2 [0..<n]) (map snd d2)) (map key2 [0..<n] ! k) = Some (map snd d2 ! k)"
    by (rule map_of_zip_nth; use inj k len in \<open>simp add: distinct_map\<close>)+
  moreover have "zip (map key1 [0..<n]) (map snd d1) = d1" "zip (map key2 [0..<n]) (map snd d2) = d2"
    using zip_map_fst_snd [of d1] zip_map_fst_snd [of d2] k1 k2 by simp_all
  moreover have "map key1 [0..<n] ! k = key1 k" "map key2 [0..<n] ! k = key2 k"
    using k by simp_all
  ultimately show ?thesis using v by simp
qed

end
