(* ===== verification/HM_Control.thy ===== *)
theory HM_Control
  imports Fusion
begin

text \<open>
  \<open>class HMControlNet\<close> (\<open>hm_control.py\<close>, lines 23--88): the ControlNet driven by
  expression coefficients and face-part features, whose outputs feed the denoiser's
  down path under the keys \<open>down_0\<close>, \<open>down_1\<close>, \dots The constructor's state is a
  record of the layer configurations it creates; \<open>forward\<close> is a function of the
  numeric backend, the network and the three input tensors, returning the output
  dictionary or the exception the call raises.
\<close>

record hm_control_net =
  hm_scale_factor :: int
  hm_embedding_channels :: nat
  hm_cross_attention_dim :: nat
  hm_conv_in :: conv2d
  hm_exp_embedding :: timesteps
  hm_exp_proj :: timestep_embedding
  hm_face_proj :: timestep_embedding
  hm_blocks_down :: "sk_cross_attention list"

text \<open>
  \<open>__init__\<close>: \<open>block_out_channels[0]\<close> raises \<open>IndexError\<close> on an empty tuple.
\<close>

definition hm_control_init :: "nat \<Rightarrow> nat \<Rightarrow> int \<Rightarrow> nat \<Rightarrow> nat list \<Rightarrow> hm_control_net result" where
  "hm_control_init embedding_channels input_channels scale_factor cross_attention_dim
       block_out_channels =
     (if block_out_channels = [] then Inl IndexError
      else Inr \<lparr>hm_scale_factor = scale_factor,
                hm_embedding_channels = embedding_channels,
                hm_cross_attention_dim = cross_attention_dim,
                hm_conv_in = \<lparr>conv_name = ''conv_in'', conv_in_channels = input_channels,
                              conv_out_channels = block_out_channels ! 0,
                              conv_kernel_size = 3, conv_padding = 1\<rparr>,
                hm_exp_embedding = \<lparr>ts_num_channels = cross_attention_dim,
                                    ts_flip_sin_to_cos = True, ts_downscale_freq_shift = 0\<rparr>,
                hm_exp_proj = \<lparr>te_name = ''exp_proj'', te_in_channels = cross_attention_dim,
                               te_time_embed_dim = cross_attention_dim\<rparr>,
                hm_face_proj = \<lparr>te_name = ''face_proj'', te_in_channels = 1024,
                                te_time_embed_dim = cross_attention_dim\<rparr>,
                hm_blocks_down = sk_chain cross_attention_dim 64 64 block_out_channels\<rparr>)"

text \<open>The constructor's defaults.\<close>

definition hm_control_default :: "hm_control_net result" where
  "hm_control_default = hm_control_init 1280 3 8 320 [128, 320, 640, 1280]"

definition hm_control_key :: "nat \<Rightarrow> string" where
  "hm_control_key idx = ''down_'' @ nat_str idx"

definition hm_control_forward ::
  "'a::{times,numeral} backend \<Rightarrow> hm_control_net \<Rightarrow> 'a tensor \<Rightarrow> 'a tensor \<Rightarrow> 'a tensor \<Rightarrow>
   'a out_dict result" where
  "hm_control_forward bk net condition drive_coeff face_parts =
     (case shape condition of
        [bs, _, video_length, h, w] \<Rightarrow>
          ebind (condition_embedding bk (hm_scale_factor net) (hm_conv_in net) condition h w)
            (\<lambda>embedding.
          ebind (exp_drive_embedding bk (hm_exp_embedding net) (hm_face_proj net) (hm_exp_proj net)
                   (hm_cross_attention_dim net) bs video_length drive_coeff face_parts)
            (\<lambda>drive_embedding.
          ebind (enum_loop (fusion_step bk video_length drive_embedding hm_control_key) 0
                   (hm_blocks_down net) (embedding, []))
            (\<lambda>(embedding, ret_dict). Inr ret_dict)))
      | _ \<Rightarrow> Inl ValueError)"

section \<open>Construction\<close>

lemma hm_control_init_Inr:
  "block_out_channels \<noteq> [] \<Longrightarrow>
   \<exists>net. hm_control_init ec ic sf cad block_out_channels = Inr net \<and>
     hm_scale_factor net = sf \<and> hm_cross_attention_dim net = cad \<and>
     conv_in_channels (hm_conv_in net) = ic \<and>
     conv_out_channels (hm_conv_in net) = block_out_channels ! 0 \<and>
     conv_kernel_size (hm_conv_in net) = 3 \<and> conv_padding (hm_conv_in net) = 1 \<and>
     hm_exp_embedding net = \<lparr>ts_num_channels = cad, ts_flip_sin_to_cos = True,
                             ts_downscale_freq_shift = 0\<rparr> \<and>
     hm_exp_proj net = \<lparr>te_name = ''exp_proj'', te_in_channels = cad, te_time_embed_dim = cad\<rparr> \<and>
     hm_face_proj net = \<lparr>te_name = ''face_proj'', te_in_channels = 1024, te_time_embed_dim = cad\<rparr> \<and>
     hm_blocks_down net = sk_chain cad 64 64 block_out_channels"
  by (simp add: hm_control_init_def)

lemma inj_on_hm_control_key: "inj_on hm_control_key A"
  by (simp add: inj_on_def hm_control_key_def)

section \<open>The forward pass\<close>

text \<open>C1. HMControlNet's forward pass returns on well-shaped inputs, and its output
  dictionary has exactly the keys \<open>down_0\<close>, \dots, \<open>down_{n-2}\<close> for
  \<open>n = len(block_out_channels)\<close>, in ascending order; the output under \<open>down_k\<close>
  has the batch and frame counts of the condition and \<open>block_out_channels[k+1]\<close>
  channels.\<close>

theorem hm_control_forward_outputs:
  assumes init: "hm_control_init ec ic sf cad boc = Inr net"
    and cond: "shape condition = [B, ic, F, H, W]"
    and dc: "shape drive_coeff = [B, F, K]"
    and fp: "shape face_parts = [B, F, P, 1024]"
    and pos: "0 < B" "0 < F" "0 < sf" "0 < int H div sf" "0 < int W div sf"
  shows "\<exists>d. hm_control_forward bk net condition drive_coeff face_parts = Inr d \<and>
           dict_keys d = map (\<lambda>k. ''down_'' @ nat_str k) [0..<length boc - 1] \<and>
           (\<forall>k < length boc - 1. \<exists>t. map_of d (''down_'' @ nat_str k) = Some t \<and>
              shape t = [B, boc ! Suc k, F, sk_extent bk (Suc k) (nat (int H div sf)),
                         sk_extent bk (Suc k) (nat (int W div sf))])"
proof -
  have "boc \<noteq> []" using init by (auto simp: hm_control_init_def)
  then obtain net' where net': "hm_control_init ec ic sf cad boc = Inr net'" and
    fields: "hm_scale_factor net' = sf" "hm_cross_attention_dim net' = cad"
      "conv_in_channels (hm_conv_in net') = ic"
      "conv_out_channels (hm_conv_in net') = boc ! 0"
      "conv_kernel_size (hm_conv_in net') = 3" "conv_padding (hm_conv_in net') = 1"
      "hm_exp_embedding net' = \<lparr>ts_num_channels = cad, ts_flip_sin_to_cos = True,
                                ts_downscale_freq_shift = 0\<rparr>"
      "hm_exp_proj net' = \<lparr>te_name = ''exp_proj'', te_in_channels = cad, te_time_embed_dim = cad\<rparr>"
      "hm_face_proj net' = \<lparr>te_name = ''face_proj'', te_in_channels = 1024, te_time_embed_dim = cad\<rparr>"
      "hm_blocks_down net' = sk_chain cad 64 64 boc"
    by (blast dest: hm_control_init_Inr)
  from init net' have n: "net = net'" by simp
  obtain e de st where
    "condition_embedding bk sf (hm_conv_in net) condition H W = Inr e"
    "exp_drive_embedding bk (hm_exp_embedding net) (hm_face_proj net) (hm_exp_proj net) cad B F
       drive_coeff face_parts = Inr de"
    "enum_loop (fusion_step bk F de hm_control_key) 0 (sk_chain cad 64 64 boc) (e, []) = Inr st"
    "fusion_inv bk hm_control_key boc B F (nat (int H div sf)) (nat (int W div sf)) (length boc - 1) st"
    using exp_pipeline [of condition B "hm_conv_in net" F H W boc drive_coeff K face_parts P
        "hm_face_proj net" sf "hm_exp_embedding net" cad "hm_exp_proj net" hm_control_key bk 64 64]
      cond dc fp pos fields n inj_on_hm_control_key by auto
  moreover obtain emb d where "st = (emb, d)" by (cases st)
  ultimately show ?thesis
    using cond fields n by (simp add: hm_control_forward_def fusion_inv_def hm_control_key_def)
qed

theorem hm_control_forward_outputs_witness:
  "\<exists>net d. hm_control_init 1280 3 8 320 [128, 320, 640, 1280] = Inr net \<and>
     hm_control_forward demo_backend net
       \<lparr>shape = [1, 3, 2, 16, 16], data = replicate 1536 0\<rparr>
       \<lparr>shape = [1, 2, 4], data = replicate 8 1\<rparr>
       \<lparr>shape = [1, 2, 3, 1024], data = replicate 6144 0\<rparr> = Inr d \<and>
     dict_keys d = [''down_'' @ nat_str 0, ''down_'' @ nat_str 1, ''down_'' @ nat_str 2]"
proof -
  obtain net where init: "hm_control_init 1280 3 8 320 [128, 320, 640, 1280] = Inr net"
    by (simp add: hm_control_init_def)
  have "\<exists>d. hm_control_forward demo_backend net
       \<lparr>shape = [1, 3, 2, 16, 16], data = replicate 1536 0\<rparr>
       \<lparr>shape = [1, 2, 4], data = replicate 8 1\<rparr>
       \<lparr>shape = [1, 2, 3, 1024], data = replicate 6144 0\<rparr> = Inr d \<and>
       dict_keys d = map (\<lambda>k. ''down_'' @ nat_str k) [0..<length [128, 320, 640, 1280::nat] - 1] \<and>
       (\<forall>k < length [128, 320, 640, 1280::nat] - 1. \<exists>t. map_of d (''down_'' @ nat_str k) = Some t \<and>
          shape t = [1, [128, 320, 640, 1280] ! Suc k, 2, sk_extent demo_backend (Suc k) (nat (int 16 div 8)),
                     sk_extent demo_backend (Suc k) (nat (int 16 div 8))])"
    by (rule hm_control_forward_outputs [OF init]) simp_all
  then obtain d where "hm_control_forward demo_backend net
       \<lparr>shape = [1, 3, 2, 16, 16], data = replicate 1536 0\<rparr>
       \<lparr>shape = [1, 2, 4], data = replicate 8 1\<rparr>
       \<lparr>shape = [1, 2, 3, 1024], data = replicate 6144 0\<rparr> = Inr d"
    and keys: "dict_keys d = map (\<lambda>k. ''down_'' @ nat_str k) [0..<length [128, 320, 640, 1280::nat] - 1]"
    by blast
  moreover have "[0..<length [128, 320, 640, 1280::nat] - 1] = [0, 1, 2]"
    by (simp add: upt_rec)
  ultimately show ?thesis using init keys by (simp only: list.map) blast
qed

text \<open>C13. Whatever its inputs, a forward pass of HMControlNet that returns has written
  exactly the keys \<open>down_0\<close>, \dots, \<open>down_{len(blocks_down)-1}\<close>, in that order,
  and every tensor it returns is well formed (its buffer holds as many entries as its
  shape says).\<close>

theorem hm_control_forward_any_run:
  assumes "hm_control_forward bk net condition drive_coeff face_parts = Inr d"
  shows "dict_keys d = map (\<lambda>k. ''down_'' @ nat_str k) [0..<length (hm_blocks_down net)] \<and>
         (\<forall>k t. map_of d k = Some t \<longrightarrow> tensor_wf t)"
proof -
  obtain F e de e' where "enum_loop (fusion_step bk F de hm_control_key) 0 (hm_blocks_down net) (e, []) =
      Inr (e', d)"
    using fusion_forward_Inr [OF assms [unfolded hm_control_forward_def]] by blast
  from fusion_run [OF this inj_on_hm_control_key] show ?thesis
    by (auto simp: hm_control_key_def dict_wf_map_of)
qed

theorem hm_control_forward_any_run_witness:
  "\<exists>d. hm_control_forward demo_backend (projr (hm_control_init 1 1 4 2 [2, 3]))
         \<lparr>shape = [1, 1, 1, 4, 4], data = replicate 16 0\<rparr> \<lparr>shape = [1, 1, 1], data = [1]\<rparr>
         \<lparr>shape = [1, 1, 1, 1024], data = replicate 1024 0\<rparr> = Inr d \<and>
       dict_keys d = [''down_'' @ nat_str 0] \<and> (\<forall>k t. map_of d k = Some t \<longrightarrow> tensor_wf t)"
proof -
  let ?f = "hm_control_forward demo_backend (projr (hm_control_init 1 1 4 2 [2, 3]))
         \<lparr>shape = [1, 1, 1, 4, 4], data = replicate 16 0\<rparr> \<lparr>shape = [1, 1, 1], data = [1]\<rparr>
         \<lparr>shape = [1, 1, 1, 1024], data = replicate 1024 (0 :: int)\<rparr>"
  have "\<not> isl ?f" by code_simp
  then obtain d where fwd: "?f = Inr d" by (cases ?f) auto
  have "length (hm_blocks_down (projr (hm_control_init 1 1 4 2 [2, 3]))) = 1"
    by (simp add: hm_control_init_def)
  then show ?thesis using hm_control_forward_any_run [OF fwd] fwd by simp
qed

text \<open>C26. A condition whose channel count differs from the configured
  \<open>input_channels\<close> makes \<open>conv_in\<close> raise a \<open>RuntimeError\<close>.\<close>

theorem hm_control_forward_channel_mismatch:
  assumes init: "hm_control_init ec ic sf cad boc = Inr net"
    and cond: "shape condition = [B, C, F, H, W]" "C \<noteq> ic"
    and pos: "0 < sf" "0 < int H div sf" "0 < int W div sf"
  shows "hm_control_forward bk net condition drive_coeff face_parts = Inl RuntimeError"
proof -
  have "hm_scale_factor net = sf" "conv_in_channels (hm_conv_in net) = ic"
    using init by (auto simp: hm_control_init_def split: if_splits)
  then show ?thesis
    using cond pos by (simp add: hm_control_forward_def condition_embedding_channel_mismatch)
qed

theorem hm_control_forward_channel_mismatch_witness:
  "hm_control_forward demo_backend (projr (hm_control_init 1280 3 8 320 [128, 320, 640, 1280]))
     \<lparr>shape = [1, 4, 2, 16, 16], data = replicate 2048 0\<rparr>
     \<lparr>shape = [1, 2, 4], data = replicate 8 1\<rparr>
     \<lparr>shape = [1, 2, 3, 1024], data = replicate 6144 0\<rparr> = Inl RuntimeError"
  by (rule hm_control_forward_channel_mismatch [of 1280 3 8 320 "[128, 320, 640, 1280]" _ _ 1 4 2 16 16])
    (simp_all add: hm_control_init_def)

text \<open>C27. A zero \<open>scale_factor\<close> makes \<open>h // scale_factor\<close> raise
  \<open>ZeroDivisionError\<close>; a condition smaller than the scale factor gives a zero
  interpolation size, which \<open>F.interpolate\<close> refuses with a \<open>RuntimeError\<close>.\<close>

theorem hm_control_forward_bad_scale:
  assumes cond: "shape condition = [B, C, F, H, W]"
    and bad: "hm_scale_factor net = 0 \<or> int H div hm_scale_factor net \<le> 0 \<or>
              int W div hm_scale_factor net \<le> 0"
  shows "hm_control_forward bk net condition drive_coeff face_parts =
           Inl (if hm_scale_factor net = 0 then ZeroDivisionError else RuntimeError)"
  using condition_embedding_bad_scale [OF cond bad] cond
  by (simp add: hm_control_forward_def)

theorem hm_control_forward_bad_scale_witness:
  "hm_control_forward demo_backend (projr (hm_control_init 1280 3 8 320 [128, 320, 640, 1280]))
     \<lparr>shape = [1, 3, 2, 4, 4], data = replicate 96 0\<rparr>
     \<lparr>shape = [1, 2, 4], data = replicate 8 1\<rparr>
     \<lparr>shape = [1, 2, 3, 1024], data = replicate 6144 0\<rparr> = Inl RuntimeError"
proof -
  have "hm_scale_factor (projr (hm_control_init 1280 3 8 320 [128, 320, 640, 1280])) = 8"
    by (simp add: hm_control_init_def)
  then show ?thesis
    using hm_control_forward_bad_scale [of "\<lparr>shape = [1, 3, 2, 4, 4], data = replicate 96 0\<rparr>"
        1 3 2 4 4 "projr (hm_control_init 1280 3 8 320 [128, 320, 640, 1280])" demo_backend
        "\<lparr>shape = [1, 2, 4], data = replicate 8 1\<rparr>" "\<lparr>shape = [1, 2, 3, 1024], data = replicate 6144 0\<rparr>"]
    by simp
qed

text \<open>C28. The constructor raises \<open>IndexError\<close> exactly when
  \<open>block_out_channels\<close> is empty; otherwise it builds one fusion block per pair of
  consecutive widths, block \<open>k\<close> taking \<open>block_out_channels[k]\<close> channels to
  \<open>block_out_channels[k+1]\<close> with 64 positional embeddings.\<close>

theorem hm_control_init_blocks:
  "(hm_control_init ec ic sf cad boc = Inl IndexError \<longleftrightarrow> boc = []) \<and>
   (hm_control_init ec ic sf cad boc = Inr net \<longrightarrow>
      length (hm_blocks_down net) = length boc - 1 \<and>
      conv_out_channels (hm_conv_in net) = boc ! 0 \<and>
      (\<forall>k < length boc - 1.
         sk_channel_in (hm_blocks_down net ! k) = boc ! k \<and>
         sk_channel_out (hm_blocks_down net ! k) = boc ! Suc k \<and>
         sk_cross_attention_dim (hm_blocks_down net ! k) = cad \<and>
         sk_num_positional_embeddings (hm_blocks_down net ! k) = 64 \<and>
         sk_num_positional_embeddings_hidden (hm_blocks_down net ! k) = 64))"
  by (auto simp: hm_control_init_def)

theorem hm_control_init_blocks_witness:
  "hm_control_init 1280 3 8 320 [128, 320, 640, 1280] =
     Inr (projr (hm_control_init 1280 3 8 320 [128, 320, 640, 1280])) \<and>
   length (hm_blocks_down (projr (hm_control_init 1280 3 8 320 [128, 320, 640, 1280]))) = 3 \<and>
   sk_channel_out (hm_blocks_down (projr (hm_control_init 1280 3 8 320 [128, 320, 640, 1280])) ! 2) = 1280"
proof -
  let ?net = "projr (hm_control_init 1280 3 8 320 [128, 320, 640, 1280])"
  have init: "hm_control_init 1280 3 8 320 [128, 320, 640, 1280] = Inr ?net"
    by (simp add: hm_control_init_def)
  then show ?thesis
    using hm_control_init_blocks [of 1280 3 8 320 "[128, 320, 640, 1280]" ?net] by simp
qed

text \<open>C21. HMControlNet does not check the batch and frame axes of its driving inputs
  against the condition's: coefficients of shape \<open>[B', F', K']\<close> with
  \<open>B' * F' * K' = B * F * K\<close> and face parts of shape \<open>[B'', F'', P, D]\<close> with
  \<open>B'' * F'' = B * F\<close> are read as the \<open>[B, F, K]\<close> and \<open>[B, F, P, D]\<close> inputs with
  the same entries. In particular face parts with batch and frame axes exchanged are
  accepted, and frames of different batch elements are mixed.\<close>

theorem hm_control_forward_exp_frames_unchecked:
  assumes "shape condition = [B, C, F, H, W]"
    and "shape drive_coeff = [B', F', K']" "B' * F' * K' = B * F * K"
    and "shape face_parts = [B'', F'', P, D]" "B'' * F'' = B * F"
  shows "hm_control_forward bk net condition drive_coeff face_parts =
         hm_control_forward bk net condition (drive_coeff\<lparr>shape := [B, F, K]\<rparr>)
           (face_parts\<lparr>shape := [B, F, P, D]\<rparr>)"
  using exp_drive_embedding_reshape [OF assms(2-5)] assms(1)
  by (simp add: hm_control_forward_def)

theorem hm_control_forward_exp_frames_unchecked_witness:
  "hm_control_forward demo_backend (projr (hm_control_init 1 1 4 2 [2, 3]))
     \<lparr>shape = [1, 1, 2, 4, 4], data = replicate 32 0\<rparr> \<lparr>shape = [1, 2, 1], data = [5, 7]\<rparr>
     \<lparr>shape = [2, 1, 1, 1024], data = replicate 2048 0\<rparr> =
   hm_control_forward demo_backend (projr (hm_control_init 1 1 4 2 [2, 3]))
     \<lparr>shape = [1, 1, 2, 4, 4], data = replicate 32 0\<rparr> \<lparr>shape = [1, 2, 1], data = [5, 7]\<rparr>
     \<lparr>shape = [1, 2, 1, 1024], data = replicate 2048 (0 :: int)\<rparr> \<and>
   \<not> isl (hm_control_forward demo_backend (projr (hm_control_init 1 1 4 2 [2, 3]))
     \<lparr>shape = [1, 1, 2, 4, 4], data = replicate 32 0\<rparr> \<lparr>shape = [1, 2, 1], data = [5, 7]\<rparr>
     \<lparr>shape = [2, 1, 1, 1024], data = replicate 2048 (0 :: int)\<rparr>)"
proof
  show "hm_control_forward demo_backend (projr (hm_control_init 1 1 4 2 [2, 3]))
     \<lparr>shape = [1, 1, 2, 4, 4], data = replicate 32 0\<rparr> \<lparr>shape = [1, 2, 1], data = [5, 7]\<rparr>
     \<lparr>shape = [2, 1, 1, 1024], data = replicate 2048 0\<rparr> =
   hm_control_forward demo_backend (projr (hm_control_init 1 1 4 2 [2, 3]))
     \<lparr>shape = [1, 1, 2, 4, 4], data = replicate 32 0\<rparr> \<lparr>shape = [1, 2, 1], data = [5, 7]\<rparr>
     \<lparr>shape = [1, 2, 1, 1024], data = replicate 2048 (0 :: int)\<rparr>"
    using hm_control_forward_exp_frames_unchecked
      [where condition = "\<lparr>shape = [1, 1, 2, 4, 4], data = replicate 32 0\<rparr>"
        and drive_coeff = "\<lparr>shape = [1, 2, 1], data = [5, 7 :: int]\<rparr>"
        and face_parts = "\<lparr>shape = [2, 1, 1, 1024], data = replicate 2048 0\<rparr>"
        and B = 1 and C = 1 and F = 2 and H = 4 and W = 4 and B' = 1 and F' = 2 and K' = 1 and K = 1
        and B'' = 2 and F'' = 1 and P = 1 and D = 1024 and bk = demo_backend
        and net = "projr (hm_control_init 1 1 4 2 [2, 3])"]
    by simp
  show "\<not> isl (hm_control_forward demo_backend (projr (hm_control_init 1 1 4 2 [2, 3]))
     \<lparr>shape = [1, 1, 2, 4, 4], data = replicate 32 0\<rparr> \<lparr>shape = [1, 2, 1], data = [5, 7]\<rparr>
     \<lparr>shape = [2, 1, 1, 1024], data = replicate 2048 (0 :: int)\<rparr>)"
    by code_simp
qed

end
