(* ===== verification/HM_Control2.thy ===== *)
theory HM_Control2
  imports Fusion
begin

text \<open>
  \<open>class HMControlNet2\<close> (\<open>hm_control.py\<close>, lines 90--146): the ControlNet driven
  by emotion coefficients alone. Its constructor has no face branch, its blocks have
  1024 hidden positional embeddings, and its forward pass uses the emotion path
  (coefficients times 20, \<open>emo_proj\<close>) and the keys \<open>down2_{idx}\<close>.
\<close>

record hm_control2_net =
  c2_scale_factor :: int
  c2_embedding_channels :: nat
  c2_cross_attention_dim :: nat
  c2_conv_in :: conv2d
  c2_exp_embedding :: timesteps
  c2_emo_proj :: timestep_embedding
  c2_blocks_down :: "sk_cross_attention list"

definition hm_control2_init :: "nat \<Rightarrow> nat \<Rightarrow> int \<Rightarrow> nat \<Rightarrow> nat list \<Rightarrow> hm_control2_net result" where
  "hm_control2_init embedding_channels input_channels scale_factor cross_attention_dim
       block_out_channels =
     (if block_out_channels = [] then Inl IndexError
      else Inr \<lparr>c2_scale_factor = scale_factor,
                c2_embedding_channels = embedding_channels,
                c2_cross_attention_dim = cross_attention_dim,
                c2_conv_in = \<lparr>conv_name = ''conv_in'', conv_in_channels = input_channels,
                              conv_out_channels = block_out_channels ! 0,
                              conv_kernel_size = 3, conv_padding = 1\<rparr>,
                c2_exp_embedding = \<lparr>ts_num_channels = cross_attention_dim,
                                    ts_flip_sin_to_cos = True, ts_downscale_freq_shift = 0\<rparr>,
                c2_emo_proj = \<lparr>te_name = ''emo_proj'', te_in_channels = cross_attention_dim,
                               te_time_embed_dim = cross_attention_dim\<rparr>,
                c2_blocks_down = sk_chain cross_attention_dim 64 1024 block_out_channels\<rparr>)"

definition hm_control2_default :: "hm_control2_net result" where
  "hm_control2_default = hm_control2_init 1280 3 8 320 [128, 320, 640, 1280]"

definition hm_control2_key :: "nat \<Rightarrow> string" where
  "hm_control2_key idx = ''down2_'' @ nat_str idx"

definition hm_control2_forward ::
  "'a::{times,numeral} backend \<Rightarrow> hm_control2_net \<Rightarrow> 'a tensor \<Rightarrow> 'a tensor \<Rightarrow>
   'a out_dict result" where
  "hm_control2_forward bk net condition emo_embedding =
     (case shape condition of
        [bs, _, video_length, h, w] \<Rightarrow>
          ebind (condition_embedding bk (c2_scale_factor net) (c2_conv_in net) condition h w)
            (\<lambda>embedding.
          ebind (emo_drive_embedding bk (c2_exp_embedding net) (c2_emo_proj net)
                   (c2_cross_attention_dim net) bs video_length emo_embedding)
            (\<lambda>drive_embedding.
          ebind (enum_loop (fusion_step bk video_length drive_embedding hm_control2_key) 0
                   (c2_blocks_down net) (embedding, []))
            (\<lambda>(embedding, ret_dict). Inr ret_dict)))
      | _ \<Rightarrow> Inl ValueError)"

lemma hm_control2_init_Inr:
  "block_out_channels \<noteq> [] \<Longrightarrow>
   \<exists>net. hm_control2_init ec ic sf cad block_out_channels = Inr net \<and>
     c2_scale_factor net = sf \<and> c2_cross_attention_dim net = cad \<and>
     conv_in_channels (c2_conv_in net) = ic \<and>
     conv_out_channels (c2_conv_in net) = block_out_channels ! 0 \<and>
     conv_kernel_size (c2_conv_in net) = 3 \<and> conv_padding (c2_conv_in net) = 1 \<and>
     c2_exp_embedding net = \<lparr>ts_num_channels = cad, ts_flip_sin_to_cos = True,
                             ts_downscale_freq_shift = 0\<rparr> \<and>
     c2_emo_proj net = \<lparr>te_name = ''emo_proj'', te_in_channels = cad, te_time_embed_dim = cad\<rparr> \<and>
     c2_blocks_down net = sk_chain cad 64 1024 block_out_channels"
  by (simp add: hm_control2_init_def)

lemma inj_on_hm_control2_key: "inj_on hm_control2_key A"
  by (simp add: inj_on_def hm_control2_key_def)

section \<open>The forward pass\<close>

text \<open>C17. HMControlNet2's forward pass returns on well-shaped inputs, with exactly the
  keys \<open>down2_0\<close>, \dots, \<open>down2_{n-2}\<close> in ascending order, the output under
  \<open>down2_k\<close> of shape \<open>(B, block_out_channels[k+1], F, h_k, w_k)\<close>.\<close>

theorem hm_control2_forward_outputs:
  assumes init: "hm_control2_init ec ic sf cad boc = Inr net"
    and cond: "shape condition = [B, ic, F, H, W]"
    and emo: "shape emo_embedding = [B, F, K]"
    and pos: "0 < B" "0 < F" "0 < sf" "0 < int H div sf" "0 < int W div sf"
  shows "\<exists>d. hm_control2_forward bk net condition emo_embedding = Inr d \<and>
           dict_keys d = map (\<lambda>k. ''down2_'' @ nat_str k) [0..<length boc - 1] \<and>
           (\<forall>k < length boc - 1. \<exists>t. map_of d (''down2_'' @ nat_str k) = Some t \<and>
              shape t = [B, boc ! Suc k, F, sk_extent bk (Suc k) (nat (int H div sf)),
                         sk_extent bk (Suc k) (nat (int W div sf))])"
proof -
  have "boc \<noteq> []" using init by (auto simp: hm_control2_init_def)
  then obtain net' where net': "hm_control2_init ec ic sf cad boc = Inr net'" and
    fields: "c2_scale_factor net' = sf" "c2_cross_attention_dim net' = cad"
      "conv_in_channels (c2_conv_in net') = ic"
      "conv_out_channels (c2_conv_in net') = boc ! 0"
      "conv_kernel_size (c2_conv_in net') = 3" "conv_padding (c2_conv_in net') = 1"
      "c2_exp_embedding net' = \<lparr>ts_num_channels = cad, ts_flip_sin_to_cos = True,
                                ts_downscale_freq_shift = 0\<rparr>"
      "c2_emo_proj net' = \<lparr>te_name = ''emo_proj'', te_in_channels = cad, te_time_embed_dim = cad\<rparr>"
      "c2_blocks_down net' = sk_chain cad 64 1024 boc"
    by (blast dest: hm_control2_init_Inr)
  from init net' have n: "net = net'" by simp
  obtain e de st where
    "condition_embedding bk sf (c2_conv_in net) condition H W = Inr e"
    "emo_drive_embedding bk (c2_exp_embedding net) (c2_emo_proj net) cad B F emo_embedding = Inr de"
    "enum_loop (fusion_step bk F de hm_control2_key) 0 (sk_chain cad 64 1024 boc) (e, []) = Inr st"
    "fusion_inv bk hm_control2_key boc B F (nat (int H div sf)) (nat (int W div sf)) (length boc - 1) st"
    using emo_pipeline [of condition B "c2_conv_in net" F H W boc emo_embedding K sf
        "c2_exp_embedding net" cad "c2_emo_proj net" hm_control2_key bk 64 1024]
      cond emo pos fields n inj_on_hm_control2_key by auto
  moreover obtain emb d where "st = (emb, d)" by (cases st)
  ultimately show ?thesis
    using cond fields n by (simp add: hm_control2_forward_def fusion_inv_def hm_control2_key_def)
qed

theorem hm_control2_forward_outputs_witness:
  "\<exists>net d. hm_control2_init 1280 3 8 320 [128, 320, 640, 1280] = Inr net \<and>
     hm_control2_forward demo_backend net
       \<lparr>shape = [1, 3, 2, 16, 16], data = replicate 1536 0\<rparr>
       \<lparr>shape = [1, 2, 4], data = replicate 8 1\<rparr> = Inr d \<and>
     dict_keys d = [''down2_'' @ nat_str 0, ''down2_'' @ nat_str 1, ''down2_'' @ nat_str 2]"
proof -
  obtain net where init: "hm_control2_init 1280 3 8 320 [128, 320, 640, 1280] = Inr net"
    by (simp add: hm_control2_init_def)
  obtain d where fwd: "hm_control2_forward demo_backend net
       \<lparr>shape = [1, 3, 2, 16, 16], data = replicate 1536 0\<rparr>
       \<lparr>shape = [1, 2, 4], data = replicate 8 1\<rparr> = Inr d"
    and keys: "dict_keys d = map (\<lambda>k. ''down2_'' @ nat_str k) [0..<length [128, 320, 640, 1280::nat] - 1]"
    using hm_control2_forward_outputs [OF init, of "\<lparr>shape = [1, 3, 2, 16, 16], data = replicate 1536 0\<rparr>"
        1 2 16 16 "\<lparr>shape = [1, 2, 4], data = replicate 8 1\<rparr>" 4 demo_backend]
    by auto
  have "[0..<length [128, 320, 640, 1280::nat] - 1] = [0, 1, 2]"
    by (simp add: upt_rec)
  then have "dict_keys d = [''down2_'' @ nat_str 0, ''down2_'' @ nat_str 1, ''down2_'' @ nat_str 2]"
    using keys by (simp only: list.map)
  then show ?thesis using init fwd by blast
qed

section \<open>The frame axis of the emotion input\<close>

text \<open>C20. HMControlNet2's forward pass never compares the batch and frame axes of
  \<open>emo_embedding\<close> with the condition's: an emotion input of any three-axis shape
  \<open>[B', F', K']\<close> with \<open>B' * F' * K' = B * F * K\<close> is silently read as the
  \<open>[B, F, K]\<close> input with the same entries, so mismatched frame counts are not
  detected when the sizes agree.\<close>

theorem hm_control2_forward_emo_frames_unchecked:
  assumes "shape emo_embedding = [B', F', K']" "shape condition = [B, C, F, H, W]"
    and "B' * F' * K' = B * F * K"
  shows "hm_control2_forward bk net condition emo_embedding =
         hm_control2_forward bk net condition (emo_embedding\<lparr>shape := [B, F, K]\<rparr>)"
  using emo_drive_embedding_reshape [OF assms(1,3)] assms(2)
  by (simp add: hm_control2_forward_def)

theorem hm_control2_forward_emo_frames_unchecked_witness:
  "hm_control2_forward demo_backend (projr (hm_control2_init 1 1 4 2 [2, 3]))
     \<lparr>shape = [1, 1, 2, 4, 4], data = replicate 32 0\<rparr> \<lparr>shape = [1, 1, 2], data = [5, 7]\<rparr> =
   hm_control2_forward demo_backend (projr (hm_control2_init 1 1 4 2 [2, 3]))
     \<lparr>shape = [1, 1, 2, 4, 4], data = replicate 32 0\<rparr> \<lparr>shape = [1, 2, 1], data = [5, 7 :: int]\<rparr> \<and>
   \<not> isl (hm_control2_forward demo_backend (projr (hm_control2_init 1 1 4 2 [2, 3]))
     \<lparr>shape = [1, 1, 2, 4, 4], data = replicate 32 0\<rparr> \<lparr>shape = [1, 1, 2], data = [5, 7 :: int]\<rparr>)"
proof
  show "hm_control2_forward demo_backend (projr (hm_control2_init 1 1 4 2 [2, 3]))
     \<lparr>shape = [1, 1, 2, 4, 4], data = replicate 32 0\<rparr> \<lparr>shape = [1, 1, 2], data = [5, 7]\<rparr> =
   hm_control2_forward demo_backend (projr (hm_control2_init 1 1 4 2 [2, 3]))
     \<lparr>shape = [1, 1, 2, 4, 4], data = replicate 32 0\<rparr> \<lparr>shape = [1, 2, 1], data = [5, 7 :: int]\<rparr>"
    using hm_control2_forward_emo_frames_unchecked [where emo_embedding = "\<lparr>shape = [1, 1, 2], data = [5, 7 :: int]\<rparr>"
        and condition = "\<lparr>shape = [1, 1, 2, 4, 4], data = replicate 32 0\<rparr>" and B' = 1 and F' = 1 and K' = 2
        and B = 1 and C = 1 and F = 2 and H = 4 and W = 4 and K = 1 and bk = demo_backend
        and net = "projr (hm_control2_init 1 1 4 2 [2, 3])"]
    by simp
  show "\<not> isl (hm_control2_forward demo_backend (projr (hm_control2_init 1 1 4 2 [2, 3]))
     \<lparr>shape = [1, 1, 2, 4, 4], data = replicate 32 0\<rparr> \<lparr>shape = [1, 1, 2], data = [5, 7 :: int]\<rparr>)"
    by code_simp
qed

end
