(* ===== verification/HMV2_Control.thy ===== *)
theory HMV2_Control
  imports Fusion
begin

text \<open>
  \<open>class HMV2ControlNet\<close> (\<open>hm_control.py\<close>, lines 148--213): the expression and
  face-part ControlNet for the denoiser's up path. It differs from \<open>HMControlNet\<close> in
  its defaults (scale factor 4, five channel widths), in the hidden positional
  embedding count of its blocks (1024), and in its keys, which count down:
  \<open>up_v2_{len(blocks_down) - idx - 1}\<close>.
\<close>

record hmv2_net =
  v2_scale_factor :: int
  v2_embedding_channels :: nat
  v2_cross_attention_dim :: nat
  v2_conv_in :: conv2d
  v2_exp_embedding :: timesteps
  v2_exp_proj :: timestep_embedding
  v2_face_proj :: timestep_embedding
  v2_blocks_down :: "sk_cross_attention list"

definition hmv2_init :: "nat \<Rightarrow> nat \<Rightarrow> int \<Rightarrow> nat \<Rightarrow> nat list \<Rightarrow> hmv2_net result" where
  "hmv2_init embedding_channels input_channels scale_factor cross_attention_dim block_out_channels =
     (if block_out_channels = [] then Inl IndexError
      else Inr \<lparr>v2_scale_factor = scale_factor,
                v2_embedding_channels = embedding_channels,
                v2_cross_attention_dim = cross_attention_dim,
                v2_conv_in = \<lparr>conv_name = ''conv_in'', conv_in_channels = input_channels,
                              conv_out_channels = block_out_channels ! 0,
                              conv_kernel_size = 3, conv_padding = 1\<rparr>,
                v2_exp_embedding = \<lparr>ts_num_channels = cross_attention_dim,
                                    ts_flip_sin_to_cos = True, ts_downscale_freq_shift = 0\<rparr>,
                v2_exp_proj = \<lparr>te_name = ''exp_proj'', te_in_channels = cross_attention_dim,
                               te_time_embed_dim = cross_attention_dim\<rparr>,
                v2_face_proj = \<lparr>te_name = ''face_proj'', te_in_channels = 1024,
                                te_time_embed_dim = cross_attention_dim\<rparr>,
                v2_blocks_down = sk_chain cross_attention_dim 64 1024 block_out_channels\<rparr>)"

definition hmv2_default :: "hmv2_net result" where
  "hmv2_default = hmv2_init 1280 3 4 320 [128, 640, 1280, 1280, 1280]"

definition hmv2_key :: "nat \<Rightarrow> nat \<Rightarrow> string" where
  "hmv2_key n idx = ''up_v2_'' @ nat_str (n - idx - 1)"

definition hmv2_forward ::
  "'a::{times,numeral} backend \<Rightarrow> hmv2_net \<Rightarrow> 'a tensor \<Rightarrow> 'a tensor \<Rightarrow> 'a tensor \<Rightarrow>
   'a out_dict result" where
  "hmv2_forward bk net condition drive_coeff face_parts =
     (case shape condition of
        [bs, _, video_length, h, w] \<Rightarrow>
          ebind (condition_embedding bk (v2_scale_factor net) (v2_conv_in net) condition h w)
            (\<lambda>embedding.
          ebind (exp_drive_embedding bk (v2_exp_embedding net) (v2_face_proj net) (v2_exp_proj net)
                   (v2_cross_attention_dim net) bs video_length drive_coeff face_parts)
            (\<lambda>drive_embedding.
          ebind (enum_loop (fusion_step bk video_length drive_embedding
                              (hmv2_key (length (v2_blocks_down net)))) 0
                   (v2_blocks_down net) (embedding, []))
            (\<lambda>(embedding, ret_dict). Inr ret_dict)))
      | _ \<Rightarrow> Inl ValueError)"

section \<open>Construction and keys\<close>

lemma hmv2_init_Inr:
  "block_out_channels \<noteq> [] \<Longrightarrow>
   \<exists>net. hmv2_init ec ic sf cad block_out_channels = Inr net \<and>
     v2_scale_factor net = sf \<and> v2_cross_attention_dim net = cad \<and>
     conv_in_channels (v2_conv_in net) = ic \<and>
     conv_out_channels (v2_conv_in net) = block_out_channels ! 0 \<and>
     conv_kernel_size (v2_conv_in net) = 3 \<and> conv_padding (v2_conv_in net) = 1 \<and>
     v2_exp_embedding net = \<lparr>ts_num_channels = cad, ts_flip_sin_to_cos = True,
                             ts_downscale_freq_shift = 0\<rparr> \<and>
     v2_exp_proj net = \<lparr>te_name = ''exp_proj'', te_in_channels = cad, te_time_embed_dim = cad\<rparr> \<and>
     v2_face_proj net = \<lparr>te_name = ''face_proj'', te_in_channels = 1024, te_time_embed_dim = cad\<rparr> \<and>
     v2_blocks_down net = sk_chain cad 64 1024 block_out_channels"
  by (simp add: hmv2_init_def)

lemma inj_on_hmv2_key: "inj_on (hmv2_key n) {0..<n}"
  by (auto simp: inj_on_def hmv2_key_def)

lemma hmv2_keys_countdown: "map (hmv2_key n) [0..<n] = map (\<lambda>k. ''up_v2_'' @ nat_str k) (rev [0..<n])"
proof -
  have "map (hmv2_key n) [0..<n] = map (\<lambda>k. ''up_v2_'' @ nat_str k) (map (\<lambda>i. n - i - 1) [0..<n])"
    by (simp add: hmv2_key_def)
  then show ?thesis by (simp only: map_countdown_upt)
qed

section \<open>The forward pass\<close>

text \<open>C16. HMV2ControlNet's forward pass returns on well-shaped inputs, and its output
  dictionary has exactly the keys \<open>up_v2_{n-1}\<close>, \dots, \<open>up_v2_0\<close>, in that
  (descending) order, \<open>n\<close> the number of blocks; the output under \<open>up_v2_k\<close> comes
  from block \<open>n - 1 - k\<close> and has \<open>block_out_channels[n - k]\<close> channels.\<close>

theorem hmv2_forward_outputs:
  assumes init: "hmv2_init ec ic sf cad boc = Inr net"
    and cond: "shape condition = [B, ic, F, H, W]"
    and dc: "shape drive_coeff = [B, F, K]"
    and fp: "shape face_parts = [B, F, P, 1024]"
    and pos: "0 < B" "0 < F" "0 < sf" "0 < int H div sf" "0 < int W div sf"
  shows "\<exists>d. hmv2_forward bk net condition drive_coeff face_parts = Inr d \<and>
           dict_keys d = map (\<lambda>k. ''up_v2_'' @ nat_str k) (rev [0..<length boc - 1]) \<and>
           (\<forall>k < length boc - 1. \<exists>t. map_of d (''up_v2_'' @ nat_str k) = Some t \<and>
              shape t = [B, boc ! (length boc - 1 - k), F,
                         sk_extent bk (length boc - 1 - k) (nat (int H div sf)),
                         sk_extent bk (length boc - 1 - k) (nat (int W div sf))])"
proof -
  let ?n = "length boc - 1"
  let ?h = "nat (int H div sf)" and ?w = "nat (int W div sf)"
  have "boc \<noteq> []" using init by (auto simp: hmv2_init_def)
  then obtain net' where net': "hmv2_init ec ic sf cad boc = Inr net'" and
    fields: "v2_scale_factor net' = sf" "v2_cross_attention_dim net' = cad"
      "conv_in_channels (v2_conv_in net') = ic"
      "conv_out_channels (v2_conv_in net') = boc ! 0"
      "conv_kernel_size (v2_conv_in net') = 3" "conv_padding (v2_conv_in net') = 1"
      "v2_exp_embedding net' = \<lparr>ts_num_channels = cad, ts_flip_sin_to_cos = True,
                                ts_downscale_freq_shift = 0\<rparr>"
      "v2_exp_proj net' = \<lparr>te_name = ''exp_proj'', te_in_channels = cad, te_time_embed_dim = cad\<rparr>"
      "v2_face_proj net' = \<lparr>te_name = ''face_proj'', te_in_channels = 1024, te_time_embed_dim = cad\<rparr>"
      "v2_blocks_down net' = sk_chain cad 64 1024 boc"
    by (blast dest: hmv2_init_Inr)
  from init net' have n: "net = net'" by simp
  obtain e de st where
    "condition_embedding bk sf (v2_conv_in net) condition H W = Inr e"
    "exp_drive_embedding bk (v2_exp_embedding net) (v2_face_proj net) (v2_exp_proj net) cad B F
       drive_coeff face_parts = Inr de"
    "enum_loop (fusion_step bk F de (hmv2_key ?n)) 0 (sk_chain cad 64 1024 boc) (e, []) = Inr st"
    and inv: "fusion_inv bk (hmv2_key ?n) boc B F ?h ?w ?n st"
    using exp_pipeline [of condition B "v2_conv_in net" F H W boc drive_coeff K face_parts P
        "v2_face_proj net" sf "v2_exp_embedding net" cad "v2_exp_proj net" "hmv2_key ?n" bk 64 1024]
      cond dc fp pos fields n inj_on_hmv2_key by auto
  moreover obtain emb d where st: "st = (emb, d)" by (cases st)
  ultimately have fwd: "hmv2_forward bk net condition drive_coeff face_parts = Inr d"
    using cond fields n by (simp add: hmv2_forward_def)
  from inv st have keys: "dict_keys d = map (hmv2_key ?n) [0..<?n]"
    and outs: "\<forall>j<?n. \<exists>t. map_of d (hmv2_key ?n j) = Some t \<and>
                 shape t = [B, boc ! Suc j, F, sk_extent bk (Suc j) ?h, sk_extent bk (Suc j) ?w]"
    by (simp_all add: fusion_inv_def)
  have "\<exists>t. map_of d (''up_v2_'' @ nat_str k) = Some t \<and>
          shape t = [B, boc ! (?n - k), F, sk_extent bk (?n - k) ?h, sk_extent bk (?n - k) ?w]"
    if k: "k < ?n" for k
  proof -
    have j: "?n - k - 1 < ?n" using k by simp
    have key: "hmv2_key ?n (?n - k - 1) = ''up_v2_'' @ nat_str k"
      using k by (simp add: hmv2_key_def)
    have suc: "Suc (?n - k - 1) = ?n - k" using k by simp
    show ?thesis using outs [rule_format, OF j] unfolding key suc .
  qed
  then show ?thesis
    using fwd keys by (simp add: hmv2_keys_countdown)
qed

theorem hmv2_forward_outputs_witness:
  "\<exists>net d. hmv2_init 1280 3 4 320 [128, 640, 1280, 1280, 1280] = Inr net \<and>
     hmv2_forward demo_backend net
       \<lparr>shape = [1, 3, 2, 8, 8], data = replicate 384 0\<rparr>
       \<lparr>shape = [1, 2, 4], data = replicate 8 1\<rparr>
       \<lparr>shape = [1, 2, 3, 1024], data = replicate 6144 0\<rparr> = Inr d \<and>
     dict_keys d = [''up_v2_'' @ nat_str 3, ''up_v2_'' @ nat_str 2, ''up_v2_'' @ nat_str 1,
                    ''up_v2_'' @ nat_str 0]"
proof -
  obtain net where init: "hmv2_init 1280 3 4 320 [128, 640, 1280, 1280, 1280] = Inr net"
    by (simp add: hmv2_init_def)
  obtain d where fwd: "hmv2_forward demo_backend net
       \<lparr>shape = [1, 3, 2, 8, 8], data = replicate 384 0\<rparr>
       \<lparr>shape = [1, 2, 4], data = replicate 8 1\<rparr>
       \<lparr>shape = [1, 2, 3, 1024], data = replicate 6144 0\<rparr> = Inr d"
    and keys: "dict_keys d = map (\<lambda>k. ''up_v2_'' @ nat_str k) (rev [0..<length [128, 640, 1280, 1280, 1280::nat] - 1])"
    using hmv2_forward_outputs [OF init, of "\<lparr>shape = [1, 3, 2, 8, 8], data = replicate 384 0\<rparr>"
        1 2 8 8 "\<lparr>shape = [1, 2, 4], data = replicate 8 1\<rparr>" 4
        "\<lparr>shape = [1, 2, 3, 1024], data = replicate 6144 0\<rparr>" 3 demo_backend]
    by auto
  have "rev [0..<length [128, 640, 1280, 1280, 1280::nat] - 1] = [3, 2, 1, 0]"
    by (simp add: upt_rec)
  then have "dict_keys d = [''up_v2_'' @ nat_str 3, ''up_v2_'' @ nat_str 2,
                            ''up_v2_'' @ nat_str 1, ''up_v2_'' @ nat_str 0]"
    using keys by (simp only: list.map)
  then show ?thesis using init fwd by blast
qed

end
