(* ===== verification/HMV2_Control2.thy ===== *)
theory HMV2_Control2
  imports Fusion
begin

text \<open>
  \<open>class HMV2ControlNet2\<close> (\<open>hm_control.py\<close>, lines 308--364): the emotion-driven
  ControlNet for the denoiser's up path: the emotion path of \<open>HMControlNet2\<close> with
  the defaults and the count-down keys \<open>up2_v2_{len(blocks_down) - idx - 1}\<close> of
  \<open>HMV2ControlNet\<close>. (Its constructor keeps \<open>face_proj\<close> commented out.)
\<close>

record hmv2c2_net =
  w2_scale_factor :: int
  w2_embedding_channels :: nat
  w2_cross_attention_dim :: nat
  w2_conv_in :: conv2d
  w2_exp_embedding :: timesteps
  w2_emo_proj :: timestep_embedding
  w2_blocks_down :: "sk_cross_attention list"

definition hmv2c2_init :: "nat \<Rightarrow> nat \<Rightarrow> int \<Rightarrow> nat \<Rightarrow> nat list \<Rightarrow> hmv2c2_net result" where
  "hmv2c2_init embedding_channels input_channels scale_factor cross_attention_dim block_out_channels =
     (if block_out_channels = [] then Inl IndexError
      else Inr \<lparr>w2_scale_factor = scale_factor,
                w2_embedding_channels = embedding_channels,
                w2_cross_attention_dim = cross_attention_dim,
                w2_conv_in = \<lparr>conv_name = ''conv_in'', conv_in_channels = input_channels,
                              conv_out_channels = block_out_channels ! 0,
                              conv_kernel_size = 3, conv_padding = 1\<rparr>,
                w2_exp_embedding = \<lparr>ts_num_channels = cross_attention_dim,
                                    ts_flip_sin_to_cos = True, ts_downscale_freq_shift = 0\<rparr>,
                w2_emo_proj = \<lparr>te_name = ''emo_proj'', te_in_channels = cross_attention_dim,
                               te_time_embed_dim = cross_attention_dim\<rparr>,
                w2_blocks_down = sk_chain cross_attention_dim 64 1024 block_out_channels\<rparr>)"

definition hmv2c2_default :: "hmv2c2_net result" where
  "hmv2c2_default = hmv2c2_init 1280 3 4 320 [128, 640, 1280, 1280, 1280]"

definition hmv2c2_key :: "nat \<Rightarrow> nat \<Rightarrow> string" where
  "hmv2c2_key n idx = ''up2_v2_'' @ nat_str (n - idx - 1)"

definition hmv2c2_forward ::
  "'a::{times,numeral} backend \<Rightarrow> hmv2c2_net \<Rightarrow> 'a tensor \<Rightarrow> 'a tensor \<Rightarrow> 'a out_dict result" where
  "hmv2c2_forward bk net condition emo_embedding =
     (case shape condition of
        [bs, _, video_length, h, w] \<Rightarrow>
          ebind (condition_embedding bk (w2_scale_factor net) (w2_conv_in net) condition h w)
            (\<lambda>embedding.
          ebind (emo_drive_embedding bk (w2_exp_embedding net) (w2_emo_proj net)
                   (w2_cross_attention_dim net) bs video_length emo_embedding)
            (\<lambda>drive_embedding.
          ebind (enum_loop (fusion_step bk video_length drive_embedding
                              (hmv2c2_key (length (w2_blocks_down net)))) 0
                   (w2_blocks_down net) (embedding, []))
            (\<lambda>(embedding, ret_dict). Inr ret_dict)))
      | _ \<Rightarrow> Inl ValueError)"

lemma hmv2c2_init_Inr:
  "block_out_channels \<noteq> [] \<Longrightarrow>
   \<exists>net. hmv2c2_init ec ic sf cad block_out_channels = Inr net \<and>
     w2_scale_factor net = sf \<and> w2_cross_attention_dim net = cad \<and>
     conv_in_channels (w2_conv_in net) = ic \<and>
     conv_out_channels (w2_conv_in net) = block_out_channels ! 0 \<and>
     conv_kernel_size (w2_conv_in net) = 3 \<and> conv_padding (w2_conv_in net) = 1 \<and>
     w2_exp_embedding net = \<lparr>ts_num_channels = cad, ts_flip_sin_to_cos = True,
                             ts_downscale_freq_shift = 0\<rparr> \<and>
     w2_emo_proj net = \<lparr>te_name = ''emo_proj'', te_in_channels = cad, te_time_embed_dim = cad\<rparr> \<and>
     w2_blocks_down net = sk_chain cad 64 1024 block_out_channels"
  by (simp add: hmv2c2_init_def)

lemma inj_on_hmv2c2_key: "inj_on (hmv2c2_key n) {0..<n}"
  by (auto simp: inj_on_def hmv2c2_key_def)

section \<open>The forward pass\<close>

text \<open>C18. HMV2ControlNet2's forward pass returns on well-shaped inputs, with exactly
  the keys \<open>up2_v2_{n-1}\<close>, \dots, \<open>up2_v2_0\<close> in that order, the output under
  \<open>up2_v2_k\<close> coming from block \<open>n - 1 - k\<close> with \<open>block_out_channels[n - k]\<close>
  channels.\<close>

theorem hmv2c2_forward_outputs:
  assumes init: "hmv2c2_init ec ic sf cad boc = Inr net"
    and cond: "shape condition = [B, ic, F, H, W]"
    and emo: "shape emo_embedding = [B, F, K]"
    and pos: "0 < B" "0 < F" "0 < sf" "0 < int H div sf" "0 < int W div sf"
  shows "\<exists>d. hmv2c2_forward bk net condition emo_embedding = Inr d \<and>
           dict_keys d = map (\<lambda>k. ''up2_v2_'' @ nat_str k) (rev [0..<length boc - 1]) \<and>
           (\<forall>k < length boc - 1. \<exists>t. map_of d (''up2_v2_'' @ nat_str k) = Some t \<and>
              shape t = [B, boc ! (length boc - 1 - k), F,
                         sk_extent bk (length boc - 1 - k) (nat (int H div sf)),
                         sk_extent bk (length boc - 1 - k) (nat (int W div sf))])"
proof -
  let ?n = "length boc - 1"
  let ?h = "nat (int H div sf)" and ?w = "nat (int W div sf)"
  have "boc \<noteq> []" using init by (auto simp: hmv2c2_init_def)
  then obtain net' where net': "hmv2c2_init ec ic sf cad boc = Inr net'" and
    fields: "w2_scale_factor net' = sf" "w2_cross_attention_dim net' = cad"
      "conv_in_channels (w2_conv_in net') = ic"
      "conv_out_channels (w2_conv_in net') = boc ! 0"
      "conv_kernel_size (w2_conv_in net') = 3" "conv_padding (w2_conv_in net') = 1"
      "w2_exp_embedding net' = \<lparr>ts_num_channels = cad, ts_flip_sin_to_cos = True,
                                ts_downscale_freq_shift = 0\<rparr>"
      "w2_emo_proj net' = \<lparr>te_name = ''emo_proj'', te_in_channels = cad, te_time_embed_dim = cad\<rparr>"
      "w2_blocks_down net' = sk_chain cad 64 1024 boc"
    by (blast dest: hmv2c2_init_Inr)
  from init net' have n: "net = net'" by simp
  obtain e de st where
    "condition_embedding bk sf (w2_conv_in net) condition H W = Inr e"
    "emo_drive_embedding bk (w2_exp_embedding net) (w2_emo_proj net) cad B F emo_embedding = Inr de"
    "enum_loop (fusion_step bk F de (hmv2c2_key ?n)) 0 (sk_chain cad 64 1024 boc) (e, []) = Inr st"
    and inv: "fusion_inv bk (hmv2c2_key ?n) boc B F ?h ?w ?n st"
    using emo_pipeline [of condition B "w2_conv_in net" F H W boc emo_embedding K sf
        "w2_exp_embedding net" cad "w2_emo_proj net" "hmv2c2_key ?n" bk 64 1024]
      cond emo pos fields n inj_on_hmv2c2_key by auto
  moreover obtain emb d where st: "st = (emb, d)" by (cases st)
  ultimately have fwd: "hmv2c2_forward bk net condition emo_embedding = Inr d"
    using cond fields n by (simp add: hmv2c2_forward_def)
  from inv st have keys: "dict_keys d = map (hmv2c2_key ?n) [0..<?n]"
    and outs: "\<forall>j<?n. \<exists>t. map_of d (hmv2c2_key ?n j) = Some t \<and>
                 shape t = [B, boc ! Suc j, F, sk_extent bk (Suc j) ?h, sk_extent bk (Suc j) ?w]"
    by (simp_all add: fusion_inv_def)
  have keys': "map (hmv2c2_key ?n) [0..<?n] = map (\<lambda>k. ''up2_v2_'' @ nat_str k) (rev [0..<?n])"
  proof -
    have "map (hmv2c2_key ?n) [0..<?n] =
          map (\<lambda>k. ''up2_v2_'' @ nat_str k) (map (\<lambda>i. ?n - i - 1) [0..<?n])"
      by (simp add: hmv2c2_key_def)
    then show ?thesis by (simp only: map_countdown_upt)
  qed
  have "\<exists>t. map_of d (''up2_v2_'' @ nat_str k) = Some t \<and>
          shape t = [B, boc ! (?n - k), F, sk_extent bk (?n - k) ?h, sk_extent bk (?n - k) ?w]"
    if k: "k < ?n" for k
  proof -
    have j: "?n - k - 1 < ?n" using k by simp
    have key: "hmv2c2_key ?n (?n - k - 1) = ''up2_v2_'' @ nat_str k"
      using k by (simp add: hmv2c2_key_def)
    have suc: "Suc (?n - k - 1) = ?n - k" using k by simp
    show ?thesis using outs [rule_format, OF j] unfolding key suc .
  qed
  then show ?thesis
    using fwd keys keys' by simp
qed

theorem hmv2c2_forward_outputs_witness:
  "\<exists>net d. hmv2c2_init 1280 3 4 320 [128, 640, 1280, 1280, 1280] = Inr net \<and>
     hmv2c2_forward demo_backend net
       \<lparr>shape = [1, 3, 2, 8, 8], data = replicate 384 0\<rparr>
       \<lparr>shape = [1, 2, 4], data = replicate 8 1\<rparr> = Inr d \<and>
     dict_keys d = [''up2_v2_'' @ nat_str 3, ''up2_v2_'' @ nat_str 2, ''up2_v2_'' @ nat_str 1,
                    ''up2_v2_'' @ nat_str 0]"
proof -
  obtain net where init: "hmv2c2_init 1280 3 4 320 [128, 640, 1280, 1280, 1280] = Inr net"
    by (simp add: hmv2c2_init_def)
  obtain d where fwd: "hmv2c2_forward demo_backend net
       \<lparr>shape = [1, 3, 2, 8, 8], data = replicate 384 0\<rparr>
       \<lparr>shape = [1, 2, 4], data = replicate 8 1\<rparr> = Inr d"
    and keys: "dict_keys d = map (\<lambda>k. ''up2_v2_'' @ nat_str k) (rev [0..<length [128, 640, 1280, 1280, 1280::nat] - 1])"
    using hmv2c2_forward_outputs [OF init, of "\<lparr>shape = [1, 3, 2, 8, 8], data = replicate 384 0\<rparr>"
        1 2 8 8 "\<lparr>shape = [1, 2, 4], data = replicate 8 1\<rparr>" 4 demo_backend]
    by auto
  have "rev [0..<length [128, 640, 1280, 1280, 1280::nat] - 1] = [3, 2, 1, 0]"
    by (simp add: upt_rec)
  then have "dict_keys d = [''up2_v2_'' @ nat_str 3, ''up2_v2_'' @ nat_str 2,
                            ''up2_v2_'' @ nat_str 1, ''up2_v2_'' @ nat_str 0]"
    using keys by (simp only: list.map)
  then show ?thesis using init fwd by blast
qed

end
