(* ===== verification/Class_Equivalence.thy ===== *)
theory Class_Equivalence
  imports HM_Control HM_Control2 HMV2_Control HMV2_Control2
begin

text \<open>
  \<open>HMV2ControlNet2\<close> repeats \<open>HMControlNet2\<close> line for line: the same layers, the
  same block chain (\<open>num_positional_embeddings = 64\<close>,
  \<open>num_positional_embeddings_hidden = 1024\<close>), the same emotion path and loop. The
  two differ only in the f-string of the output key, \<open>up2_v2_{n-1-idx}\<close> for
  \<open>down2_{idx}\<close>. Built with the same constructor arguments, they raise the same
  exception on the same inputs, or both return the same tensors in the same order
  under the renamed keys, for every numeric backend.
\<close>

lemma hmv2c2_hm_control2_rekeyed:
  assumes "hm_control2_init ec ic sf cad boc = Inr net1" "hmv2c2_init ec ic sf cad boc = Inr net2"
  shows "rel_sum (=) (rekeyed hm_control2_key (hmv2c2_key (length boc - 1)) (length boc - 1))
           (hm_control2_forward bk net1 condition emo_embedding)
           (hmv2c2_forward bk net2 condition emo_embedding)"
proof -
  have net: "net1 = projr (hm_control2_init ec ic sf cad boc)" "net2 = projr (hmv2c2_init ec ic sf cad boc)"
    "boc \<noteq> []"
    using assms by (simp_all add: hm_control2_init_def hmv2c2_init_def split: if_splits)
  show ?thesis
  proof (cases "\<exists>bs x F h w. shape condition = [bs, x, F, h, w]")
    case True
    then obtain bs x F h w where "shape condition = [bs, x, F, h, w]" by blast
    then show ?thesis
      using net(3) unfolding hm_control2_forward_def hmv2c2_forward_def net(1,2)
      apply (simp add: hm_control2_init_def hmv2c2_init_def)
      apply (intro rel_sum_ebind_same fusion_forward_rekey_sk_chain [simplified] inj_on_hm_control2_key inj_on_hmv2c2_key)
      done
  next
    case False
    then show ?thesis by (simp add: hm_control2_forward_def hmv2c2_forward_def case_list5_not5)
  qed
qed

text \<open>C8. An HMV2ControlNet2 and an HMControlNet2 built with the same arguments behave
  alike on every input: both raise the same exception, or both return the same
  outputs in the same order, where HMControlNet2's \<open>down2_k\<close> is HMV2ControlNet2's
  \<open>up2_v2_{n-1-k}\<close>.\<close>

theorem hmv2c2_forward_rekeys_hm_control2:
  assumes "hm_control2_init ec ic sf cad boc = Inr net1" "hmv2c2_init ec ic sf cad boc = Inr net2"
  shows "rel_sum (=) (rekeyed hm_control2_key (hmv2c2_key (length boc - 1)) (length boc - 1))
           (hm_control2_forward bk net1 condition emo_embedding)
           (hmv2c2_forward bk net2 condition emo_embedding)"
  using assms by (rule hmv2c2_hm_control2_rekeyed)

theorem hmv2c2_forward_rekeys_hm_control2_witness:
  "rel_sum (=) (rekeyed hm_control2_key (hmv2c2_key 3) 3)
     (hm_control2_forward demo_backend (projr (hm_control2_init 1280 3 8 320 [128, 320, 640, 1280]))
        \<lparr>shape = [1, 3, 2, 16, 16], data = replicate 1536 0\<rparr> \<lparr>shape = [1, 2, 4], data = replicate 8 1\<rparr>)
     (hmv2c2_forward demo_backend (projr (hmv2c2_init 1280 3 8 320 [128, 320, 640, 1280]))
        \<lparr>shape = [1, 3, 2, 16, 16], data = replicate 1536 0\<rparr> \<lparr>shape = [1, 2, 4], data = replicate 8 1\<rparr>)"
proof -
  have "hm_control2_init 1280 3 8 320 [128, 320, 640, 1280] =
          Inr (projr (hm_control2_init 1280 3 8 320 [128, 320, 640, 1280]))"
    "hmv2c2_init 1280 3 8 320 [128, 320, 640, 1280] =
          Inr (projr (hmv2c2_init 1280 3 8 320 [128, 320, 640, 1280]))"
    by (simp_all add: hm_control2_init_def hmv2c2_init_def)
  note r = hmv2c2_forward_rekeys_hm_control2 [OF this]
  have n: "length [128, 320, 640, 1280::nat] - 1 = 3" by simp
  show ?thesis by (rule r [unfolded n])
qed

end
