(* ===== verification/HMV3_Control.thy ===== *)
theory HMV3_Control
  imports Fusion
begin

text \<open>
  \<open>class HMV3ControlNet\<close> (\<open>hm_control.py\<close>, lines 216--305): the dual-mode
  ControlNet. \<open>forward(condition, drive_coeff=None, face_parts=None,
  emo_embedding=None)\<close> takes the optional inputs as \<open>option\<close> values and picks the
  expression path when both \<open>drive_coeff\<close> and \<open>face_parts\<close> are given, the emotion
  path otherwise. Its fusion loop writes \<open>up3_{n - 1 - idx}\<close> and, at the last three
  stages, the extra outputs: \<open>down3_0\<close> and \<open>down3_1\<close> through two \<open>1 \<times> 1\<close>
  convolutions that expect 1280 channels, and \<open>down3_2\<close>, \<open>down3_3\<close> as the very
  tensor stored under \<open>up3_0\<close>. An iteration is the shared \<open>fusion_step\<close>
  followed by \<open>hmv3_extras\<close>, the three \<open>if up_idx == \<dots>\<close> statements.
\<close>

record hmv3_net =
  v3_scale_factor :: int
  v3_embedding_channels :: nat
  v3_cross_attention_dim :: nat
  v3_conv_in :: conv2d
  v3_conv_up2_down0 :: conv2d
  v3_conv_up1_down1 :: conv2d
  v3_emo_embedding :: timesteps
  v3_exp_embedding :: timesteps
  v3_exp_proj :: timestep_embedding
  v3_face_proj :: timestep_embedding
  v3_emo_proj :: timestep_embedding
  v3_blocks_down :: "sk_cross_attention list"

definition hmv3_init :: "nat \<Rightarrow> nat \<Rightarrow> int \<Rightarrow> nat \<Rightarrow> nat list \<Rightarrow> hmv3_net result" where
  "hmv3_init embedding_channels input_channels scale_factor cross_attention_dim block_out_channels =
     (if block_out_channels = [] then Inl IndexError
      else Inr \<lparr>v3_scale_factor = scale_factor,
                v3_embedding_channels = embedding_channels,
                v3_cross_attention_dim = cross_attention_dim,
                v3_conv_in = \<lparr>conv_name = ''conv_in'', conv_in_channels = input_channels,
                              conv_out_channels = block_out_channels ! 0,
                              conv_kernel_size = 3, conv_padding = 1\<rparr>,
                v3_conv_up2_down0 = \<lparr>conv_name = ''conv_up2_down0'', conv_in_channels = 1280,
                                     conv_out_channels = 320, conv_kernel_size = 1, conv_padding = 0\<rparr>,
                v3_conv_up1_down1 = \<lparr>conv_name = ''conv_up1_down1'', conv_in_channels = 1280,
                                     conv_out_channels = 640, conv_kernel_size = 1, conv_padding = 0\<rparr>,
                v3_emo_embedding = \<lparr>ts_num_channels = cross_attention_dim,
                                    ts_flip_sin_to_cos = True, ts_downscale_freq_shift = 0\<rparr>,
                v3_exp_embedding = \<lparr>ts_num_channels = cross_attention_dim,
                                    ts_flip_sin_to_cos = True, ts_downscale_freq_shift = 0\<rparr>,
                v3_exp_proj = \<lparr>te_name = ''exp_proj'', te_in_channels = cross_attention_dim,
                               te_time_embed_dim = cross_attention_dim\<rparr>,
                v3_face_proj = \<lparr>te_name = ''face_proj'', te_in_channels = 1024,
                                te_time_embed_dim = cross_attention_dim\<rparr>,
                v3_emo_proj = \<lparr>te_name = ''emo_proj'', te_in_channels = cross_attention_dim,
                               te_time_embed_dim = cross_attention_dim\<rparr>,
                v3_blocks_down = sk_chain cross_attention_dim 64 1024 block_out_channels\<rparr>)"

definition hmv3_default :: "hmv3_net result" where
  "hmv3_default = hmv3_init 1280 3 4 320 [128, 640, 1280, 1280, 1280]"

definition hmv3_key :: "nat \<Rightarrow> nat \<Rightarrow> string" where
  "hmv3_key n idx = ''up3_'' @ nat_str (n - idx - 1)"

text \<open>
  The three \<open>if\<close> statements at the end of an iteration, for \<open>up_idx\<close>, the feature
  map just computed and the dictionary after \<open>up3_{up_idx}\<close> was written.
\<close>

definition hmv3_extras ::
  "'a backend \<Rightarrow> nat \<Rightarrow> conv2d \<Rightarrow> conv2d \<Rightarrow> nat \<Rightarrow> 'a tensor \<Rightarrow> 'a out_dict \<Rightarrow> 'a out_dict result" where
  "hmv3_extras bk video_length conv_up2_down0 conv_up1_down1 up_idx embedding ret_dict =
     ebind (if up_idx = 2
            then ebind (conv2d_forward bk conv_up2_down0 embedding) (\<lambda>c.
                 ebind (from_frames video_length c) (\<lambda>out.
                 Inr (dict_set ret_dict ''down3_0'' out)))
            else Inr ret_dict) (\<lambda>ret_dict.
     ebind (if up_idx = 1
            then ebind (conv2d_forward bk conv_up1_down1 embedding) (\<lambda>c.
                 ebind (from_frames video_length c) (\<lambda>out.
                 Inr (dict_set ret_dict ''down3_1'' out)))
            else Inr ret_dict) (\<lambda>ret_dict.
     if up_idx = 0
     then ebind (dict_get ret_dict ''up3_0'') (\<lambda>v.
          let ret_dict = dict_set ret_dict ''down3_2'' v in
          ebind (dict_get ret_dict ''up3_0'') (\<lambda>v.
          Inr (dict_set ret_dict ''down3_3'' v)))
     else Inr ret_dict))"

definition hmv3_step ::
  "'a backend \<Rightarrow> nat \<Rightarrow> 'a tensor \<Rightarrow> nat \<Rightarrow> conv2d \<Rightarrow> conv2d \<Rightarrow> nat \<Rightarrow> sk_cross_attention \<Rightarrow>
   'a tensor \<times> 'a out_dict \<Rightarrow> ('a tensor \<times> 'a out_dict) result" where
  "hmv3_step bk video_length drive_embedding n conv_up2_down0 conv_up1_down1 idx block st =
     ebind (fusion_step bk video_length drive_embedding (hmv3_key n) idx block st)
       (\<lambda>(embedding, ret_dict).
     ebind (hmv3_extras bk video_length conv_up2_down0 conv_up1_down1 (n - idx - 1) embedding ret_dict)
       (\<lambda>ret_dict. Inr (embedding, ret_dict)))"

text \<open>
  \<open>if drive_coeff is None or face_parts is None\<close>: the emotion path, where
  \<open>emo_embedding * 20.\<close> on \<open>None\<close> raises \<open>TypeError\<close>; else the expression path.
\<close>

definition hmv3_drive_embedding ::
  "'a::{times,numeral} backend \<Rightarrow> hmv3_net \<Rightarrow> nat \<Rightarrow> nat \<Rightarrow>
   'a tensor option \<Rightarrow> 'a tensor option \<Rightarrow> 'a tensor option \<Rightarrow> 'a tensor result" where
  "hmv3_drive_embedding bk net bs video_length drive_coeff face_parts emo_embedding =
     (if drive_coeff = None \<or> face_parts = None
      then (case emo_embedding of
              None \<Rightarrow> Inl TypeError
            | Some emo \<Rightarrow>
                emo_drive_embedding bk (v3_emo_embedding net) (v3_emo_proj net)
                  (v3_cross_attention_dim net) bs video_length emo)
      else exp_drive_embedding bk (v3_exp_embedding net) (v3_face_proj net) (v3_exp_proj net)
             (v3_cross_attention_dim net) bs video_length (the drive_coeff) (the face_parts))"

definition hmv3_forward ::
  "'a::{times,numeral} backend \<Rightarrow> hmv3_net \<Rightarrow> 'a tensor \<Rightarrow>
   'a tensor option \<Rightarrow> 'a tensor option \<Rightarrow> 'a tensor option \<Rightarrow> 'a out_dict result" where
  "hmv3_forward bk net condition drive_coeff face_parts emo_embedding =
     (case shape condition of
        [bs, _, video_length, h, w] \<Rightarrow>
          ebind (condition_embedding bk (v3_scale_factor net) (v3_conv_in net) condition h w)
            (\<lambda>embedding.
          ebind (hmv3_drive_embedding bk net bs video_length drive_coeff face_parts emo_embedding)
            (\<lambda>drive_embedding.
          ebind (enum_loop (hmv3_step bk video_length drive_embedding (length (v3_blocks_down net))
                              (v3_conv_up2_down0 net) (v3_conv_up1_down1 net)) 0
                   (v3_blocks_down net) (embedding, []))
            (\<lambda>(embedding, ret_dict). Inr ret_dict)))
      | _ \<Rightarrow> Inl ValueError)"

section \<open>Construction\<close>

lemma hmv3_init_Inr:
  "block_out_channels \<noteq> [] \<Longrightarrow>
   \<exists>net. hmv3_init ec ic sf cad block_out_channels = Inr net \<and>
     v3_scale_factor net = sf \<and> v3_cross_attention_dim net = cad \<and>
     conv_in_channels (v3_conv_in net) = ic \<and>
     conv_out_channels (v3_conv_in net) = block_out_channels ! 0 \<and>
     conv_kernel_size (v3_conv_in net) = 3 \<and> conv_padding (v3_conv_in net) = 1 \<and>
     v3_emo_embedding net = \<lparr>ts_num_channels = cad, ts_flip_sin_to_cos = True,
                             ts_downscale_freq_shift = 0\<rparr> \<and>
     v3_exp_embedding net = \<lparr>ts_num_channels = cad, ts_flip_sin_to_cos = True,
                             ts_downscale_freq_shift = 0\<rparr> \<and>
     v3_exp_proj net = \<lparr>te_name = ''exp_proj'', te_in_channels = cad, te_time_embed_dim = cad\<rparr> \<and>
     v3_face_proj net = \<lparr>te_name = ''face_proj'', te_in_channels = 1024, te_time_embed_dim = cad\<rparr> \<and>
     v3_emo_proj net = \<lparr>te_name = ''emo_proj'', te_in_channels = cad, te_time_embed_dim = cad\<rparr> \<and>
     v3_blocks_down net = sk_chain cad 64 1024 block_out_channels"
  by (simp add: hmv3_init_def)

text \<open>A returning forward pass is a returning fusion loop.\<close>

lemma hmv3_forward_Inr_loop:
  assumes "hmv3_forward bk net condition drive_coeff face_parts emo_embedding = Inr d"
  shows "\<exists>F e de emb. enum_loop (hmv3_step bk F de (length (v3_blocks_down net))
            (v3_conv_up2_down0 net) (v3_conv_up1_down1 net)) 0 (v3_blocks_down net) (e, [])
            = Inr (emb, d)"
proof -
  obtain bs c F h w where
    "ebind (condition_embedding bk (v3_scale_factor net) (v3_conv_in net) condition h w) (\<lambda>embedding.
     ebind (hmv3_drive_embedding bk net bs F drive_coeff face_parts emo_embedding) (\<lambda>drive_embedding.
     ebind (enum_loop (hmv3_step bk F drive_embedding (length (v3_blocks_down net))
                         (v3_conv_up2_down0 net) (v3_conv_up1_down1 net)) 0
              (v3_blocks_down net) (embedding, []))
       (\<lambda>(embedding, ret_dict). Inr ret_dict))) = Inr d"
    using case_list5_Inr [OF assms [unfolded hmv3_forward_def]] by blast
  then obtain e de st where
    "enum_loop (hmv3_step bk F de (length (v3_blocks_down net)) (v3_conv_up2_down0 net)
        (v3_conv_up1_down1 net)) 0 (v3_blocks_down net) (e, []) = Inr st"
    and "(case st of (embedding, ret_dict) \<Rightarrow> Inr ret_dict) = (Inr d :: 'b + _)"
    by (auto simp: ebind_eq_Inr_iff)
  then show ?thesis by (cases st) auto
qed

lemma enum_loop_last:
  assumes run: "enum_loop body 0 (xs @ [x]) s = Inr t"
  shows "\<exists>s'. body (length xs) x s' = Inr t"
proof -
  have "enum_loop body 0 (xs @ [x]) s = ebind (enum_loop body 0 xs s) (enum_loop body (length xs) [x])"
    by (simp add: enum_loop_append)
  with run obtain s' where "enum_loop body (length xs) [x] s' = Inr t"
    by (auto simp: ebind_eq_Inr_iff)
  then show ?thesis by auto
qed

lemma hmv3_extras_0:
  "hmv3_extras bk F c20 c11 0 e (dict_set d ''up3_0'' out) =
     Inr (dict_set (dict_set (dict_set d ''up3_0'' out) ''down3_2'' out) ''down3_3'' out)"
  by (simp add: hmv3_extras_def)

text \<open>The last iteration (\<open>up_idx = 0\<close>) stores one tensor under \<open>up3_0\<close>,
  \<open>down3_2\<close> and \<open>down3_3\<close>.\<close>

lemma hmv3_step_last_alias:
  assumes step: "hmv3_step bk F de (Suc m) c20 c11 m blk st = Inr (emb, d)"
  shows "\<exists>t. map_of d ''up3_0'' = Some t \<and> map_of d ''down3_2'' = Some t \<and>
             map_of d ''down3_3'' = Some t"
proof -
  obtain e0 d0 where st: "st = (e0, d0)" by (cases st)
  have key: "hmv3_key (Suc m) m = ''up3_0''"
    by (simp add: hmv3_key_def)
  from step st obtain e1 out where
    "sk_forward bk blk e0 de = Inr e1" "from_frames F e1 = Inr out"
    and ex: "hmv3_extras bk F c20 c11 0 e1 (dict_set d0 ''up3_0'' out) = Inr d"
    unfolding hmv3_step_def fusion_step_def key
    by (auto simp: ebind_eq_Inr_iff)
  then have "d = dict_set (dict_set (dict_set d0 ''up3_0'' out) ''down3_2'' out) ''down3_3'' out"
    by (simp add: hmv3_extras_0)
  then show ?thesis by simp
qed

section \<open>The loop without the extra outputs\<close>

text \<open>The three \<open>if\<close> statements write only \<open>down3_*\<close> keys: every \<open>up3_*\<close>
  entry is left as the fusion step wrote it.\<close>

lemma hmv3_extras_up3:
  assumes "hmv3_extras bk F c20 c11 u e d = Inr d'"
  shows "map_of d' (''up3_'' @ s) = map_of d (''up3_'' @ s)"
  using assms by (auto simp: hmv3_extras_def ebind_eq_Inr_iff split: if_splits)

text \<open>
  Stripped of the extra outputs, the HMV3 loop is the shared fusion loop: a returning
  run of it is matched by a returning run of \<open>fusion_step\<close> with any key function that
  counts down under a prefix \<open>pre\<close>, ending in the same feature map and storing under
  \<open>pre @ k\<close> what the HMV3 run stores under \<open>up3_k\<close>.
\<close>

lemma hmv3_loop_simulation:
  assumes run: "enum_loop (hmv3_step bk F de n c20 c11) 0 blocks (e, []) = Inr (e3, d3)"
    and key: "\<And>idx. key idx = pre @ nat_str (n - idx - 1)"
  shows "\<exists>d2. enum_loop (fusion_step bk F de key) 0 blocks (e, []) = Inr (e3, d2) \<and>
           (\<forall>k. map_of d3 (''up3_'' @ nat_str k) = map_of d2 (pre @ nat_str k))"
proof -
  let ?R = "\<lambda>(a :: 'a tensor, d :: 'a out_dict) (b, d'). a = b \<and>
              (\<forall>k. map_of d (''up3_'' @ nat_str k) = map_of d' (pre @ nat_str k))"
  have "\<exists>t2. enum_loop (fusion_step bk F de key) 0 blocks (e, []) = Inr t2 \<and> ?R (e3, d3) t2"
  proof (rule enum_loop_simulation [OF _ run])
    fix k s1 s2 s1'
    assume R: "?R s1 s2" and step: "hmv3_step bk F de n c20 c11 (0 + k) (blocks ! k) s1 = Inr s1'"
    obtain a d b d' where s: "s1 = (a, d)" "s2 = (b, d')" by (cases s1, cases s2)
    from step s obtain e1 out d1 where
      sk: "sk_forward bk (blocks ! k) a de = Inr e1" and ff: "from_frames F e1 = Inr out"
      and ex: "hmv3_extras bk F c20 c11 (n - k - 1) e1
                 (dict_set d (hmv3_key n k) out) = Inr d1" and s1': "s1' = (e1, d1)"
      by (auto simp: hmv3_step_def fusion_step_def ebind_eq_Inr_iff)
    have "fusion_step bk F de key (0 + k) (blocks ! k) s2 = Inr (e1, dict_set d' (key k) out)"
      using R s sk ff by (simp add: fusion_step_def)
    moreover have "?R s1' (e1, dict_set d' (key k) out)"
      using R s hmv3_extras_up3 [OF ex] by (auto simp: s1' key hmv3_key_def)
    ultimately show "\<exists>s2'. fusion_step bk F de key (0 + k) (blocks ! k) s2 = Inr s2' \<and> ?R s1' s2'"
      by blast
  qed simp
  then show ?thesis by auto
qed

section \<open>Aliasing of the last outputs\<close>

text \<open>C5. Whenever HMV3ControlNet's forward pass returns and the network has a block,
  the outputs \<open>down3_2\<close> and \<open>down3_3\<close> are the very tensor stored under
  \<open>up3_0\<close>, whatever the mode and the inputs.\<close>

theorem hmv3_forward_alias:
  assumes fwd: "hmv3_forward bk net condition drive_coeff face_parts emo_embedding = Inr d"
    and blocks: "v3_blocks_down net \<noteq> []"
  shows "\<exists>t. map_of d ''up3_0'' = Some t \<and> map_of d ''down3_2'' = Some t \<and>
             map_of d ''down3_3'' = Some t"
proof -
  let ?bs = "v3_blocks_down net"
  obtain F e de emb where run:
    "enum_loop (hmv3_step bk F de (length ?bs) (v3_conv_up2_down0 net) (v3_conv_up1_down1 net))
       0 ?bs (e, []) = Inr (emb, d)"
    using hmv3_forward_Inr_loop [OF fwd] by blast
  have split: "?bs = butlast ?bs @ [last ?bs]" and len: "length ?bs = Suc (length (butlast ?bs))"
    using blocks by simp_all
  from run have "enum_loop (hmv3_step bk F de (Suc (length (butlast ?bs))) (v3_conv_up2_down0 net)
       (v3_conv_up1_down1 net)) 0 (butlast ?bs @ [last ?bs]) (e, []) = Inr (emb, d)"
    by (simp only: len [symmetric] split [symmetric])
  then obtain st where "hmv3_step bk F de (Suc (length (butlast ?bs))) (v3_conv_up2_down0 net)
       (v3_conv_up1_down1 net) (length (butlast ?bs)) (last ?bs) st = Inr (emb, d)"
    by (blast dest: enum_loop_last)
  then show ?thesis by (rule hmv3_step_last_alias)
qed

theorem hmv3_forward_alias_witness:
  "\<exists>d. hmv3_forward demo_backend (projr (hmv3_init 1 1 4 2 [2, 3]))
         \<lparr>shape = [1, 1, 1, 4, 4], data = replicate 16 0\<rparr> None None
         (Some \<lparr>shape = [1, 1, 1], data = [1]\<rparr>) = Inr d \<and>
       (\<exists>t. map_of d ''up3_0'' = Some t \<and> map_of d ''down3_2'' = Some t \<and>
            map_of d ''down3_3'' = Some t)"
proof -
  have "\<not> isl (hmv3_forward demo_backend (projr (hmv3_init 1 1 4 2 [2, 3]))
         \<lparr>shape = [1, 1, 1, 4, 4], data = replicate 16 0\<rparr> None None
         (Some \<lparr>shape = [1, 1, 1], data = [1]\<rparr>))"
    by code_simp
  then obtain d where fwd: "hmv3_forward demo_backend (projr (hmv3_init 1 1 4 2 [2, 3]))
         \<lparr>shape = [1, 1, 1, 4, 4], data = replicate 16 0\<rparr> None None
         (Some \<lparr>shape = [1, 1, 1], data = [1]\<rparr>) = Inr d"
    by (cases "hmv3_forward demo_backend (projr (hmv3_init 1 1 4 2 [2, 3]))
         \<lparr>shape = [1, 1, 1, 4, 4], data = replicate 16 0\<rparr> None None
         (Some \<lparr>shape = [1, 1, 1], data = [1 :: int]\<rparr>)") auto
  have "v3_blocks_down (projr (hmv3_init 1 1 4 2 [2, 3])) \<noteq> []"
    by (simp add: hmv3_init_def sk_chain_def)
  then show ?thesis using hmv3_forward_alias [OF fwd] fwd by blast
qed

section \<open>Routing between the two driving signals\<close>

text \<open>C23. When both \<open>drive_coeff\<close> and \<open>face_parts\<close> are given, HMV3ControlNet's
  forward pass uses neither the emotion modules (\<open>emo_embedding\<close>, \<open>emo_proj\<close>)
  nor the \<open>emo_embedding\<close> input: replacing them changes nothing.\<close>

theorem hmv3_forward_exp_mode_ignores_emotion:
  "hmv3_forward bk net condition (Some dc) (Some fp) emo =
   hmv3_forward bk (net\<lparr>v3_emo_embedding := ts, v3_emo_proj := te\<rparr>) condition (Some dc) (Some fp) emo'"
  by (simp add: hmv3_forward_def hmv3_drive_embedding_def cong: list.case_cong option.case_cong)

theorem hmv3_forward_exp_mode_ignores_emotion_witness:
  "hmv3_forward demo_backend (projr (hmv3_init 1 1 4 2 [2, 3]))
     \<lparr>shape = [1, 1, 1, 4, 4], data = replicate 16 0\<rparr>
     (Some \<lparr>shape = [1, 1, 1], data = [1]\<rparr>) (Some \<lparr>shape = [1, 1, 1, 1024], data = replicate 1024 0\<rparr>)
     (Some \<lparr>shape = [1, 1, 1], data = [3]\<rparr>) =
   hmv3_forward demo_backend ((projr (hmv3_init 1 1 4 2 [2, 3]))
       \<lparr>v3_emo_embedding := \<lparr>ts_num_channels = 0, ts_flip_sin_to_cos = False, ts_downscale_freq_shift = 1\<rparr>,
        v3_emo_proj := \<lparr>te_name = [], te_in_channels = 0, te_time_embed_dim = 0\<rparr>\<rparr>)
     \<lparr>shape = [1, 1, 1, 4, 4], data = replicate 16 0\<rparr>
     (Some \<lparr>shape = [1, 1, 1], data = [1]\<rparr>) (Some \<lparr>shape = [1, 1, 1, 1024], data = replicate 1024 0\<rparr>)
     None \<and>
   \<not> isl (hmv3_forward demo_backend (projr (hmv3_init 1 1 4 2 [2, 3]))
     \<lparr>shape = [1, 1, 1, 4, 4], data = replicate 16 0\<rparr>
     (Some \<lparr>shape = [1, 1, 1], data = [1]\<rparr>) (Some \<lparr>shape = [1, 1, 1, 1024], data = replicate 1024 0\<rparr>)
     (Some \<lparr>shape = [1, 1, 1], data = [3 :: int]\<rparr>))"
proof
  show "\<not> isl (hmv3_forward demo_backend (projr (hmv3_init 1 1 4 2 [2, 3]))
     \<lparr>shape = [1, 1, 1, 4, 4], data = replicate 16 0\<rparr>
     (Some \<lparr>shape = [1, 1, 1], data = [1]\<rparr>) (Some \<lparr>shape = [1, 1, 1, 1024], data = replicate 1024 0\<rparr>)
     (Some \<lparr>shape = [1, 1, 1], data = [3 :: int]\<rparr>))"
    by code_simp
qed (rule hmv3_forward_exp_mode_ignores_emotion)

text \<open>C24. When \<open>drive_coeff\<close> or \<open>face_parts\<close> is missing, HMV3ControlNet's
  forward pass uses neither the expression modules (\<open>exp_embedding\<close>,
  \<open>exp_proj\<close>, \<open>face_proj\<close>) nor whichever of the two inputs was given: it
  computes what it computes with both inputs absent.\<close>

theorem hmv3_forward_emo_mode_ignores_expression:
  assumes "drive_coeff = None \<or> face_parts = None"
  shows "hmv3_forward bk net condition drive_coeff face_parts emo =
         hmv3_forward bk (net\<lparr>v3_exp_embedding := ts, v3_exp_proj := te, v3_face_proj := te'\<rparr>)
           condition None None emo"
  using assms by (auto simp: hmv3_forward_def hmv3_drive_embedding_def cong: list.case_cong option.case_cong)

theorem hmv3_forward_emo_mode_ignores_expression_witness:
  "hmv3_forward demo_backend (projr (hmv3_init 1 1 4 2 [2, 3]))
     \<lparr>shape = [1, 1, 1, 4, 4], data = replicate 16 0\<rparr>
     (Some \<lparr>shape = [1, 1, 3], data = [1, 2, 3]\<rparr>) None (Some \<lparr>shape = [1, 1, 1], data = [1]\<rparr>) =
   hmv3_forward demo_backend ((projr (hmv3_init 1 1 4 2 [2, 3]))
       \<lparr>v3_exp_embedding := \<lparr>ts_num_channels = 0, ts_flip_sin_to_cos = False, ts_downscale_freq_shift = 1\<rparr>,
        v3_exp_proj := \<lparr>te_name = [], te_in_channels = 0, te_time_embed_dim = 0\<rparr>,
        v3_face_proj := \<lparr>te_name = [], te_in_channels = 0, te_time_embed_dim = 0\<rparr>\<rparr>)
     \<lparr>shape = [1, 1, 1, 4, 4], data = replicate 16 0\<rparr> None None (Some \<lparr>shape = [1, 1, 1], data = [1 :: int]\<rparr>)"
  by (rule hmv3_forward_emo_mode_ignores_expression) simp

text \<open>C25. With \<open>drive_coeff\<close> or \<open>face_parts\<close> missing and no
  \<open>emo_embedding\<close>, HMV3ControlNet's forward pass falls into the emotion path and
  raises \<open>TypeError\<close> on \<open>None * 20.\<close>, even when \<open>drive_coeff\<close> alone was
  given.\<close>

theorem hmv3_forward_missing_emotion:
  assumes init: "hmv3_init ec ic sf cad boc = Inr net"
    and cond: "shape condition = [B, ic, F, H, W]"
    and pos: "0 < sf" "0 < int H div sf" "0 < int W div sf"
    and miss: "drive_coeff = None \<or> face_parts = None"
  shows "hmv3_forward bk net condition drive_coeff face_parts None = Inl TypeError"
proof -
  have "boc \<noteq> []" using init by (auto simp: hmv3_init_def)
  then obtain net' where net': "hmv3_init ec ic sf cad boc = Inr net'" and
    fields: "v3_scale_factor net' = sf" "conv_in_channels (v3_conv_in net') = ic"
      "conv_kernel_size (v3_conv_in net') = 3" "conv_padding (v3_conv_in net') = 1"
    by (blast dest: hmv3_init_Inr)
  from init net' have n: "net = net'" by simp
  obtain e where "condition_embedding bk sf (v3_conv_in net) condition H W = Inr e"
    using condition_embedding_shape [of condition B "v3_conv_in net" F H W sf bk] cond pos fields n
    by auto
  then show ?thesis
    using cond miss fields n by (auto simp: hmv3_forward_def hmv3_drive_embedding_def)
qed

theorem hmv3_forward_missing_emotion_witness:
  "hmv3_forward demo_backend (projr (hmv3_init 1280 3 4 320 [128, 640, 1280, 1280, 1280]))
     \<lparr>shape = [1, 3, 2, 8, 8], data = replicate 384 0\<rparr>
     (Some \<lparr>shape = [1, 2, 4], data = replicate 8 1\<rparr>) None None = Inl TypeError"
  by (rule hmv3_forward_missing_emotion [of 1280 3 4 320 "[128, 640, 1280, 1280, 1280]" _ _ 1 2 8 8])
    (simp_all add: hmv3_init_def)

end
