(* ===== verification/HMV3_Loop.thy ===== *)
theory HMV3_Loop
  imports HMV3_Control
begin

text \<open>
  The loop of \<open>HMV3ControlNet.forward\<close> with its extra outputs.
  \<open>hmv3_stage_keys\<close> specifies the keys one iteration adds and \<open>hmv3_output_keys\<close>
  those of the first \<open>k\<close> iterations. \<open>hmv3_inv\<close> is the loop invariant on
  well-shaped inputs (shapes of the running feature map and of every output), with the
  step and loop lemmas and the \<open>RuntimeError\<close> the adapters raise on other widths;
  \<open>hmv3_forward_run\<close> gives what every returning run guarantees, whatever its inputs.
\<close>

definition hmv3_stage_keys :: "nat \<Rightarrow> nat \<Rightarrow> string list" where
  "hmv3_stage_keys n idx =
     (let u = n - idx - 1 in
      (''up3_'' @ nat_str u) # (if u = 2 then [''down3_0''] else []) @
        (if u = 1 then [''down3_1''] else []) @ (if u = 0 then [''down3_2'', ''down3_3''] else []))"

definition hmv3_output_keys :: "nat \<Rightarrow> nat \<Rightarrow> string list" where
  "hmv3_output_keys n k = concat (map (hmv3_stage_keys n) [0..<k])"

text \<open>
  The invariant of the HMV3 loop after \<open>k\<close> of its \<open>n\<close> blocks: the running feature map
  has the width \<open>block_out_channels[k]\<close>, the dictionary holds the keys of the first
  \<open>k\<close> iterations in order, \<open>up3_{n-1-j}\<close> holds block \<open>j\<close>'s output, and the adapter
  outputs exist, with the adapters' output widths, once their iteration has run.
\<close>

definition hmv3_inv ::
  "'a backend \<Rightarrow> nat list \<Rightarrow> nat \<Rightarrow> nat \<Rightarrow> nat \<Rightarrow> nat \<Rightarrow> nat \<Rightarrow> nat \<Rightarrow> nat \<Rightarrow> nat \<Rightarrow>
   'a tensor \<times> 'a out_dict \<Rightarrow> bool" where
  "hmv3_inv bk boc c20o c11o B F h w n k st =
     (case st of (e, d) \<Rightarrow>
        shape e = [B * F, boc ! k, sk_extent bk k h, sk_extent bk k w] \<and>
        dict_keys d = hmv3_output_keys n k \<and>
        (\<forall>j<k. \<exists>t. map_of d (''up3_'' @ nat_str (n - j - 1)) = Some t \<and>
                  shape t = [B, boc ! Suc j, F, sk_extent bk (Suc j) h, sk_extent bk (Suc j) w]) \<and>
        (2 < n \<and> n < k + 3 \<longrightarrow> (\<exists>t. map_of d ''down3_0'' = Some t \<and>
                  shape t = [B, c20o, F, sk_extent bk (n - 2) h, sk_extent bk (n - 2) w])) \<and>
        (1 < n \<and> n < k + 2 \<longrightarrow> (\<exists>t. map_of d ''down3_1'' = Some t \<and>
                  shape t = [B, c11o, F, sk_extent bk (n - 1) h, sk_extent bk (n - 1) w])))"

section \<open>The key list\<close>

lemma hmv3_output_keys_0 [simp]: "hmv3_output_keys n 0 = []"
  by (simp add: hmv3_output_keys_def)

lemma hmv3_output_keys_Suc: "hmv3_output_keys n (Suc k) = hmv3_output_keys n k @ hmv3_stage_keys n k"
  by (simp add: hmv3_output_keys_def)

lemma up3_neq_down3 [simp]:
  "''up3_'' @ s \<noteq> ''down3_0''" "''up3_'' @ s \<noteq> ''down3_1''"
  "''up3_'' @ s \<noteq> ''down3_2''" "''up3_'' @ s \<noteq> ''down3_3''"
  "''down3_0'' \<noteq> ''up3_'' @ s" "''down3_1'' \<noteq> ''up3_'' @ s"
  "''down3_2'' \<noteq> ''up3_'' @ s" "''down3_3'' \<noteq> ''up3_'' @ s"
  by simp_all

lemma mem_hmv3_stage_keys:
  "x \<in> set (hmv3_stage_keys n j) \<longleftrightarrow>
     x = ''up3_'' @ nat_str (n - j - 1) \<or> (x = ''down3_0'' \<and> n - j - 1 = 2) \<or>
     (x = ''down3_1'' \<and> n - j - 1 = 1) \<or> (x \<in> {''down3_2'', ''down3_3''} \<and> n - j - 1 = 0)"
  by (auto simp: hmv3_stage_keys_def Let_def)

lemma mem_hmv3_output_keys:
  "x \<in> set (hmv3_output_keys n k) \<longleftrightarrow> (\<exists>j<k. x \<in> set (hmv3_stage_keys n j))"
  by (auto simp: hmv3_output_keys_def)

text \<open>An iteration writes keys no earlier iteration wrote.\<close>

lemma hmv3_stage_keys_fresh:
  assumes "k < n" "x \<in> set (hmv3_stage_keys n k)"
  shows "x \<notin> set (hmv3_output_keys n k)"
proof
  assume "x \<in> set (hmv3_output_keys n k)"
  then obtain j where j: "j < k" "x \<in> set (hmv3_stage_keys n j)"
    by (auto simp: mem_hmv3_output_keys)
  have "n - j - 1 \<noteq> n - k - 1" using j(1) assms(1) by simp
  then show False using j(2) assms(2) by (auto simp: mem_hmv3_stage_keys)
qed

lemma distinct_hmv3_stage_keys: "distinct (hmv3_stage_keys n k)"
  by (simp add: hmv3_stage_keys_def Let_def)

lemma distinct_hmv3_output_keys: "k \<le> n \<Longrightarrow> distinct (hmv3_output_keys n k)"
proof (induction k)
  case 0
  then show ?case by simp
next
  case (Suc k)
  then show ?case
    using hmv3_stage_keys_fresh [of k n] distinct_hmv3_stage_keys [of n k]
    by (auto simp: hmv3_output_keys_Suc)
qed

text \<open>The loop writes one \<open>up3_k\<close> per block, \<open>down3_0\<close> and \<open>down3_1\<close> once
  there are three, resp. two blocks, and \<open>down3_2\<close>, \<open>down3_3\<close> once there is one.\<close>

lemma length_hmv3_output_keys_gen:
  "length (hmv3_output_keys n n) = n + min n 3 + (if 0 < n then 1 else 0)"
proof -
  have "length (hmv3_stage_keys n j) =
          1 + (if n - j - 1 = 2 then 1 else 0) + (if n - j - 1 = 1 then 1 else 0) +
          (if n - j - 1 = 0 then 2 else 0)" for j
    by (simp add: hmv3_stage_keys_def Let_def)
  then have "length (hmv3_output_keys n k) =
      k + card {j. j < k \<and> n - j - 1 = 2} + card {j. j < k \<and> n - j - 1 = 1} +
        2 * card {j. j < k \<and> n - j - 1 = 0}" if "k \<le> n" for k
    using that
  proof (induction k)
    case 0
    then show ?case by simp
  next
    case (Suc k)
    have s: "{j. j < Suc k \<and> P j} = (if P k then insert k {j. j < k \<and> P j} else {j. j < k \<and> P j})" for P
      by (auto simp: less_Suc_eq)
    show ?case
      using Suc by (simp add: hmv3_output_keys_Suc s card_insert_if)
  qed
  moreover have "{j. j < n \<and> n - j - 1 = 2} = (if 2 < n then {n - 3} else {})"
    "{j. j < n \<and> n - j - 1 = 1} = (if 1 < n then {n - 2} else {})"
    "{j. j < n \<and> n - j - 1 = 0} = (if 0 < n then {n - 1} else {})"
    by auto
  ultimately show ?thesis by simp
qed

lemma length_hmv3_output_keys:
  assumes "2 < n"
  shows "length (hmv3_output_keys n n) = n + 4"
  using assms by (simp add: length_hmv3_output_keys_gen)

section \<open>The three \<open>if up_idx == ...\<close> statements\<close>

lemma hmv3_extras_above: "2 < u \<Longrightarrow> hmv3_extras bk F c20 c11 u e d = Inr d"
  by (simp add: hmv3_extras_def)

text \<open>A \<open>1 \<times> 1\<close> adapter on a feature map of its input width returns a map of its
  output width, frames split back out.\<close>

lemma adapter_shape:
  assumes "shape e = [B * F, conv_in_channels cv, eh, ew]" "0 < eh" "0 < ew"
    and "conv_kernel_size cv = 1" "conv_padding cv = 0" "0 < F"
  shows "\<exists>c out. conv2d_forward bk cv e = Inr c \<and> from_frames F c = Inr out \<and>
           shape out = [B, conv_out_channels cv, F, eh, ew]"
proof -
  let ?c = "tabulate [B * F, conv_out_channels cv, eh, ew] (bk_conv bk (conv_name cv) e)"
  have "conv2d_forward bk cv e = Inr ?c"
    using assms by (simp add: conv2d_forward_same)
  moreover have "from_frames F ?c = Inr \<lparr>shape = [B, conv_out_channels cv, F, eh, ew],
                    data = swap_axes F (conv_out_channels cv) (eh * ew) (data ?c)\<rparr>"
    using from_frames_shape [of ?c B F] assms(6) by simp
  ultimately show ?thesis by (intro exI conjI) auto
qed

lemma hmv3_extras_2:
  assumes "shape e = [B * F, conv_in_channels c20, eh, ew]" "0 < eh" "0 < ew"
    and "conv_kernel_size c20 = 1" "conv_padding c20 = 0" "0 < F"
  shows "\<exists>out. hmv3_extras bk F c20 c11 2 e d = Inr (dict_set d ''down3_0'' out) \<and>
           shape out = [B, conv_out_channels c20, F, eh, ew]"
  using adapter_shape [OF assms, of bk] by (auto simp: hmv3_extras_def)

lemma hmv3_extras_1:
  assumes "shape e = [B * F, conv_in_channels c11, eh, ew]" "0 < eh" "0 < ew"
    and "conv_kernel_size c11 = 1" "conv_padding c11 = 0" "0 < F"
  shows "\<exists>out. hmv3_extras bk F c20 c11 1 e d = Inr (dict_set d ''down3_1'' out) \<and>
           shape out = [B, conv_out_channels c11, F, eh, ew]"
  using adapter_shape [OF assms, of bk] by (auto simp: hmv3_extras_def)

lemma hmv3_extras_2_mismatch:
  "shape e = [n, c, eh, ew] \<Longrightarrow> c \<noteq> conv_in_channels c20 \<Longrightarrow>
   hmv3_extras bk F c20 c11 2 e d = Inl RuntimeError"
  by (simp add: hmv3_extras_def conv2d_forward_channel_mismatch)

section \<open>The loop invariant\<close>

text \<open>The invariant after one more iteration, from what the iteration did to the
  dictionary: it appended the iteration's keys, stored block \<open>k\<close>'s output under
  \<open>up3_{n-1-k}\<close> and the adapter output of its stage, and kept every other entry.\<close>

lemma hmv3_inv_Suc:
  assumes inv: "hmv3_inv bk boc c20o c11o B F h w n k (e, d)"
    and k: "k < n"
    and e': "shape e' = [B * F, boc ! Suc k, sk_extent bk (Suc k) h, sk_extent bk (Suc k) w]"
    and keys: "dict_keys d' = dict_keys d @ hmv3_stage_keys n k"
    and up: "\<exists>t. map_of d' (''up3_'' @ nat_str (n - k - 1)) = Some t \<and>
               shape t = [B, boc ! Suc k, F, sk_extent bk (Suc k) h, sk_extent bk (Suc k) w]"
    and keep_up: "\<And>j. j < k \<Longrightarrow> map_of d' (''up3_'' @ nat_str (n - j - 1)) =
                                  map_of d (''up3_'' @ nat_str (n - j - 1))"
    and d0: "n - k - 1 = 2 \<Longrightarrow> \<exists>t. map_of d' ''down3_0'' = Some t \<and>
               shape t = [B, c20o, F, sk_extent bk (n - 2) h, sk_extent bk (n - 2) w]"
    and keep0: "n - k - 1 \<noteq> 2 \<Longrightarrow> map_of d' ''down3_0'' = map_of d ''down3_0''"
    and d1: "n - k - 1 = 1 \<Longrightarrow> \<exists>t. map_of d' ''down3_1'' = Some t \<and>
               shape t = [B, c11o, F, sk_extent bk (n - 1) h, sk_extent bk (n - 1) w]"
    and keep1: "n - k - 1 \<noteq> 1 \<Longrightarrow> map_of d' ''down3_1'' = map_of d ''down3_1''"
  shows "hmv3_inv bk boc c20o c11o B F h w n (Suc k) (e', d')"
proof -
  from inv have ks: "dict_keys d = hmv3_output_keys n k"
    and old: "\<forall>j<k. \<exists>t. map_of d (''up3_'' @ nat_str (n - j - 1)) = Some t \<and>
                  shape t = [B, boc ! Suc j, F, sk_extent bk (Suc j) h, sk_extent bk (Suc j) w]"
    and o0: "2 < n \<and> n < k + 3 \<longrightarrow> (\<exists>t. map_of d ''down3_0'' = Some t \<and>
                  shape t = [B, c20o, F, sk_extent bk (n - 2) h, sk_extent bk (n - 2) w])"
    and o1: "1 < n \<and> n < k + 2 \<longrightarrow> (\<exists>t. map_of d ''down3_1'' = Some t \<and>
                  shape t = [B, c11o, F, sk_extent bk (n - 1) h, sk_extent bk (n - 1) w])"
    by (simp_all add: hmv3_inv_def)
  have "\<forall>j<Suc k. \<exists>t. map_of d' (''up3_'' @ nat_str (n - j - 1)) = Some t \<and>
                  shape t = [B, boc ! Suc j, F, sk_extent bk (Suc j) h, sk_extent bk (Suc j) w]"
    using old keep_up up by (auto simp: less_Suc_eq)
  moreover have "2 < n \<and> n < Suc k + 3 \<longrightarrow> (\<exists>t. map_of d' ''down3_0'' = Some t \<and>
                  shape t = [B, c20o, F, sk_extent bk (n - 2) h, sk_extent bk (n - 2) w])"
  proof (cases "n - k - 1 = 2")
    case True
    then show ?thesis using d0 by blast
  next
    case False
    then show ?thesis using o0 keep0 k by auto
  qed
  moreover have "1 < n \<and> n < Suc k + 2 \<longrightarrow> (\<exists>t. map_of d' ''down3_1'' = Some t \<and>
                  shape t = [B, c11o, F, sk_extent bk (n - 1) h, sk_extent bk (n - 1) w])"
  proof (cases "n - k - 1 = 1")
    case True
    then show ?thesis using d1 by blast
  next
    case False
    then show ?thesis using o1 keep1 k by auto
  qed
  ultimately show ?thesis
    using e' keys ks by (simp add: hmv3_inv_def hmv3_output_keys_Suc)
qed

text \<open>One iteration keeps the invariant when the block it runs, if it feeds an
  adapter, has the adapter's input width and leaves a non-empty image.\<close>

lemma hmv3_step_inv:
  assumes inv: "hmv3_inv bk boc (conv_out_channels c20) (conv_out_channels c11) B F h w n k (e, d)"
    and k: "k < n" and n: "n = length boc - 1"
    and drv: "shape de = [B * F, L, cad]" and F: "0 < F"
    and c20: "conv_kernel_size c20 = 1" "conv_padding c20 = 0"
    and c11: "conv_kernel_size c11 = 1" "conv_padding c11 = 0"
    and w20: "n - k - 1 = 2 \<Longrightarrow> boc ! Suc k = conv_in_channels c20"
    and w11: "n - k - 1 = 1 \<Longrightarrow> boc ! Suc k = conv_in_channels c11"
    and ext: "n - k - 1 = 2 \<or> n - k - 1 = 1 \<Longrightarrow>
               0 < sk_extent bk (Suc k) h \<and> 0 < sk_extent bk (Suc k) w"
  shows "\<exists>st'. hmv3_step bk F de n c20 c11 k (sk_chain cad npe npeh boc ! k) (e, d) = Inr st' \<and>
           hmv3_inv bk boc (conv_out_channels c20) (conv_out_channels c11) B F h w n (Suc k) st'"
proof -
  let ?u = "n - k - 1" and ?eh = "sk_extent bk (Suc k) h" and ?ew = "sk_extent bk (Suc k) w"
  let ?P = "hmv3_inv bk boc (conv_out_channels c20) (conv_out_channels c11) B F h w n"
  from inv have e: "shape e = [B * F, boc ! k, sk_extent bk k h, sk_extent bk k w]"
    and ks: "dict_keys d = hmv3_output_keys n k"
    by (simp_all add: hmv3_inv_def)
  obtain e' out where fs: "fusion_step bk F de (hmv3_key n) k (sk_chain cad npe npeh boc ! k) (e, d) =
      Inr (e', dict_set d (hmv3_key n k) out)"
    and e': "shape e' = [B * F, boc ! Suc k, ?eh, ?ew]"
    and out: "shape out = [B, boc ! Suc k, F, ?eh, ?ew]"
    using fusion_step_shape [OF e _ drv F, where bk = bk and key = "hmv3_key n" and npe = npe
        and npeh = npeh and d = d] k n by auto
  have key: "hmv3_key n k = ''up3_'' @ nat_str ?u"
    by (simp add: hmv3_key_def)
  have fresh: "x \<notin> set (dict_keys d)" if "x \<in> set (hmv3_stage_keys n k)" for x
    using hmv3_stage_keys_fresh [OF k that] ks by simp
  have neq: "''up3_'' @ nat_str (n - j - 1) \<noteq> ''up3_'' @ nat_str ?u" if "j < k" for j
    using that k by simp
  let ?d1 = "dict_set d (''up3_'' @ nat_str ?u) out"
  have up: "\<exists>t. map_of (dict_set d' k' v') (''up3_'' @ nat_str ?u) = Some t \<and>
               shape t = [B, boc ! Suc k, F, ?eh, ?ew]"
    if "map_of d' (''up3_'' @ nat_str ?u) = Some out" "k' \<noteq> ''up3_'' @ nat_str ?u" for d' k' v'
    using that out by simp
  have "\<exists>d'. hmv3_extras bk F c20 c11 ?u e' ?d1 = Inr d' \<and> ?P (Suc k) (e', d')"
  proof -
    consider "2 < ?u" | "?u = 2" | "?u = 1" | "?u = 0" by linarith
    then show ?thesis
    proof cases
      case 1
      then have sk: "hmv3_stage_keys n k = [''up3_'' @ nat_str ?u]"
        by (simp add: hmv3_stage_keys_def Let_def)
      have "?P (Suc k) (e', ?d1)"
        by (rule hmv3_inv_Suc [OF inv k e']) (use 1 fresh neq out in \<open>simp_all add: sk\<close>)
      then show ?thesis using 1 by (simp add: hmv3_extras_above)
    next
      case 2
      obtain o2 where ex: "hmv3_extras bk F c20 c11 ?u e' ?d1 = Inr (dict_set ?d1 ''down3_0'' o2)"
        and o2: "shape o2 = [B, conv_out_channels c20, F, ?eh, ?ew]"
        using hmv3_extras_2 [of e' B F c20 ?eh ?ew bk c11 ?d1] e' w20 2 c20 ext F by auto
      have sk: "hmv3_stage_keys n k = [''up3_'' @ nat_str ?u, ''down3_0'']"
        using 2 by (simp add: hmv3_stage_keys_def Let_def)
      have "Suc k = n - 2" using 2 by simp
      then have "?P (Suc k) (e', dict_set ?d1 ''down3_0'' o2)"
        by (intro hmv3_inv_Suc [OF inv k e']) (use 2 fresh neq out o2 in \<open>simp_all add: sk\<close>)
      then show ?thesis using ex by blast
    next
      case 3
      obtain o1 where ex: "hmv3_extras bk F c20 c11 ?u e' ?d1 = Inr (dict_set ?d1 ''down3_1'' o1)"
        and o1: "shape o1 = [B, conv_out_channels c11, F, ?eh, ?ew]"
        using hmv3_extras_1 [of e' B F c11 ?eh ?ew bk c20 ?d1] e' w11 3 c11 ext F by auto
      have sk: "hmv3_stage_keys n k = [''up3_'' @ nat_str ?u, ''down3_1'']"
        using 3 by (simp add: hmv3_stage_keys_def Let_def)
      have "Suc k = n - 1" using 3 k by simp
      then have "?P (Suc k) (e', dict_set ?d1 ''down3_1'' o1)"
        by (intro hmv3_inv_Suc [OF inv k e']) (use 3 fresh neq out o1 in \<open>simp_all add: sk\<close>)
      then show ?thesis using ex by blast
    next
      case 4
      have ex: "hmv3_extras bk F c20 c11 ?u e' ?d1 =
                  Inr (dict_set (dict_set ?d1 ''down3_2'' out) ''down3_3'' out)"
        using 4 by (simp add: hmv3_extras_0)
      have sk: "hmv3_stage_keys n k = [''up3_'' @ nat_str ?u, ''down3_2'', ''down3_3'']"
        using 4 by (simp add: hmv3_stage_keys_def Let_def)
      have "?P (Suc k) (e', dict_set (dict_set ?d1 ''down3_2'' out) ''down3_3'' out)"
        by (intro hmv3_inv_Suc [OF inv k e']) (use 4 fresh neq out in \<open>simp_all add: sk\<close>)
      then show ?thesis using ex by blast
    qed
  qed
  then show ?thesis
    using fs key by (auto simp: hmv3_step_def)
qed

lemma sk_extent_pos:
  "(\<And>nm x. 0 < x \<Longrightarrow> 0 < bk_sk_size bk nm x) \<Longrightarrow> 0 < h \<Longrightarrow> 0 < sk_extent bk k h"
  by (induction k) simp_all

lemma hmv3_inv_start:
  "shape e = [B * F, boc ! 0, h, w] \<Longrightarrow> hmv3_inv bk boc c20o c11o B F h w n 0 (e, [])"
  by (simp add: hmv3_inv_def)

text \<open>The whole loop returns, in a state satisfying the invariant for all \<open>n\<close>
  blocks, when the blocks feeding the adapters have the adapters' input widths and
  leave non-empty images.\<close>

lemma hmv3_loop:
  assumes e: "shape e = [B * F, boc ! 0, h, w]" and n: "n = length boc - 1"
    and drv: "shape de = [B * F, L, cad]" and F: "0 < F"
    and c20: "conv_kernel_size c20 = 1" "conv_padding c20 = 0"
    and c11: "conv_kernel_size c11 = 1" "conv_padding c11 = 0"
    and w20: "2 < n \<Longrightarrow> boc ! (n - 2) = conv_in_channels c20"
    and w11: "1 < n \<Longrightarrow> boc ! (n - 1) = conv_in_channels c11"
    and ext: "\<And>k. 0 < k \<Longrightarrow> 0 < sk_extent bk k h \<and> 0 < sk_extent bk k w"
  shows "\<exists>st. enum_loop (hmv3_step bk F de n c20 c11) 0 (sk_chain cad npe npeh boc) (e, []) = Inr st \<and>
           hmv3_inv bk boc (conv_out_channels c20) (conv_out_channels c11) B F h w n n st"
proof -
  let ?P = "hmv3_inv bk boc (conv_out_channels c20) (conv_out_channels c11) B F h w n"
  have "\<exists>st. enum_loop (hmv3_step bk F de n c20 c11) 0 (sk_chain cad npe npeh boc) (e, []) = Inr st \<and>
          ?P (length (sk_chain cad npe npeh boc)) st"
  proof (rule enum_loop_invariant)
    fix k x st
    assume k: "k < length (sk_chain cad npe npeh boc)" and x: "x = sk_chain cad npe npeh boc ! k"
      and inv: "?P k st"
    obtain e0 d0 where st: "st = (e0, d0)" by (cases st)
    have kn: "k < n" using k n by simp
    have "\<exists>st'. hmv3_step bk F de n c20 c11 k (sk_chain cad npe npeh boc ! k) (e0, d0) = Inr st' \<and>
            ?P (Suc k) st'"
    proof (rule hmv3_step_inv [OF _ kn n drv F c20 c11])
      show "?P k (e0, d0)" using inv st by simp
      show "boc ! Suc k = conv_in_channels c20" if "n - k - 1 = 2"
      proof -
        have "Suc k = n - 2" "2 < n" using that kn by arith+
        then show ?thesis using w20 by simp
      qed
      show "boc ! Suc k = conv_in_channels c11" if "n - k - 1 = 1"
      proof -
        have "Suc k = n - 1" "1 < n" using that kn by arith+
        then show ?thesis using w11 by simp
      qed
      show "0 < sk_extent bk (Suc k) h \<and> 0 < sk_extent bk (Suc k) w"
        using ext by blast
    qed
    then show "\<exists>st'. hmv3_step bk F de n c20 c11 (0 + k) x st = Inr st' \<and> ?P (Suc k) st'"
      using st x by simp
  next
    show "?P 0 (e, [])" using e by (rule hmv3_inv_start)
  qed
  then show ?thesis using n by simp
qed

text \<open>The loop raises \<open>RuntimeError\<close> at iteration \<open>n - 3\<close> (\<open>up_idx == 2\<close>) when the
  block run there does not produce \<open>conv_up2_down0\<close>'s input width; the iterations
  before it return.\<close>

lemma hmv3_loop_adapter_mismatch:
  assumes e: "shape e = [B * F, boc ! 0, h, w]" and n: "n = length boc - 1"
    and drv: "shape de = [B * F, L, cad]" and F: "0 < F"
    and c20: "conv_kernel_size c20 = 1" "conv_padding c20 = 0"
    and c11: "conv_kernel_size c11 = 1" "conv_padding c11 = 0"
    and three: "2 < n" and bad: "boc ! (n - 2) \<noteq> conv_in_channels c20"
  shows "enum_loop (hmv3_step bk F de n c20 c11) 0 (sk_chain cad npe npeh boc) (e, []) = Inl RuntimeError"
proof -
  let ?P = "hmv3_inv bk boc (conv_out_channels c20) (conv_out_channels c11) B F h w n"
  show ?thesis
  proof (rule enum_loop_Inl_first [where k = "n - 3" and P = ?P])
    show "n - 3 < length (sk_chain cad npe npeh boc)" using n three by simp
  next
    fix j st
    assume j: "j < n - 3" and inv: "?P j st"
    obtain e0 d0 where st: "st = (e0, d0)" by (cases st)
    have jn: "j < n" and u: "n - j - 1 \<noteq> 2" "n - j - 1 \<noteq> 1" using j by arith+
    have "\<exists>st'. hmv3_step bk F de n c20 c11 j (sk_chain cad npe npeh boc ! j) (e0, d0) = Inr st' \<and>
            ?P (Suc j) st'"
      by (rule hmv3_step_inv [OF _ jn n drv F c20 c11]) (use inv st u in simp_all)
    then show "\<exists>st'. hmv3_step bk F de n c20 c11 (0 + j) (sk_chain cad npe npeh boc ! j) st = Inr st' \<and>
                 ?P (Suc j) st'"
      using st by simp
  next
    fix st
    assume inv: "?P (n - 3) st"
    obtain e0 d0 where st: "st = (e0, d0)" by (cases st)
    have k: "n - 3 < length boc - 1" using n three by simp
    have e0: "shape e0 = [B * F, boc ! (n - 3), sk_extent bk (n - 3) h, sk_extent bk (n - 3) w]"
      using inv st by (simp add: hmv3_inv_def)
    obtain e' out where fs: "fusion_step bk F de (hmv3_key n) (n - 3) (sk_chain cad npe npeh boc ! (n - 3))
        (e0, d0) = Inr (e', dict_set d0 (hmv3_key n (n - 3)) out)"
      and e': "shape e' = [B * F, boc ! Suc (n - 3), bk_sk_size bk (block_name (n - 3)) (sk_extent bk (n - 3) h),
                            bk_sk_size bk (block_name (n - 3)) (sk_extent bk (n - 3) w)]"
      using fusion_step_shape [OF e0 k drv F, where bk = bk and key = "hmv3_key n" and npe = npe
          and npeh = npeh and d = d0] by blast
    have u: "n - (n - 3) - 1 = 2" and s: "Suc (n - 3) = n - 2" using three by simp_all
    have "hmv3_extras bk F c20 c11 2 e' (dict_set d0 (hmv3_key n (n - 3)) out) = Inl RuntimeError"
      using e' bad s by (intro hmv3_extras_2_mismatch) simp_all
    then show "hmv3_step bk F de n c20 c11 (0 + (n - 3)) (sk_chain cad npe npeh boc ! (n - 3)) st =
                 Inl RuntimeError"
      using fs st u by (simp add: hmv3_step_def)
  next
    show "?P 0 (e, [])" using e by (rule hmv3_inv_start)
  qed
qed

section \<open>Any returning forward pass\<close>

text \<open>The extra outputs of one iteration, for any inputs on which they return: the
  keys of the stage are appended and only well-formed tensors are stored.\<close>

lemma hmv3_extras_run:
  assumes ex: "hmv3_extras bk F c20 c11 u e d = Inr d'"
    and wf: "dict_wf d"
    and fresh: "\<And>x. x \<in> {''down3_0'', ''down3_1'', ''down3_2'', ''down3_3''} \<Longrightarrow>
                  x \<in> set (tl (hmv3_stage_keys (Suc u) 0)) \<Longrightarrow> x \<notin> set (dict_keys d)"
  shows "dict_keys d' = dict_keys d @ tl (hmv3_stage_keys (Suc u) 0) \<and> dict_wf d'"
proof -
  consider "2 < u" | "u = 2" | "u = 1" | "u = 0" by linarith
  then show ?thesis
  proof cases
    case 1
    then show ?thesis using ex wf by (simp add: hmv3_extras_above hmv3_stage_keys_def)
  next
    case 2
    then obtain c out where "conv2d_forward bk c20 e = Inr c" "from_frames F c = Inr out"
      and d': "d' = dict_set d ''down3_0'' out"
      using ex by (auto simp: hmv3_extras_def ebind_eq_Inr_iff)
    then have "tensor_wf out" by (blast intro: tensor_wf_from_frames tensor_wf_conv2d_forward)
    then show ?thesis using 2 d' wf fresh by (simp add: hmv3_stage_keys_def)
  next
    case 3
    then obtain c out where "conv2d_forward bk c11 e = Inr c" "from_frames F c = Inr out"
      and d': "d' = dict_set d ''down3_1'' out"
      using ex by (auto simp: hmv3_extras_def ebind_eq_Inr_iff)
    then have "tensor_wf out" by (blast intro: tensor_wf_from_frames tensor_wf_conv2d_forward)
    then show ?thesis using 3 d' wf fresh by (simp add: hmv3_stage_keys_def)
  next
    case 4
    then obtain v where g: "dict_get d ''up3_0'' = Inr v"
      and d': "d' = dict_set (dict_set d ''down3_2'' v) ''down3_3'' v"
      using ex by (auto simp: hmv3_extras_def ebind_eq_Inr_iff Let_def)
    have "tensor_wf v" using dict_wf_dict_get [OF wf g] .
    then show ?thesis using 4 d' wf fresh by (simp add: hmv3_stage_keys_def)
  qed
qed

lemma hmv3_stage_keys_Suc_0: "hmv3_stage_keys n k = (''up3_'' @ nat_str (n - k - 1)) #
                                 tl (hmv3_stage_keys (Suc (n - k - 1)) 0)"
  by (simp add: hmv3_stage_keys_def Let_def)

lemma hmv3_step_run:
  assumes step: "hmv3_step bk F de n c20 c11 k blk (e, d) = Inr st'"
    and k: "k < n" and keys: "dict_keys d = hmv3_output_keys n k" and wf: "dict_wf d"
  shows "dict_keys (snd st') = hmv3_output_keys n (Suc k) \<and> dict_wf (snd st')"
proof -
  let ?u = "n - k - 1"
  obtain st1 where fs: "fusion_step bk F de (hmv3_key n) k blk (e, d) = Inr st1"
    and rest: "(case st1 of (embedding, ret_dict) \<Rightarrow>
       ebind (hmv3_extras bk F c20 c11 ?u embedding ret_dict) (\<lambda>ret_dict. Inr (embedding, ret_dict))) = Inr st'"
    using step by (auto simp: hmv3_step_def ebind_eq_Inr_iff)
  obtain e1 out where st1: "st1 = (e1, dict_set d (hmv3_key n k) out)" and wo: "tensor_wf out"
    using fusion_step_Inr [OF fs] by blast
  obtain d' where ex: "hmv3_extras bk F c20 c11 ?u e1 (dict_set d (hmv3_key n k) out) = Inr d'"
    and st': "st' = (e1, d')"
    using rest st1 by (auto simp: ebind_eq_Inr_iff)
  have key: "hmv3_key n k = ''up3_'' @ nat_str ?u" by (simp add: hmv3_key_def)
  have fresh: "x \<notin> set (dict_keys d)" if "x \<in> set (hmv3_stage_keys n k)" for x
    using hmv3_stage_keys_fresh [OF k that] keys by simp
  have up: "''up3_'' @ nat_str ?u \<notin> set (dict_keys d)"
    using fresh by (simp add: hmv3_stage_keys_def Let_def)
  let ?d1 = "dict_set d (''up3_'' @ nat_str ?u) out"
  have k1: "dict_keys ?d1 = dict_keys d @ [''up3_'' @ nat_str ?u]" using up by simp
  have "dict_keys d' = dict_keys ?d1 @ tl (hmv3_stage_keys (Suc ?u) 0) \<and> dict_wf d'"
  proof (rule hmv3_extras_run [OF ex [unfolded key]])
    show "dict_wf ?d1" using wf wo by simp
    fix x assume "x \<in> {''down3_0'', ''down3_1'', ''down3_2'', ''down3_3''}"
      and x: "x \<in> set (tl (hmv3_stage_keys (Suc ?u) 0))"
    then have "x \<notin> set (dict_keys d)" using fresh [of x] hmv3_stage_keys_Suc_0 [of n k] by auto
    then show "x \<notin> set (dict_keys ?d1)" using k1 \<open>x \<in> {''down3_0'', _, _, _}\<close> by auto
  qed
  then show ?thesis
    using st' k1 keys hmv3_stage_keys_Suc_0 [of n k] by (simp add: hmv3_output_keys_Suc)
qed

text \<open>Every returning run of the HMV3 loop writes the keys \<open>hmv3_output_keys\<close> lists
  and stores only well-formed tensors, whatever the inputs.\<close>

lemma hmv3_forward_run:
  assumes "hmv3_forward bk net condition drive_coeff face_parts emo = Inr d"
  shows "dict_keys d = hmv3_output_keys (length (v3_blocks_down net)) (length (v3_blocks_down net)) \<and>
         dict_wf d"
proof -
  let ?n = "length (v3_blocks_down net)"
  obtain F e de emb where run: "enum_loop (hmv3_step bk F de ?n (v3_conv_up2_down0 net)
      (v3_conv_up1_down1 net)) 0 (v3_blocks_down net) (e, []) = Inr (emb, d)"
    using hmv3_forward_Inr_loop [OF assms] by blast
  let ?P = "\<lambda>k (st :: 'a tensor \<times> 'a out_dict). dict_keys (snd st) = hmv3_output_keys ?n k \<and> dict_wf (snd st)"
  have "?P (length (v3_blocks_down net)) (emb, d)"
  proof (rule enum_loop_Inr_induct [where P = ?P, OF run])
    show "?P 0 (e, [])" by simp
  next
    fix k st st'
    assume k: "k < ?n" and P: "?P k st"
      and step: "hmv3_step bk F de ?n (v3_conv_up2_down0 net) (v3_conv_up1_down1 net) (0 + k)
                   (v3_blocks_down net ! k) st = Inr st'"
    obtain e0 d0 where st: "st = (e0, d0)" by (cases st)
    show "?P (Suc k) st'"
      using hmv3_step_run [of bk F de ?n _ _ k _ e0 d0 st'] step k P st by auto
  qed
  then show ?thesis by simp
qed

lemma down3_in_hmv3_output_keys:
  "''down3_0'' \<in> set (hmv3_output_keys n n) \<longleftrightarrow> 2 < n"
  "''down3_1'' \<in> set (hmv3_output_keys n n) \<longleftrightarrow> 1 < n"
  "''down3_2'' \<in> set (hmv3_output_keys n n) \<longleftrightarrow> 0 < n"
  "''down3_3'' \<in> set (hmv3_output_keys n n) \<longleftrightarrow> 0 < n"
proof -
  have "(\<exists>j<n. n - j - 1 = u) \<longleftrightarrow> u < n" for u
  proof
    assume "u < n" then show "\<exists>j<n. n - j - 1 = u" by (intro exI [of _ "n - u - 1"]) auto
  qed auto
  moreover have "(\<exists>j<n. n \<le> Suc j) \<longleftrightarrow> 0 < n"
  proof
    assume "0 < n" then show "\<exists>j<n. n \<le> Suc j" by (intro exI [of _ "n - 1"]) auto
  qed auto
  ultimately show "''down3_0'' \<in> set (hmv3_output_keys n n) \<longleftrightarrow> 2 < n"
    "''down3_1'' \<in> set (hmv3_output_keys n n) \<longleftrightarrow> 1 < n"
    "''down3_2'' \<in> set (hmv3_output_keys n n) \<longleftrightarrow> 0 < n"
    "''down3_3'' \<in> set (hmv3_output_keys n n) \<longleftrightarrow> 0 < n"
    by (simp_all add: mem_hmv3_output_keys mem_hmv3_stage_keys)
qed

end
