(* ===== verification/HMV3_Outputs.thy ===== *)
theory HMV3_Outputs
  imports HMV3_Loop
begin

text \<open>
  The complete output of \<open>HMV3ControlNet.forward\<close>: the keys of any returning pass
  and their count, the keys and shapes in both modes on well-shaped
  inputs, and the \<open>RuntimeError\<close> the hard-wired 1280-channel adapters raise when
  the configured channel widths do not fit them.
\<close>

text \<open>C10. Whatever its inputs and mode, a forward pass of HMV3ControlNet that returns
  has written exactly the keys \<open>hmv3_output_keys\<close> lists for its \<open>n\<close> blocks, in
  that order: \<open>down3_0\<close> only with at least three blocks, \<open>down3_1\<close> only with at
  least two, \<open>down3_2\<close> and \<open>down3_3\<close> with at least one.\<close>

theorem hmv3_forward_any_run:
  assumes "hmv3_forward bk net condition drive_coeff face_parts emo = Inr d"
  shows "dict_keys d = hmv3_output_keys (length (v3_blocks_down net)) (length (v3_blocks_down net)) \<and>
    (''down3_0'' \<in> set (dict_keys d) \<longleftrightarrow> 2 < length (v3_blocks_down net)) \<and>
    (''down3_1'' \<in> set (dict_keys d) \<longleftrightarrow> 1 < length (v3_blocks_down net)) \<and>
    (''down3_2'' \<in> set (dict_keys d) \<longleftrightarrow> 0 < length (v3_blocks_down net)) \<and>
    (''down3_3'' \<in> set (dict_keys d) \<longleftrightarrow> 0 < length (v3_blocks_down net))"
  using hmv3_forward_run [OF assms] by (simp add: down3_in_hmv3_output_keys)

theorem hmv3_forward_any_run_witness:
  "\<exists>d. hmv3_forward demo_backend (projr (hmv3_init 1 1 4 2 [2, 3]))
         \<lparr>shape = [1, 1, 1, 4, 4], data = replicate 16 0\<rparr> None None
         (Some \<lparr>shape = [1, 1, 1], data = [1]\<rparr>) = Inr d \<and>
       dict_keys d = [''up3_'' @ nat_str 0, ''down3_2'', ''down3_3''] \<and>
       ''down3_0'' \<notin> set (dict_keys d)"
proof -
  let ?f = "hmv3_forward demo_backend (projr (hmv3_init 1 1 4 2 [2, 3]))
         \<lparr>shape = [1, 1, 1, 4, 4], data = replicate 16 0\<rparr> None None
         (Some \<lparr>shape = [1, 1, 1], data = [1 :: int]\<rparr>)"
  have "\<not> isl ?f" by code_simp
  then obtain d where fwd: "?f = Inr d" by (cases ?f) auto
  have "length (v3_blocks_down (projr (hmv3_init 1 1 4 2 [2, 3]))) = 1"
    by (simp add: hmv3_init_def)
  note r = hmv3_forward_any_run [OF fwd, unfolded this]
  have k: "dict_keys d = hmv3_output_keys 1 1" using r by (rule conjunct1)
  have "hmv3_output_keys 1 1 = [''up3_'' @ nat_str 0, ''down3_2'', ''down3_3'']"
    by (simp add: hmv3_output_keys_def hmv3_stage_keys_def)
  then show ?thesis using fwd k by simp
qed

text \<open>C11. A returning forward pass of HMV3ControlNet never writes a key twice, and it
  returns \<open>n + min n 3 + 1\<close> outputs for \<open>n > 0\<close> blocks (none for no block): one
  \<open>up3_k\<close> per block and the four \<open>down3_*\<close> aliases and adapter outputs as far
  as there are blocks for them, whatever the inputs and the mode.\<close>

theorem hmv3_forward_key_count:
  assumes "hmv3_forward bk net condition drive_coeff face_parts emo = Inr d"
  shows "distinct (dict_keys d) \<and>
    length d = length (v3_blocks_down net) + min (length (v3_blocks_down net)) 3 +
               (if 0 < length (v3_blocks_down net) then 1 else 0)"
proof -
  have k: "dict_keys d = hmv3_output_keys (length (v3_blocks_down net)) (length (v3_blocks_down net))"
    using hmv3_forward_run [OF assms] by (rule conjunct1)
  have "length d = length (dict_keys d)" by (simp add: dict_keys_def)
  then show ?thesis
    by (simp only: k distinct_hmv3_output_keys [OF order_refl] length_hmv3_output_keys_gen simp_thms)
qed

theorem hmv3_forward_key_count_witness:
  "\<exists>d. hmv3_forward demo_backend (projr (hmv3_init 1 1 4 2 [2, 3]))
         \<lparr>shape = [1, 1, 1, 4, 4], data = replicate 16 0\<rparr> None None
         (Some \<lparr>shape = [1, 1, 1], data = [1]\<rparr>) = Inr d \<and>
       distinct (dict_keys d) \<and> length d = 3"
proof -
  let ?f = "hmv3_forward demo_backend (projr (hmv3_init 1 1 4 2 [2, 3]))
         \<lparr>shape = [1, 1, 1, 4, 4], data = replicate 16 0\<rparr> None None
         (Some \<lparr>shape = [1, 1, 1], data = [1 :: int]\<rparr>)"
  have "\<not> isl ?f" by code_simp
  then obtain d where fwd: "?f = Inr d" by (cases ?f) auto
  have "length (v3_blocks_down (projr (hmv3_init 1 1 4 2 [2, 3]))) = 1"
    by (simp add: hmv3_init_def)
  then show ?thesis using fwd hmv3_forward_key_count [OF fwd] by simp
qed

section \<open>The forward pass\<close>

lemma hmv3_init_adapters:
  assumes "hmv3_init ec ic sf cad boc = Inr net"
  shows "conv_in_channels (v3_conv_up2_down0 net) = 1280" "conv_out_channels (v3_conv_up2_down0 net) = 320"
    "conv_kernel_size (v3_conv_up2_down0 net) = 1" "conv_padding (v3_conv_up2_down0 net) = 0"
    "conv_in_channels (v3_conv_up1_down1 net) = 1280" "conv_out_channels (v3_conv_up1_down1 net) = 640"
    "conv_kernel_size (v3_conv_up1_down1 net) = 1" "conv_padding (v3_conv_up1_down1 net) = 0"
    "v3_blocks_down net = sk_chain cad 64 1024 boc"
  using assms by (auto simp: hmv3_init_def split: if_splits)

text \<open>Once the driving embedding is computed, a forward pass on a well-shaped condition
  is the loop over the blocks, started on the conditioning features.\<close>

lemma hmv3_forward_as_loop:
  assumes init: "hmv3_init ec ic sf cad boc = Inr net"
    and cond: "shape condition = [B, ic, F, H, W]"
    and pos: "0 < sf" "0 < int H div sf" "0 < int W div sf"
    and drv: "hmv3_drive_embedding bk net B F dc fp emo = Inr de"
  shows "\<exists>e. shape e = [B * F, boc ! 0, nat (int H div sf), nat (int W div sf)] \<and>
           hmv3_forward bk net condition dc fp emo =
             ebind (enum_loop (hmv3_step bk F de (length boc - 1) (v3_conv_up2_down0 net)
                                 (v3_conv_up1_down1 net)) 0 (sk_chain cad 64 1024 boc) (e, []))
               (\<lambda>(embedding, ret_dict). Inr ret_dict)"
proof -
  have "boc \<noteq> []" using init by (auto simp: hmv3_init_def)
  then obtain net' where net': "hmv3_init ec ic sf cad boc = Inr net'" and
    fields: "v3_scale_factor net' = sf" "conv_in_channels (v3_conv_in net') = ic"
      "conv_out_channels (v3_conv_in net') = boc ! 0"
      "conv_kernel_size (v3_conv_in net') = 3" "conv_padding (v3_conv_in net') = 1"
    by (blast dest: hmv3_init_Inr)
  from init net' have n: "net = net'" by simp
  obtain e where "condition_embedding bk sf (v3_conv_in net) condition H W = Inr e"
    and "shape e = [B * F, boc ! 0, nat (int H div sf), nat (int W div sf)]"
    using condition_embedding_shape [of condition B "v3_conv_in net" F H W sf bk] cond pos fields n
    by auto
  then show ?thesis
    using cond drv fields n hmv3_init_adapters(9) [OF init] by (auto simp: hmv3_forward_def)
qed

lemma hmv3_exp_drive:
  assumes init: "hmv3_init ec ic sf cad boc = Inr net"
    and dc: "shape drive_coeff = [B, F, K]" and fp: "shape face_parts = [B, F, P, 1024]"
    and pos: "0 < B" "0 < F"
  shows "\<exists>de. hmv3_drive_embedding bk net B F (Some drive_coeff) (Some face_parts) emo = Inr de \<and>
           shape de = [B * F, P + K, cad]"
proof -
  have f: "v3_exp_embedding net = \<lparr>ts_num_channels = cad, ts_flip_sin_to_cos = True,
                                   ts_downscale_freq_shift = 0\<rparr>"
    "v3_exp_proj net = \<lparr>te_name = ''exp_proj'', te_in_channels = cad, te_time_embed_dim = cad\<rparr>"
    "v3_face_proj net = \<lparr>te_name = ''face_proj'', te_in_channels = 1024, te_time_embed_dim = cad\<rparr>"
    "v3_cross_attention_dim net = cad"
    using init by (auto simp: hmv3_init_def split: if_splits)
  show ?thesis
    using exp_drive_embedding_value [of drive_coeff B F K face_parts P "v3_face_proj net"
        "v3_exp_embedding net" cad "v3_exp_proj net" bk] dc fp pos f
    by (simp add: hmv3_drive_embedding_def)
qed

text \<open>The outputs of a forward pass whose driving embedding has been computed, in
  either mode.\<close>

lemma hmv3_forward_outputs_core:
  assumes init: "hmv3_init ec ic sf cad boc = Inr net"
    and cond: "shape condition = [B, ic, F, H, W]"
    and pos: "0 < F" "0 < sf" "0 < int H div sf" "0 < int W div sf"
    and drv: "hmv3_drive_embedding bk net B F dc fp emo = Inr de"
    and ds: "shape de = [B * F, L, cad]"
    and sk_pos: "\<forall>nm x. 0 < x \<longrightarrow> 0 < bk_sk_size bk nm x"
    and w20: "2 < length boc - 1 \<longrightarrow> boc ! (length boc - 3) = 1280"
    and w11: "1 < length boc - 1 \<longrightarrow> boc ! (length boc - 2) = 1280"
  shows "\<exists>d. hmv3_forward bk net condition dc fp emo = Inr d \<and>
     dict_keys d = hmv3_output_keys (length boc - 1) (length boc - 1) \<and>
     (2 < length boc - 1 \<longrightarrow> length (dict_keys d) = length boc + 3) \<and>
     (\<forall>k < length boc - 1. \<exists>t. map_of d (''up3_'' @ nat_str k) = Some t \<and>
        shape t = [B, boc ! (length boc - 1 - k), F,
                   sk_extent bk (length boc - 1 - k) (nat (int H div sf)),
                   sk_extent bk (length boc - 1 - k) (nat (int W div sf))]) \<and>
     (2 < length boc - 1 \<longrightarrow> (\<exists>t. map_of d ''down3_0'' = Some t \<and>
        shape t = [B, 320, F, sk_extent bk (length boc - 3) (nat (int H div sf)),
                   sk_extent bk (length boc - 3) (nat (int W div sf))])) \<and>
     (1 < length boc - 1 \<longrightarrow> (\<exists>t. map_of d ''down3_1'' = Some t \<and>
        shape t = [B, 640, F, sk_extent bk (length boc - 2) (nat (int H div sf)),
                   sk_extent bk (length boc - 2) (nat (int W div sf))]))"
proof -
  let ?n = "length boc - 1" and ?h = "nat (int H div sf)" and ?w = "nat (int W div sf)"
  note a = hmv3_init_adapters [OF init]
  obtain e where es: "shape e = [B * F, boc ! 0, ?h, ?w]"
    and fwd: "hmv3_forward bk net condition dc fp emo =
      ebind (enum_loop (hmv3_step bk F de ?n (v3_conv_up2_down0 net) (v3_conv_up1_down1 net)) 0
               (sk_chain cad 64 1024 boc) (e, [])) (\<lambda>(embedding, ret_dict). Inr ret_dict)"
    using hmv3_forward_as_loop [OF init cond pos(2-4) drv] by blast
  have hw: "0 < ?h" "0 < ?w" using pos(3,4) by simp_all
  have ext: "0 < sk_extent bk k ?h \<and> 0 < sk_extent bk k ?w" for k
    using sk_extent_pos [of bk, OF _ hw(1)] sk_extent_pos [of bk, OF _ hw(2)] sk_pos by blast
  have w20': "boc ! (?n - 2) = conv_in_channels (v3_conv_up2_down0 net)" if "2 < ?n"
    using w20 that a by (simp add: numeral_3_eq_3)
  have w11': "boc ! (?n - 1) = conv_in_channels (v3_conv_up1_down1 net)" if "1 < ?n"
    using w11 that a by (simp add: numeral_2_eq_2)
  obtain st where lp: "enum_loop (hmv3_step bk F de ?n (v3_conv_up2_down0 net) (v3_conv_up1_down1 net)) 0
      (sk_chain cad 64 1024 boc) (e, []) = Inr st"
    and inv: "hmv3_inv bk boc 320 640 B F ?h ?w ?n ?n st"
    using hmv3_loop [where npe = 64 and npeh = 1024, OF es refl ds pos(1) a(3,4) a(7,8) w20' w11' ext] a
    by auto
  obtain emb d where st: "st = (emb, d)" by (cases st)
  have keys: "dict_keys d = hmv3_output_keys ?n ?n"
    and ups: "\<forall>j<?n. \<exists>t. map_of d (''up3_'' @ nat_str (?n - j - 1)) = Some t \<and>
                shape t = [B, boc ! Suc j, F, sk_extent bk (Suc j) ?h, sk_extent bk (Suc j) ?w]"
    and d0: "2 < ?n \<longrightarrow> (\<exists>t. map_of d ''down3_0'' = Some t \<and>
                shape t = [B, 320, F, sk_extent bk (?n - 2) ?h, sk_extent bk (?n - 2) ?w])"
    and d1: "1 < ?n \<longrightarrow> (\<exists>t. map_of d ''down3_1'' = Some t \<and>
                shape t = [B, 640, F, sk_extent bk (?n - 1) ?h, sk_extent bk (?n - 1) ?w])"
    using inv st by (simp_all add: hmv3_inv_def)
  have up: "\<exists>t. map_of d (''up3_'' @ nat_str k) = Some t \<and>
      shape t = [B, boc ! (?n - k), F, sk_extent bk (?n - k) ?h, sk_extent bk (?n - k) ?w]"
    if k: "k < ?n" for k
  proof -
    have j: "?n - k - 1 < ?n" and kk: "?n - (?n - k - 1) - 1 = k" and sj: "Suc (?n - k - 1) = ?n - k"
      using k by simp_all
    show ?thesis using ups [rule_format, OF j] unfolding kk sj .
  qed
  have len: "length (dict_keys d) = length boc + 3" if "2 < ?n"
    using length_hmv3_output_keys [OF that] keys that by simp
  have "?n - 2 = length boc - 3" "?n - 1 = length boc - 2" by simp_all
  then show ?thesis
    using fwd lp st keys up len d0 d1 by auto
qed

text \<open>C6. HMV3ControlNet's forward pass in expression mode returns on well-shaped inputs
  when the two blocks that feed the adapters produce 1280 channels and the blocks keep
  images non-empty. Its dictionary has the keys \<open>hmv3_output_keys\<close> lists, in that
  order (with at least three blocks: \<open>len(block_out_channels) + 3\<close> keys, four more
  than the blocks); \<open>up3_k\<close> holds block \<open>n-1-k\<close>'s output, \<open>down3_0\<close> and
  \<open>down3_1\<close> the 320- and 640-channel adapter outputs of the blocks before
  \<open>up3_2\<close> and \<open>up3_1\<close>.\<close>

theorem hmv3_forward_exp_outputs:
  assumes init: "hmv3_init ec ic sf cad boc = Inr net"
    and cond: "shape condition = [B, ic, F, H, W]"
    and dc: "shape drive_coeff = [B, F, K]" and fp: "shape face_parts = [B, F, P, 1024]"
    and pos: "0 < B" "0 < F" "0 < sf" "0 < int H div sf" "0 < int W div sf"
    and sk_pos: "\<forall>nm x. 0 < x \<longrightarrow> 0 < bk_sk_size bk nm x"
    and w20: "2 < length boc - 1 \<longrightarrow> boc ! (length boc - 3) = 1280"
    and w11: "1 < length boc - 1 \<longrightarrow> boc ! (length boc - 2) = 1280"
  shows "\<exists>d. hmv3_forward bk net condition (Some drive_coeff) (Some face_parts) emo = Inr d \<and>
     dict_keys d = hmv3_output_keys (length boc - 1) (length boc - 1) \<and>
     (2 < length boc - 1 \<longrightarrow> length (dict_keys d) = length boc + 3) \<and>
     (\<forall>k < length boc - 1. \<exists>t. map_of d (''up3_'' @ nat_str k) = Some t \<and>
        shape t = [B, boc ! (length boc - 1 - k), F,
                   sk_extent bk (length boc - 1 - k) (nat (int H div sf)),
                   sk_extent bk (length boc - 1 - k) (nat (int W div sf))]) \<and>
     (2 < length boc - 1 \<longrightarrow> (\<exists>t. map_of d ''down3_0'' = Some t \<and>
        shape t = [B, 320, F, sk_extent bk (length boc - 3) (nat (int H div sf)),
                   sk_extent bk (length boc - 3) (nat (int W div sf))])) \<and>
     (1 < length boc - 1 \<longrightarrow> (\<exists>t. map_of d ''down3_1'' = Some t \<and>
        shape t = [B, 640, F, sk_extent bk (length boc - 2) (nat (int H div sf)),
                   sk_extent bk (length boc - 2) (nat (int W div sf))]))"
proof -
  obtain de where "hmv3_drive_embedding bk net B F (Some drive_coeff) (Some face_parts) emo = Inr de"
    and "shape de = [B * F, P + K, cad]"
    using hmv3_exp_drive [OF init dc fp pos(1,2)] by blast
  then show ?thesis
    using hmv3_forward_outputs_core [OF init cond pos(2-5)] sk_pos w20 w11 by blast
qed

lemma hmv3_output_keys_4:
  "hmv3_output_keys 4 4 =
     [''up3_'' @ nat_str 3, ''up3_'' @ nat_str 2, ''down3_0'', ''up3_'' @ nat_str 1, ''down3_1'',
      ''up3_'' @ nat_str 0, ''down3_2'', ''down3_3'']"
  by (simp add: hmv3_output_keys_def hmv3_stage_keys_def upt_rec)

theorem hmv3_forward_exp_outputs_witness:
  "\<exists>d. hmv3_forward demo_backend (projr (hmv3_init 1280 3 4 320 [128, 640, 1280, 1280, 1280]))
         \<lparr>shape = [1, 3, 1, 8, 8], data = replicate 192 0\<rparr>
         (Some \<lparr>shape = [1, 1, 2], data = [1, 2]\<rparr>)
         (Some \<lparr>shape = [1, 1, 1, 1024], data = replicate 1024 0\<rparr>) None = Inr d \<and>
       dict_keys d = [''up3_'' @ nat_str 3, ''up3_'' @ nat_str 2, ''down3_0'', ''up3_'' @ nat_str 1,
                      ''down3_1'', ''up3_'' @ nat_str 0, ''down3_2'', ''down3_3''] \<and>
       length (dict_keys d) = 8"
proof -
  have init: "hmv3_init 1280 3 4 320 [128, 640, 1280, 1280, 1280] =
      Inr (projr (hmv3_init 1280 3 4 320 [128, 640, 1280, 1280, 1280]))"
    by (simp add: hmv3_init_def)
  obtain d where fwd: "hmv3_forward demo_backend (projr (hmv3_init 1280 3 4 320 [128, 640, 1280, 1280, 1280]))
         \<lparr>shape = [1, 3, 1, 8, 8], data = replicate 192 0\<rparr>
         (Some \<lparr>shape = [1, 1, 2], data = [1, 2]\<rparr>)
         (Some \<lparr>shape = [1, 1, 1, 1024], data = replicate 1024 (0 :: int)\<rparr>) None = Inr d"
    and keys: "dict_keys d = hmv3_output_keys (length [128, 640, 1280, 1280, 1280::nat] - 1)
                       (length [128, 640, 1280, 1280, 1280::nat] - 1)"
    and len: "2 < length [128, 640, 1280, 1280, 1280::nat] - 1 \<longrightarrow>
          length (dict_keys d) = length [128, 640, 1280, 1280, 1280::nat] + 3"
    using hmv3_forward_exp_outputs [OF init, of "\<lparr>shape = [1, 3, 1, 8, 8], data = replicate 192 0\<rparr>"
        1 1 8 8 "\<lparr>shape = [1, 1, 2], data = [1, 2]\<rparr>" 2 "\<lparr>shape = [1, 1, 1, 1024], data = replicate 1024 0\<rparr>"
        1 demo_backend None]
    by (auto simp: demo_backend_def)
  have n4: "length [128, 640, 1280, 1280, 1280::nat] - 1 = 4" by simp
  show ?thesis using fwd keys [unfolded n4 hmv3_output_keys_4] len [unfolded n4] by simp
qed

lemma hmv3_emo_drive:
  assumes init: "hmv3_init ec ic sf cad boc = Inr net"
    and miss: "drive_coeff = None \<or> face_parts = None"
    and emo: "shape emo = [B, F, K]" and pos: "0 < B" "0 < F"
  shows "\<exists>de. hmv3_drive_embedding bk net B F drive_coeff face_parts (Some emo) = Inr de \<and>
           shape de = [B * F, K, cad]"
proof -
  have f: "v3_emo_embedding net = \<lparr>ts_num_channels = cad, ts_flip_sin_to_cos = True,
                                   ts_downscale_freq_shift = 0\<rparr>"
    "v3_emo_proj net = \<lparr>te_name = ''emo_proj'', te_in_channels = cad, te_time_embed_dim = cad\<rparr>"
    "v3_cross_attention_dim net = cad"
    using init by (auto simp: hmv3_init_def split: if_splits)
  show ?thesis
    using emo_drive_embedding_value [of emo B F K "v3_emo_embedding net" cad "v3_emo_proj net" bk]
      emo pos f miss by (auto simp: hmv3_drive_embedding_def)
qed

text \<open>C12. HMV3ControlNet's forward pass in emotion mode (\<open>drive_coeff\<close> or
  \<open>face_parts\<close> missing, \<open>emo_embedding\<close> given) returns on well-shaped inputs under
  the same conditions as in expression mode, with the same keys in the same order
  and the same shapes.\<close>

theorem hmv3_forward_emo_outputs:
  assumes init: "hmv3_init ec ic sf cad boc = Inr net"
    and cond: "shape condition = [B, ic, F, H, W]"
    and miss: "drive_coeff = None \<or> face_parts = None"
    and emo: "shape emo = [B, F, K]"
    and pos: "0 < B" "0 < F" "0 < sf" "0 < int H div sf" "0 < int W div sf"
    and sk_pos: "\<forall>nm x. 0 < x \<longrightarrow> 0 < bk_sk_size bk nm x"
    and w20: "2 < length boc - 1 \<longrightarrow> boc ! (length boc - 3) = 1280"
    and w11: "1 < length boc - 1 \<longrightarrow> boc ! (length boc - 2) = 1280"
  shows "\<exists>d. hmv3_forward bk net condition drive_coeff face_parts (Some emo) = Inr d \<and>
     dict_keys d = hmv3_output_keys (length boc - 1) (length boc - 1) \<and>
     (2 < length boc - 1 \<longrightarrow> length (dict_keys d) = length boc + 3) \<and>
     (\<forall>k < length boc - 1. \<exists>t. map_of d (''up3_'' @ nat_str k) = Some t \<and>
        shape t = [B, boc ! (length boc - 1 - k), F,
                   sk_extent bk (length boc - 1 - k) (nat (int H div sf)),
                   sk_extent bk (length boc - 1 - k) (nat (int W div sf))]) \<and>
     (2 < length boc - 1 \<longrightarrow> (\<exists>t. map_of d ''down3_0'' = Some t \<and>
        shape t = [B, 320, F, sk_extent bk (length boc - 3) (nat (int H div sf)),
                   sk_extent bk (length boc - 3) (nat (int W div sf))])) \<and>
     (1 < length boc - 1 \<longrightarrow> (\<exists>t. map_of d ''down3_1'' = Some t \<and>
        shape t = [B, 640, F, sk_extent bk (length boc - 2) (nat (int H div sf)),
                   sk_extent bk (length boc - 2) (nat (int W div sf))]))"
proof -
  obtain de where "hmv3_drive_embedding bk net B F drive_coeff face_parts (Some emo) = Inr de"
    and "shape de = [B * F, K, cad]"
    using hmv3_emo_drive [OF init miss emo pos(1,2)] by blast
  then show ?thesis
    using hmv3_forward_outputs_core [OF init cond pos(2-5)] sk_pos w20 w11 by blast
qed

theorem hmv3_forward_emo_outputs_witness:
  "\<exists>d. hmv3_forward demo_backend (projr (hmv3_init 1280 3 4 320 [128, 640, 1280, 1280, 1280]))
         \<lparr>shape = [1, 3, 1, 8, 8], data = replicate 192 0\<rparr> None None
         (Some \<lparr>shape = [1, 1, 2], data = [1, 2]\<rparr>) = Inr d \<and>
       dict_keys d = [''up3_'' @ nat_str 3, ''up3_'' @ nat_str 2, ''down3_0'', ''up3_'' @ nat_str 1,
                      ''down3_1'', ''up3_'' @ nat_str 0, ''down3_2'', ''down3_3'']"
proof -
  have init: "hmv3_init 1280 3 4 320 [128, 640, 1280, 1280, 1280] =
      Inr (projr (hmv3_init 1280 3 4 320 [128, 640, 1280, 1280, 1280]))"
    by (simp add: hmv3_init_def)
  obtain d where fwd: "hmv3_forward demo_backend (projr (hmv3_init 1280 3 4 320 [128, 640, 1280, 1280, 1280]))
         \<lparr>shape = [1, 3, 1, 8, 8], data = replicate 192 0\<rparr> None None
         (Some \<lparr>shape = [1, 1, 2], data = [1, 2 :: int]\<rparr>) = Inr d"
    and keys: "dict_keys d = hmv3_output_keys (length [128, 640, 1280, 1280, 1280::nat] - 1)
                       (length [128, 640, 1280, 1280, 1280::nat] - 1)"
    using hmv3_forward_emo_outputs [OF init, of "\<lparr>shape = [1, 3, 1, 8, 8], data = replicate 192 0\<rparr>"
        1 1 8 8 None None "\<lparr>shape = [1, 1, 2], data = [1, 2]\<rparr>" 2 demo_backend]
    by (auto simp: demo_backend_def)
  have n4: "length [128, 640, 1280, 1280, 1280::nat] - 1 = 4" by simp
  show ?thesis using fwd keys [unfolded n4 hmv3_output_keys_4] by simp
qed

text \<open>C19. With at least three blocks, HMV3ControlNet's forward pass in expression
  mode raises \<open>RuntimeError\<close> in \<open>conv_up2_down0\<close> whenever the block before
  \<open>up3_2\<close> does not produce 1280 channels (\<open>block_out_channels[-3] != 1280\<close>),
  although the constructor accepted the widths.\<close>

theorem hmv3_forward_adapter_mismatch:
  assumes init: "hmv3_init ec ic sf cad boc = Inr net"
    and cond: "shape condition = [B, ic, F, H, W]"
    and dc: "shape drive_coeff = [B, F, K]" and fp: "shape face_parts = [B, F, P, 1024]"
    and pos: "0 < B" "0 < F" "0 < sf" "0 < int H div sf" "0 < int W div sf"
    and three: "2 < length boc - 1" and bad: "boc ! (length boc - 3) \<noteq> 1280"
  shows "hmv3_forward bk net condition (Some drive_coeff) (Some face_parts) emo = Inl RuntimeError"
proof -
  let ?n = "length boc - 1"
  note a = hmv3_init_adapters [OF init]
  obtain de where drv: "hmv3_drive_embedding bk net B F (Some drive_coeff) (Some face_parts) emo = Inr de"
    and ds: "shape de = [B * F, P + K, cad]"
    using hmv3_exp_drive [OF init dc fp pos(1,2)] by blast
  obtain e where es: "shape e = [B * F, boc ! 0, nat (int H div sf), nat (int W div sf)]"
    and fwd: "hmv3_forward bk net condition (Some drive_coeff) (Some face_parts) emo =
      ebind (enum_loop (hmv3_step bk F de ?n (v3_conv_up2_down0 net) (v3_conv_up1_down1 net)) 0
               (sk_chain cad 64 1024 boc) (e, [])) (\<lambda>(embedding, ret_dict). Inr ret_dict)"
    using hmv3_forward_as_loop [OF init cond pos(3-5) drv] by blast
  have "boc ! (?n - 2) \<noteq> conv_in_channels (v3_conv_up2_down0 net)"
    using bad a by (simp add: numeral_3_eq_3)
  then have "enum_loop (hmv3_step bk F de ?n (v3_conv_up2_down0 net) (v3_conv_up1_down1 net)) 0
               (sk_chain cad 64 1024 boc) (e, []) = Inl RuntimeError"
    using hmv3_loop_adapter_mismatch [OF es refl ds pos(2) a(3,4) a(7,8) three] by blast
  then show ?thesis using fwd by simp
qed

theorem hmv3_forward_adapter_mismatch_witness:
  "hmv3_forward demo_backend (projr (hmv3_init 1280 3 4 320 [128, 320, 640, 1280, 1280]))
     \<lparr>shape = [1, 3, 1, 8, 8], data = replicate 192 0\<rparr>
     (Some \<lparr>shape = [1, 1, 2], data = [1, 2]\<rparr>)
     (Some \<lparr>shape = [1, 1, 1, 1024], data = replicate 1024 0\<rparr>) None = Inl RuntimeError"
proof -
  have init: "hmv3_init 1280 3 4 320 [128, 320, 640, 1280, 1280] =
      Inr (projr (hmv3_init 1280 3 4 320 [128, 320, 640, 1280, 1280]))"
    by (simp add: hmv3_init_def)
  show ?thesis
    by (rule hmv3_forward_adapter_mismatch [OF init, of _ 1 1 8 8 _ 2 _ 1]) simp_all
qed

end
