(* ===== verification/Spec2Isabelle.thy ===== *)
theory Spec2Isabelle
  imports Drive_Rows Class_Equivalence HMV3_Control HMV3_Outputs
begin

text \<open>
  \<^bold>\<open>HelloMeme's ControlNets.\<close> The program is \<open>src/hellomeme/models/hm_control.py\<close>:
  five \<open>torch\<close> modules, \<open>HMControlNet\<close>, \<open>HMControlNet2\<close>, \<open>HMV2ControlNet\<close>,
  \<open>HMV3ControlNet\<close> and \<open>HMV2ControlNet2\<close>, each a constructor that configures
  layers from five numbers and a list of channel widths, and a \<open>forward\<close> that maps
  a video condition and a driving signal (expression coefficients with face-part
  features, or an emotion embedding) to a dictionary of feature maps keyed by stage.
  Every forward has the same three parts: the conditioning path (frames into the
  batch axis, bilinear downsampling by \<open>scale_factor\<close>, \<open>conv_in\<close>), the driving
  embedding (scaled coefficients through a sinusoidal \<open>Timesteps\<close> encoder and a
  \<open>TimestepEmbedding\<close> projection), and an enumerate loop over the
  \<open>SKCrossAttention\<close> blocks writing one output per block.

  \<^bold>\<open>Theories.\<close>
  \<^item> \<open>Prelude\<close>: Python's exceptions as the \<open>error\<close> datatype and a raising
    computation as \<open>error + 'a\<close> with \<open>ebind\<close>; \<open>a // b\<close> as \<open>py_floordiv\<close>;
    \<open>for idx, x in enumerate(xs)\<close> as \<open>enum_loop\<close> with its invariant, simulation,
    congruence, first-error, any-run induction and lockstep rules (two loops related
    step by step by \<open>rel_sum (=)\<close>: same exception or related states); a Python \<open>dict\<close> as an insertion-ordered
    association list (\<open>dict_set\<close>, \<open>dict_get\<close> raising \<open>KeyError\<close>); f-string
    integers as \<open>nat_str\<close>, injective through its inverse \<open>parse_nat\<close>.
  \<^item> \<open>Tensor\<close>: a tensor as its shape and its row-major buffer; \<open>swap_axes\<close>, the
    exchange of two adjacent axis groups by index arithmetic, proved an involution;
    \<open>torch.cat\<close> (\<open>tensor_cat\<close>) and scalar multiplication.
  \<^item> \<open>Einops\<close>: the six \<open>rearrange\<close> patterns of the file, with einops' rank and
    divisibility errors (\<open>EinopsError\<close>); the frame-axis round trip the forward
    passes perform (fold into the batch axis, unfold with the same frame count) and the
    index law of \<open>b c f h w -> (b f) c h w\<close>, which pins the \<open>(b f)\<close> factor order.
  \<^item> \<open>Layers\<close>: \<open>nn.Conv2d\<close>, \<open>F.interpolate\<close>, \<open>Timesteps\<close>,
    \<open>TimestepEmbedding\<close> and \<open>SKCrossAttention\<close> as configuration records with a
    forward each. Their shape checks and errors are written out; the numbers they
    compute come from an abstract \<open>'a backend\<close> record looked up by module name,
    since they are library kernels the file only calls (and \<open>SKCrossAttention\<close> lives
    in \<open>hm_blocks.py\<close>, outside the sources: its shape contract is taken from the
    specification, section 4.6).
  \<^item> \<open>Control_Common\<close>: the lines the five classes repeat, written once:
    \<open>sk_chain\<close> (the \<open>blocks_down\<close> loop of every \<open>__init__\<close>),
    \<open>condition_embedding\<close>, \<open>exp_drive_embedding\<close> (\<open>\<times> 500\<close>, face projection,
    concatenation, \<open>exp_proj\<close>), \<open>emo_drive_embedding\<close> (\<open>\<times> 20\<close>, \<open>emo_proj\<close>), and
    \<open>fusion_step\<close>, one loop iteration; their closed forms, and the bounds on the
    downsampled extent (\<open>h' * sf \<le> H < (h' + 1) * sf\<close>).
  \<^item> \<open>Fusion\<close>: the fusion loop as a whole: the invariant \<open>fusion_inv\<close> on
    well-shaped inputs with \<open>fusion_loop\<close>; the any-run invariant (keys and
    well-formed stored tensors, \<open>dict_wf\<close>) of a returning loop whatever its
    inputs; and the two pipelines \<open>exp_pipeline\<close>, \<open>emo_pipeline\<close> from which
    each class's output theorem follows.
  \<^item> \<open>HM_Control\<close> (\<open>HMControlNet\<close>, lines 23--88), \<open>HM_Control2\<close>
    (\<open>HMControlNet2\<close>, lines 90--146), \<open>HMV2_Control\<close> (\<open>HMV2ControlNet\<close>,
    lines 148--213), \<open>HMV3_Control\<close> (\<open>HMV3ControlNet\<close>, lines 216--305),
    \<open>HMV2_Control2\<close> (\<open>HMV2ControlNet2\<close>, lines 308--364): per class a record of
    the module's attributes, \<open>*_init\<close> for \<open>__init__\<close> (raising \<open>IndexError\<close> on an
    empty \<open>block_out_channels\<close>), \<open>*_default\<close> for the default arguments, \<open>*_key\<close>
    for the f-string of the output key and \<open>*_forward\<close> for \<open>forward\<close>, a
    \<open>ValueError\<close> when the condition is not of rank 5. \<open>HMV3ControlNet\<close> adds
    \<open>hmv3_drive_embedding\<close> (the mode branch over \<open>option\<close> inputs),
    \<open>hmv3_extras\<close> (the three \<open>if up_idx == \<dots>\<close> statements) and \<open>hmv3_step\<close>.
  \<^item> \<open>Class_Equivalence\<close>: \<open>HMV2ControlNet2\<close> against \<open>HMControlNet2\<close>: built
    with the same arguments (and so with identical block chains), the two raise the same
    exception or return the same values in the same order under renamed keys (\<open>rekeyed\<close>, from the renaming lemmas of \<open>Fusion\<close>).
  \<^item> \<open>Drive_Rows\<close>: the two driving embeddings row by row (which face region or
    which scaled coefficient each row of the embedding comes from).
  \<^item> \<open>HMV3_Loop\<close>: the loop of \<open>HMV3ControlNet.forward\<close>: the specification
    \<open>hmv3_output_keys\<close> of the keys it writes, the invariant \<open>hmv3_inv\<close> on
    well-shaped inputs with its step and loop lemmas, and the any-run invariant
    \<open>hmv3_forward_run\<close>.
  \<^item> \<open>HMV3_Outputs\<close>: the complete output of \<open>HMV3ControlNet.forward\<close>: the keys
    and count of any returning pass, keys and shapes in both modes on
    well-shaped inputs, and the \<open>RuntimeError\<close> the hard-wired 1280-channel
    adapters raise on other channel widths.
  \<^item> This theory: the properties spanning classes, namely that \<open>HMV3ControlNet\<close>
    refines \<open>HMV2ControlNet\<close> in expression mode and \<open>HMV2ControlNet2\<close> in
    emotion mode, by a simulation of its loop by the shared fusion loop, and, composing
    the emotion-mode refinement with the key renaming of \<open>Class_Equivalence\<close>, that
    in emotion mode it reproduces the first-generation \<open>HMControlNet2\<close>
    (\<open>up3_{n-1-k}\<close> holds what \<open>down2_k\<close> holds).

  \<^bold>\<open>What the theorems show.\<close> For each class, a forward pass on well-shaped inputs
  returns, with exactly the output keys in the order the dictionary receives them
  and each output's shape (batch, the stage's channel width, the frame count, and the
  extent the blocks produce from the downsampled size). The frame-axis rearrange
  pair is an exact round trip and moves each element where the pattern says.
  The driving embeddings scale the coefficients (by 500, or 20 for emotions) before
  the sinusoidal embedding and put the face regions before the coefficients.
  \<open>HMV3ControlNet\<close> writes, in both modes, \<open>up3_{n-1}\<close> to \<open>up3_0\<close> interleaved
  with \<open>down3_0\<close> to \<open>down3_3\<close> (so \<open>len(block_out_channels) + 3\<close> keys, not the
  \<open>len(block_out_channels) - 1\<close> the specification's section 8 states), provided the
  blocks before \<open>up3_2\<close> and \<open>up3_1\<close> have 1280 channels, and raises
  \<open>RuntimeError\<close> otherwise; its \<open>down3_2\<close> and \<open>down3_3\<close> alias \<open>up3_0\<close>; its
  two modes use disjoint modules and inputs; it raises \<open>TypeError\<close> without an
  emotion input in emotion mode. The error theorems name the exception the code raises on a channel
  mismatch, a zero scale factor and an empty downsampled image. The constructor
  theorem gives the block chain. \<open>HMV2ControlNet2\<close> is \<open>HMControlNet2\<close> with
  renamed keys: on every input and backend it raises what \<open>HMControlNet2\<close> raises, or
  returns its values in the same order with \<open>down2_k\<close> renamed \<open>up2_v2_{n-1-k}\<close>.
  In emotion mode
  \<open>HMV3ControlNet\<close> returns only when \<open>HMControlNet2\<close> built with the same
  arguments returns, with \<open>up3_{n-1-k}\<close> equal to \<open>down2_k\<close>. \<open>HMControlNet\<close>
  does not check the batch and frame axes of its driving inputs: coefficients and face
  parts whose leading axes have the right product (face parts with batch and frame
  exchanged, say) are read as the well-shaped inputs with the same entries
  (\<open>exp_drive_embedding_reshape\<close>, which covers the same lines of
  \<open>HMV2ControlNet\<close> and \<open>HMV3ControlNet\<close>), as for the emotion input of
  \<open>HMControlNet2\<close>. Whatever the inputs, a pass of \<open>HMControlNet\<close> or
  \<open>HMV3ControlNet\<close> that returns has written exactly the keys of its loop (for
  \<open>HMV3ControlNet\<close>, \<open>down3_0\<close> and \<open>down3_1\<close> present exactly when there are
    more than two, resp. one block, \<open>down3_2\<close> and \<open>down3_3\<close> whenever there is
  one); \<open>HMControlNet\<close>'s stores only well-formed tensors. A returning \<open>HMV3ControlNet\<close> pass never writes a key twice and returns
  \<open>n + min n 3 + 1\<close> outputs for \<open>n > 0\<close> blocks. The downsampled extent
  \<open>h'\<close> of the conditioning path is positive and satisfies
  \<open>h' * sf \<le> H < (h' + 1) * sf\<close>.

  \<^bold>\<open>Bounds and executability.\<close> Every definition is executable; the forward passes
  evaluate by \<open>code_simp\<close> over the backend \<open>demo_backend\<close> (zero kernels), which
  the witnesses use on small networks. Loops are structural over the block list, so
  no fuel is needed; every theorem about a returning forward pass proves that it
  returns. The output theorems of \<open>HMV3ControlNet\<close> assume that the blocks map a
  non-empty image to a non-empty image (\<open>bk_sk_size\<close> positive on positive
  sizes), since its \<open>1 \<times> 1\<close> adapters refuse an empty one. There is no loop
  that may not end and no fuel anywhere: every loop of the file is a \<open>for\<close> over a
  finite list, modelled by structural recursion, so termination is by construction
  and there is no liveness property beyond the forward pass returning, which the
  output theorems prove.

  \<^bold>\<open>Not modelled.\<close> The numeric kernels (convolution weights, the bilinear filter,
  the sinusoid table, the MLPs and the attention of \<open>SKCrossAttention\<close>) are the
  backend's functions; dtype casts (\<open>.to(dtype=...)\<close>) are the identity;
  \<open>ModelMixin\<close>/\<open>ConfigMixin\<close> registration and weight loading are library code.
  The same abstraction is why \<open>HMV2ControlNet\<close> is not claimed equal to
  \<open>HMControlNet\<close> up to key names: their blocks differ only in
  \<open>num_positional_embeddings_hidden\<close> (64 against 1024), which the specification
  (section 4.6) lets shape the block's behaviour and which the model of
  \<open>SKCrossAttention\<close> cannot see.
  These are the only parts left: every statement of \<open>hm_control.py\<close> that is not
  a numeric kernel is a definition of the development, and the kernels cannot be
  modelled faithfully from sources that only call them.
  Tensors are values, so identity of objects appears only as equality of the stored
  values, which is what the aliasing theorem states.
\<close>

section \<open>HMV3ControlNet refines the two single-mode networks\<close>

text \<open>A returning HMV3 forward pass, unfolded: the shape of the condition, the
  conditioning path, the driving embedding and the loop.\<close>

lemma hmv3_forward_Inr_parts:
  assumes "hmv3_forward bk net condition drive_coeff face_parts emo = Inr d3"
  shows "\<exists>bs c F h w e de e3. shape condition = [bs, c, F, h, w] \<and>
     condition_embedding bk (v3_scale_factor net) (v3_conv_in net) condition h w = Inr e \<and>
     hmv3_drive_embedding bk net bs F drive_coeff face_parts emo = Inr de \<and>
     enum_loop (hmv3_step bk F de (length (v3_blocks_down net)) (v3_conv_up2_down0 net)
                 (v3_conv_up1_down1 net)) 0 (v3_blocks_down net) (e, []) = Inr (e3, d3)"
proof -
  obtain bs c F h w where shp: "shape condition = [bs, c, F, h, w]" and
    "ebind (condition_embedding bk (v3_scale_factor net) (v3_conv_in net) condition h w) (\<lambda>embedding.
     ebind (hmv3_drive_embedding bk net bs F drive_coeff face_parts emo) (\<lambda>drive_embedding.
     ebind (enum_loop (hmv3_step bk F drive_embedding (length (v3_blocks_down net))
                         (v3_conv_up2_down0 net) (v3_conv_up1_down1 net)) 0
              (v3_blocks_down net) (embedding, []))
       (\<lambda>(embedding, ret_dict). Inr ret_dict))) = Inr d3"
    using case_list5_Inr [OF assms [unfolded hmv3_forward_def]] by blast
  then obtain e de st where "condition_embedding bk (v3_scale_factor net) (v3_conv_in net) condition h w = Inr e"
    "hmv3_drive_embedding bk net bs F drive_coeff face_parts emo = Inr de"
    "enum_loop (hmv3_step bk F de (length (v3_blocks_down net)) (v3_conv_up2_down0 net)
        (v3_conv_up1_down1 net)) 0 (v3_blocks_down net) (e, []) = Inr st"
    and "(case st of (embedding, ret_dict) \<Rightarrow> Inr ret_dict) = (Inr d3 :: error + _)"
    by (auto simp: ebind_eq_Inr_iff)
  with shp show ?thesis by (cases st) auto
qed

text \<open>C2. HMV3ControlNet in expression mode refines HMV2ControlNet: built with the
  same arguments and given the same condition, \<open>drive_coeff\<close> and \<open>face_parts\<close>,
  whenever HMV3's forward pass returns, HMV2's returns too, and HMV3's output under
  \<open>up3_k\<close> is HMV2's output under \<open>up_v2_k\<close> for every \<open>k\<close>.\<close>

theorem hmv3_exp_mode_refines_hmv2:
  assumes i3: "hmv3_init ec ic sf cad boc = Inr net3"
    and i2: "hmv2_init ec ic sf cad boc = Inr net2"
    and fwd: "hmv3_forward bk net3 condition (Some dc) (Some fp) emo = Inr d3"
  shows "\<exists>d2. hmv2_forward bk net2 condition dc fp = Inr d2 \<and>
           (\<forall>k. map_of d3 (''up3_'' @ nat_str k) = map_of d2 (''up_v2_'' @ nat_str k))"
proof -
  have eqs: "v3_scale_factor net3 = v2_scale_factor net2" "v3_conv_in net3 = v2_conv_in net2"
    "v3_exp_embedding net3 = v2_exp_embedding net2" "v3_face_proj net3 = v2_face_proj net2"
    "v3_exp_proj net3 = v2_exp_proj net2"
    "v3_cross_attention_dim net3 = v2_cross_attention_dim net2"
    "v3_blocks_down net3 = v2_blocks_down net2"
    using i3 i2 by (auto simp: hmv3_init_def hmv2_init_def split: if_splits)
  obtain bs c F h w e de e3 where shp: "shape condition = [bs, c, F, h, w]"
    and ce: "condition_embedding bk (v3_scale_factor net3) (v3_conv_in net3) condition h w = Inr e"
    and dr: "hmv3_drive_embedding bk net3 bs F (Some dc) (Some fp) emo = Inr de"
    and lp: "enum_loop (hmv3_step bk F de (length (v3_blocks_down net3)) (v3_conv_up2_down0 net3)
               (v3_conv_up1_down1 net3)) 0 (v3_blocks_down net3) (e, []) = Inr (e3, d3)"
    using hmv3_forward_Inr_parts [OF fwd] by blast
  obtain d2 where lp2: "enum_loop (fusion_step bk F de (hmv2_key (length (v2_blocks_down net2)))) 0
                          (v3_blocks_down net3) (e, []) = Inr (e3, d2)"
    and outs: "\<forall>k. map_of d3 (''up3_'' @ nat_str k) = map_of d2 (''up_v2_'' @ nat_str k)"
    using hmv3_loop_simulation [OF lp, of "hmv2_key (length (v2_blocks_down net2))" "''up_v2_''"]
    by (auto simp: hmv2_key_def eqs)
  have "hmv2_forward bk net2 condition dc fp = Inr d2"
    using shp ce dr lp2 by (simp add: hmv2_forward_def hmv3_drive_embedding_def eqs)
  with outs show ?thesis by blast
qed

theorem hmv3_exp_mode_refines_hmv2_witness:
  "\<exists>d3 d2. hmv3_forward demo_backend (projr (hmv3_init 1 1 4 2 [2, 3]))
       \<lparr>shape = [1, 1, 1, 4, 4], data = replicate 16 0\<rparr>
       (Some \<lparr>shape = [1, 1, 1], data = [1]\<rparr>) (Some \<lparr>shape = [1, 1, 1, 1024], data = replicate 1024 0\<rparr>)
       None = Inr d3 \<and>
     hmv2_forward demo_backend (projr (hmv2_init 1 1 4 2 [2, 3]))
       \<lparr>shape = [1, 1, 1, 4, 4], data = replicate 16 0\<rparr>
       \<lparr>shape = [1, 1, 1], data = [1]\<rparr> \<lparr>shape = [1, 1, 1, 1024], data = replicate 1024 0\<rparr> = Inr d2 \<and>
     (\<forall>k. map_of d3 (''up3_'' @ nat_str k) = map_of d2 (''up_v2_'' @ nat_str k))"
proof -
  let ?f = "hmv3_forward demo_backend (projr (hmv3_init 1 1 4 2 [2, 3]))
       \<lparr>shape = [1, 1, 1, 4, 4], data = replicate 16 0\<rparr>
       (Some \<lparr>shape = [1, 1, 1], data = [1]\<rparr>) (Some \<lparr>shape = [1, 1, 1, 1024], data = replicate 1024 0\<rparr>)
       (None :: int tensor option)"
  have "\<not> isl ?f" by code_simp
  then obtain d3 where fwd: "?f = Inr d3" by (cases ?f) auto
  have "hmv3_init 1 1 4 2 [2, 3] = Inr (projr (hmv3_init 1 1 4 2 [2, 3]))"
    "hmv2_init 1 1 4 2 [2, 3] = Inr (projr (hmv2_init 1 1 4 2 [2, 3]))"
    by (simp_all add: hmv3_init_def hmv2_init_def)
  then show ?thesis using hmv3_exp_mode_refines_hmv2 [OF _ _ fwd] fwd by blast
qed

lemma hmv3_emo_mode_simulation:
  assumes i3: "hmv3_init ec ic sf cad boc = Inr net3"
    and i2: "hmv2c2_init ec ic sf cad boc = Inr net2"
    and miss: "drive_coeff = None \<or> face_parts = None"
    and fwd: "hmv3_forward bk net3 condition drive_coeff face_parts (Some emo) = Inr d3"
  shows "\<exists>d2. hmv2c2_forward bk net2 condition emo = Inr d2 \<and>
           (\<forall>k. map_of d3 (''up3_'' @ nat_str k) = map_of d2 (''up2_v2_'' @ nat_str k))"
proof -
  have eqs: "v3_scale_factor net3 = w2_scale_factor net2" "v3_conv_in net3 = w2_conv_in net2"
    "v3_emo_embedding net3 = w2_exp_embedding net2" "v3_emo_proj net3 = w2_emo_proj net2"
    "v3_cross_attention_dim net3 = w2_cross_attention_dim net2"
    "v3_blocks_down net3 = w2_blocks_down net2"
    using i3 i2 by (auto simp: hmv3_init_def hmv2c2_init_def split: if_splits)
  obtain bs c F h w e de e3 where shp: "shape condition = [bs, c, F, h, w]"
    and ce: "condition_embedding bk (v3_scale_factor net3) (v3_conv_in net3) condition h w = Inr e"
    and dr: "hmv3_drive_embedding bk net3 bs F drive_coeff face_parts (Some emo) = Inr de"
    and lp: "enum_loop (hmv3_step bk F de (length (v3_blocks_down net3)) (v3_conv_up2_down0 net3)
               (v3_conv_up1_down1 net3)) 0 (v3_blocks_down net3) (e, []) = Inr (e3, d3)"
    using hmv3_forward_Inr_parts [OF fwd] by blast
  obtain d2 where lp2: "enum_loop (fusion_step bk F de (hmv2c2_key (length (w2_blocks_down net2)))) 0
                          (v3_blocks_down net3) (e, []) = Inr (e3, d2)"
    and outs: "\<forall>k. map_of d3 (''up3_'' @ nat_str k) = map_of d2 (''up2_v2_'' @ nat_str k)"
    using hmv3_loop_simulation [OF lp, of "hmv2c2_key (length (w2_blocks_down net2))" "''up2_v2_''"]
    by (auto simp: hmv2c2_key_def eqs)
  have "hmv2c2_forward bk net2 condition emo = Inr d2"
    using shp ce dr lp2 miss by (auto simp: hmv2c2_forward_def hmv3_drive_embedding_def eqs)
  with outs show ?thesis by blast
qed

text \<open>C3. HMV3ControlNet in emotion mode refines HMV2ControlNet2: built with the
  same arguments and given the same condition and \<open>emo_embedding\<close>, with
  \<open>drive_coeff\<close> or \<open>face_parts\<close> missing, whenever HMV3's forward pass returns,
  HMV2ControlNet2's returns too, and HMV3's output under \<open>up3_k\<close> is
  HMV2ControlNet2's output under \<open>up2_v2_k\<close> for every \<open>k\<close>.\<close>

theorem hmv3_emo_mode_refines_hmv2c2:
  assumes i3: "hmv3_init ec ic sf cad boc = Inr net3"
    and i2: "hmv2c2_init ec ic sf cad boc = Inr net2"
    and miss: "drive_coeff = None \<or> face_parts = None"
    and fwd: "hmv3_forward bk net3 condition drive_coeff face_parts (Some emo) = Inr d3"
  shows "\<exists>d2. hmv2c2_forward bk net2 condition emo = Inr d2 \<and>
           (\<forall>k. map_of d3 (''up3_'' @ nat_str k) = map_of d2 (''up2_v2_'' @ nat_str k))"
  using assms by (rule hmv3_emo_mode_simulation)

theorem hmv3_emo_mode_refines_hmv2c2_witness:
  "\<exists>d3 d2. hmv3_forward demo_backend (projr (hmv3_init 1 1 4 2 [2, 3]))
       \<lparr>shape = [1, 1, 1, 4, 4], data = replicate 16 0\<rparr> None None
       (Some \<lparr>shape = [1, 1, 1], data = [1]\<rparr>) = Inr d3 \<and>
     hmv2c2_forward demo_backend (projr (hmv2c2_init 1 1 4 2 [2, 3]))
       \<lparr>shape = [1, 1, 1, 4, 4], data = replicate 16 0\<rparr> \<lparr>shape = [1, 1, 1], data = [1]\<rparr> = Inr d2 \<and>
     (\<forall>k. map_of d3 (''up3_'' @ nat_str k) = map_of d2 (''up2_v2_'' @ nat_str k))"
proof -
  let ?f = "hmv3_forward demo_backend (projr (hmv3_init 1 1 4 2 [2, 3]))
       \<lparr>shape = [1, 1, 1, 4, 4], data = replicate 16 0\<rparr> None None
       (Some \<lparr>shape = [1, 1, 1], data = [1 :: int]\<rparr>)"
  have "\<not> isl ?f" by code_simp
  then obtain d3 where fwd: "?f = Inr d3" by (cases ?f) auto
  have "hmv3_init 1 1 4 2 [2, 3] = Inr (projr (hmv3_init 1 1 4 2 [2, 3]))"
    "hmv2c2_init 1 1 4 2 [2, 3] = Inr (projr (hmv2c2_init 1 1 4 2 [2, 3]))"
    by (simp_all add: hmv3_init_def hmv2c2_init_def)
  then show ?thesis using hmv3_emo_mode_refines_hmv2c2 [OF _ _ _ fwd] fwd by blast
qed

text \<open>C4. HMV3ControlNet in emotion mode reproduces the first-generation emotion network
  HMControlNet2: built with the same arguments and given the same condition and
  \<open>emo_embedding\<close>, with \<open>drive_coeff\<close> or \<open>face_parts\<close> missing, whenever HMV3's
  forward pass returns, HMControlNet2's returns too, with the keys \<open>down2_0\<close>, ...,
  \<open>down2_{n-1}\<close>, and HMV3's output under \<open>up3_{n-1-k}\<close> is HMControlNet2's under
  \<open>down2_k\<close> for each of the \<open>n\<close> blocks.\<close>

theorem hmv3_emo_mode_refines_hm_control2:
  assumes i3: "hmv3_init ec ic sf cad boc = Inr net3"
    and i1: "hm_control2_init ec ic sf cad boc = Inr net1"
    and miss: "drive_coeff = None \<or> face_parts = None"
    and fwd: "hmv3_forward bk net3 condition drive_coeff face_parts (Some emo) = Inr d3"
  shows "\<exists>d1. hm_control2_forward bk net1 condition emo = Inr d1 \<and>
           dict_keys d1 = map hm_control2_key [0..<length boc - 1] \<and>
           (\<forall>k < length boc - 1. map_of d3 (hmv3_key (length boc - 1) k) = map_of d1 (hm_control2_key k))"
proof -
  let ?n = "length boc - 1"
  have "boc \<noteq> []" using i1 by (simp add: hm_control2_init_def split: if_splits)
  then have i2: "hmv2c2_init ec ic sf cad boc = Inr (projr (hmv2c2_init ec ic sf cad boc))"
    by (simp add: hmv2c2_init_def)
  obtain d2 where f2: "hmv2c2_forward bk (projr (hmv2c2_init ec ic sf cad boc)) condition emo = Inr d2"
    and o32: "\<forall>k. map_of d3 (''up3_'' @ nat_str k) = map_of d2 (''up2_v2_'' @ nat_str k)"
    using hmv3_emo_mode_simulation [OF i3 i2 miss fwd] by blast
  have "rel_sum (=) (rekeyed hm_control2_key (hmv2c2_key ?n) ?n)
          (hm_control2_forward bk net1 condition emo) (Inr d2)"
    using hmv2c2_hm_control2_rekeyed [OF i1 i2, of bk condition emo] f2 by simp
  then obtain d1 where f1: "hm_control2_forward bk net1 condition emo = Inr d1"
    and r: "rekeyed hm_control2_key (hmv2c2_key ?n) ?n d1 d2"
    by (cases "hm_control2_forward bk net1 condition emo") auto
  have "map_of d3 (hmv3_key ?n k) = map_of d1 (hm_control2_key k)" if "k < ?n" for k
  proof -
    have "map_of d3 (hmv3_key ?n k) = map_of d2 (hmv2c2_key ?n k)"
      using o32 by (simp add: hmv3_key_def hmv2c2_key_def)
    also have "\<dots> = map_of d1 (hm_control2_key k)"
      by (rule rekeyed_map_of [OF r inj_on_hm_control2_key inj_on_hmv2c2_key that])
    finally show ?thesis .
  qed
  with f1 r show ?thesis by (auto simp: rekeyed_def)
qed

theorem hmv3_emo_mode_refines_hm_control2_witness:
  "\<exists>d3 d1. hmv3_forward demo_backend (projr (hmv3_init 1 1 4 2 [2, 3]))
       \<lparr>shape = [1, 1, 1, 4, 4], data = replicate 16 0\<rparr> None None
       (Some \<lparr>shape = [1, 1, 1], data = [1]\<rparr>) = Inr d3 \<and>
     hm_control2_forward demo_backend (projr (hm_control2_init 1 1 4 2 [2, 3]))
       \<lparr>shape = [1, 1, 1, 4, 4], data = replicate 16 0\<rparr> \<lparr>shape = [1, 1, 1], data = [1]\<rparr> = Inr d1 \<and>
     map_of d3 (''up3_'' @ nat_str 0) = map_of d1 (''down2_'' @ nat_str 0)"
proof -
  let ?f = "hmv3_forward demo_backend (projr (hmv3_init 1 1 4 2 [2, 3]))
       \<lparr>shape = [1, 1, 1, 4, 4], data = replicate 16 0\<rparr> None None
       (Some \<lparr>shape = [1, 1, 1], data = [1 :: int]\<rparr>)"
  have "\<not> isl ?f" by code_simp
  then obtain d3 where fwd: "?f = Inr d3" by (cases ?f) auto
  have "hmv3_init 1 1 4 2 [2, 3] = Inr (projr (hmv3_init 1 1 4 2 [2, 3]))"
    "hm_control2_init 1 1 4 2 [2, 3] = Inr (projr (hm_control2_init 1 1 4 2 [2, 3]))"
    by (simp_all add: hmv3_init_def hm_control2_init_def)
  note r = hmv3_emo_mode_refines_hm_control2 [OF this disjI1 fwd, OF refl]
  have n: "length [2, 3 :: nat] - 1 = 1" by simp
  from r [unfolded n] obtain d1 where
    "hm_control2_forward demo_backend (projr (hm_control2_init 1 1 4 2 [2, 3]))
       \<lparr>shape = [1, 1, 1, 4, 4], data = replicate 16 0\<rparr> \<lparr>shape = [1, 1, 1], data = [1]\<rparr> = Inr d1"
    and "map_of d3 (hmv3_key 1 0) = map_of d1 (hm_control2_key 0)"
    by blast
  then show ?thesis using fwd by (auto simp: hmv3_key_def hm_control2_key_def)
qed

end
